theory Spec2Isabelle
  imports Main "HOL-Library.Sublist"
begin

section \<open>JavaScript strings and values used by the server\<close>

text \<open>
  A JavaScript string is modelled as a \<^typ>\<open>string\<close>, one \<^typ>\<open>char\<close> per code unit
  (the code units below 256). An optional string (a value that may be \<^verbatim>\<open>undefined\<close>
  or \<^verbatim>\<open>null\<close>) is a \<^typ>\<open>string option\<close>; JavaScript's truthiness of such a value
  is \<open>truthy\<close>, and \<^verbatim>\<open>a || b\<close> is \<open>or_else\<close>.
\<close>

definition truthy :: "string option \<Rightarrow> bool" where
  "truthy v = (case v of None \<Rightarrow> False | Some s \<Rightarrow> s \<noteq> [])"

definition or_else :: "string option \<Rightarrow> string option \<Rightarrow> string option" where
  "or_else a b = (if truthy a then a else b)"

text \<open>\<^verbatim>\<open>String.prototype.toLowerCase\<close> on code units below 256.\<close>

definition lower_char :: "char \<Rightarrow> char" where
  "lower_char c =
     (let n = (of_char c :: nat) in
      if (65 \<le> n \<and> n \<le> 90) \<or> (192 \<le> n \<and> n \<le> 222 \<and> n \<noteq> 215)
      then char_of (n + 32) else c)"

definition toLowerCase :: "string \<Rightarrow> string" where
  "toLowerCase s = map lower_char s"

text \<open>\<^verbatim>\<open>hay.includes(needle)\<close>: the needle occurs as a contiguous run of the haystack.\<close>

definition startsWith :: "string \<Rightarrow> string \<Rightarrow> bool" where
  "startsWith hay needle = (take (length needle) hay = needle)"

fun str_includes :: "string \<Rightarrow> string \<Rightarrow> bool" where
  "str_includes [] needle = (needle = [])"
| "str_includes (c # cs) needle = (startsWith (c # cs) needle \<or> str_includes cs needle)"

text \<open>\<^verbatim>\<open>String.prototype.trim\<close>: white space and line terminators among the code units below 256.\<close>

definition is_space :: "char \<Rightarrow> bool" where
  "is_space c = ((of_char c :: nat) \<in> {9, 10, 11, 12, 13, 32, 160})"

definition trim :: "string \<Rightarrow> string" where
  "trim s = rev (dropWhile is_space (rev (dropWhile is_space s)))"

text \<open>\<^verbatim>\<open>s.split('\n')\<close>: never empty; the last element is the text after the last newline.\<close>

fun split_nl :: "string \<Rightarrow> string list" where
  "split_nl [] = [[]]"
| "split_nl (c # cs) =
     (if c = CHR 0x0A then [] # split_nl cs
      else (c # hd (split_nl cs)) # tl (split_nl cs))"

text \<open>\<^verbatim>\<open>lines.join('\n')\<close>.\<close>

fun join_nl :: "string list \<Rightarrow> string" where
  "join_nl [] = []"
| "join_nl [l] = l"
| "join_nl (l # ls) = l @ [CHR 0x0A] @ join_nl ls"

text \<open>Decimal rendering of a number, as \<^verbatim>\<open>Date.now().toString()\<close> and template literals do.\<close>

definition digit_char :: "nat \<Rightarrow> char" where
  "digit_char d = ''0123456789'' ! d"

function toString_nat :: "nat \<Rightarrow> string" where
  "toString_nat n = (if n < 10 then [digit_char n] else toString_nat (n div 10) @ [digit_char (n mod 10)])"
  by pat_completeness auto
termination
  by (relation "measure id") auto

declare toString_nat.simps [simp del]

definition toString_int :: "int \<Rightarrow> string" where
  "toString_int i = (if i < 0 then CHR ''-'' # toString_nat (nat (- i)) else toString_nat (nat i))"

section \<open>Provider configuration (server/cli-config.js)\<close>

text \<open>
  The module constant \<^verbatim>\<open>provider\<close> is computed once from the environment variable
  \<^verbatim>\<open>CLI_PROVIDER\<close>; \<open>normalizeProvider\<close> maps a caller's provider tag to one of the
  four tags the configuration knows.
\<close>

definition module_provider :: "string option \<Rightarrow> string" where
  "module_provider env_CLI_PROVIDER =
     (let rawProvider = toLowerCase (the (or_else env_CLI_PROVIDER (Some ''gemini'')))
      in if rawProvider = ''codex'' then ''codex''
         else if rawProvider = ''webllm'' then ''webllm''
         else if rawProvider = ''claude'' then ''claude''
         else ''gemini'')"

definition normalizeProvider :: "string option \<Rightarrow> string option \<Rightarrow> string" where
  "normalizeProvider env_CLI_PROVIDER providerOverride =
     (if \<not> truthy providerOverride then module_provider env_CLI_PROVIDER
      else let p = toLowerCase (the providerOverride)
           in if p = ''codex'' then ''codex''
              else if p = ''claude'' then ''claude''
              else if p = ''webllm'' then ''webllm''
              else ''gemini'')"



text \<open>The display label \<^verbatim>\<open>providerLabel\<close> of \<^verbatim>\<open>spawnGemini\<close>.\<close>

definition providerLabel :: "string \<Rightarrow> string" where
  "providerLabel cliProvider =
     (if cliProvider = ''codex'' then ''Codex''
      else if cliProvider = ''claude'' then ''Claude''
      else if cliProvider = ''ollama'' then ''Ollama''
      else if cliProvider = ''bmad'' then ''BMAD''
      else ''Gemini'')"

section \<open>The registry of active processes and abort\<close>

text \<open>
  \<^verbatim>\<open>activeGeminiProcesses\<close> is a JavaScript \<^verbatim>\<open>Map\<close>: keys are unique and iteration
  follows insertion order, so it is an association list. A process handle is a number.
\<close>

type_synonym proc = nat
type_synonym registry = "(string \<times> proc) list"

datatype signal = SIGTERM | SIGKILL

fun reg_get :: "registry \<Rightarrow> string \<Rightarrow> proc option" where
  "reg_get [] k = None"
| "reg_get ((k', p) # r) k = (if k' = k then Some p else reg_get r k)"

definition reg_has :: "registry \<Rightarrow> string \<Rightarrow> bool" where
  "reg_has r k = (reg_get r k \<noteq> None)"

fun reg_set :: "string \<Rightarrow> proc \<Rightarrow> registry \<Rightarrow> registry" where
  "reg_set k p [] = [(k, p)]"
| "reg_set k p ((k', p') # r) = (if k' = k then (k, p) # r else (k', p') # reg_set k p r)"

definition reg_delete :: "string \<Rightarrow> registry \<Rightarrow> registry" where
  "reg_delete k r = filter (\<lambda>e. fst e \<noteq> k) r"

text \<open>The fallback loop of \<^verbatim>\<open>abortGeminiSession\<close>: the first entry, in insertion order,
  whose key contains the session id or is contained in it.\<close>

fun find_by_substring :: "string \<Rightarrow> registry \<Rightarrow> (string \<times> proc) option" where
  "find_by_substring sessionId [] = None"
| "find_by_substring sessionId ((key, pr) # r) =
     (if str_includes key sessionId \<or> str_includes sessionId key then Some (key, pr)
      else find_by_substring sessionId r)"

definition resolve_process :: "string \<Rightarrow> registry \<Rightarrow> (string \<times> proc) option" where
  "resolve_process sessionId r =
     (case reg_get r sessionId of
        Some pr \<Rightarrow> Some (sessionId, pr)
      | None \<Rightarrow> find_by_substring sessionId r)"

text \<open>
  The outcome of one call of \<^verbatim>\<open>abortGeminiSession\<close>: the value returned, the registry
  left behind, the signals sent during the call, and the force-kill timer scheduled for
  2000 ms later (the matched key and the process captured by the callback), if any.
  \<open>kill_throws\<close> says whether \<^verbatim>\<open>process.kill('SIGTERM')\<close> throws; the \<^verbatim>\<open>catch\<close> branch
  then deletes the key and returns false, before any timer is scheduled.
\<close>

record abort_result =
  returned :: bool
  registry_after :: registry
  signals_sent :: "(proc \<times> signal) list"
  force_kill_timer :: "(string \<times> proc) option"

definition abortGeminiSession :: "bool \<Rightarrow> string \<Rightarrow> registry \<Rightarrow> abort_result" where
  "abortGeminiSession kill_throws sessionId r =
     (case resolve_process sessionId r of
        None \<Rightarrow> \<lparr>returned = False, registry_after = r, signals_sent = [], force_kill_timer = None\<rparr>
      | Some (processKey, pr) \<Rightarrow>
          if kill_throws
          then \<lparr>returned = False, registry_after = reg_delete processKey r,
                signals_sent = [], force_kill_timer = None\<rparr>
          else \<lparr>returned = True, registry_after = reg_delete processKey r,
                signals_sent = [(pr, SIGTERM)], force_kill_timer = Some (processKey, pr)\<rparr>)"

text \<open>The callback of the force-kill timer, run on the registry as it is when the timer fires.\<close>

definition force_kill_callback :: "string \<times> proc \<Rightarrow> registry \<Rightarrow> (proc \<times> signal) list" where
  "force_kill_callback tk r = (if reg_has r (fst tk) then [(snd tk, SIGKILL)] else [])"

section \<open>One turn of spawnGemini as an event-driven state machine\<close>

text \<open>
  Everything a handler of \<^verbatim>\<open>spawnGemini\<close> does to the outside is an effect, logged in
  the order the code performs it: a message sent on the web socket, a call of the session
  manager, a call of the response handler (the buffering object created per turn), a signal
  sent to the child process, a file-system operation, and the settling of the promise that
  \<^verbatim>\<open>spawnGemini\<close> returned.
\<close>

datatype ws_event =
    GeminiError string
  | GeminiResponse string
  | SessionCreated string
  | GeminiComplete "int option" bool

datatype store_call =
    CreateSession string string string
  | AddMessage string string string
  | SetExternalSessionId string string

datatype handler_call = ProcessData string | ForceFlush | Destroy

datatype settlement = Resolved | Rejected string

datatype effect =
    WsSend ws_event
  | Store store_call
  | Handler handler_call
  | Kill proc signal
  | Mkdir string
  | WriteFile string
  | Unlink string
  | RmRecursive string
  | Settle settlement

text \<open>
  A line of Codex output after \<^verbatim>\<open>JSON.parse\<close>: the fields the stdout handler reads
  (\<^verbatim>\<open>type\<close>, \<^verbatim>\<open>thread_id\<close>, \<^verbatim>\<open>item.type\<close>, \<^verbatim>\<open>item.text\<close>, \<^verbatim>\<open>error.message\<close>,
  \<^verbatim>\<open>message\<close>), each a string or absent.
\<close>

record codex_event =
  ev_type :: "string option"
  ev_thread_id :: "string option"
  ev_item_type :: "string option"
  ev_item_text :: "string option"
  ev_error_message :: "string option"
  ev_message :: "string option"

text \<open>
  \<^verbatim>\<open>JSON.parse\<close> itself belongs to the JavaScript runtime and is a parameter of the model.
  It has three outcomes: it throws a \<^verbatim>\<open>SyntaxError\<close>; it returns \<^verbatim>\<open>null\<close> (the text
  \<^verbatim>\<open>null\<close> is valid JSON), and reading a property of \<^verbatim>\<open>null\<close> throws a
  \<^verbatim>\<open>TypeError\<close>; or it returns another value, of which the handlers read the fields
  above (a number, a string, a boolean or an array has none of them). Field values that are
  not strings are outside the model.
\<close>

datatype json_result = SyntaxError | JsonNull | JsonValue codex_event

datatype js_error = TypeError

text \<open>
  The runtime functions a turn depends on: \<open>json_parse\<close> as above, and \<open>sanitize\<close>, the
  composition \<^verbatim>\<open>stripOllamaSpinner(sanitizeCliOutput(_))\<close> that only the Ollama provider
  uses (regular expressions over escape sequences and Braille code points, kept abstract).
\<close>

record runtime =
  json_parse :: "string \<Rightarrow> json_result"
  sanitize :: "string \<Rightarrow> string"

text \<open>The variables of one invocation of \<^verbatim>\<open>spawnGemini\<close> that its handlers read and write.\<close>

record turn =
  cliProvider :: string
  command :: "string option"
  sessionId :: "string option"
  cwd :: "string option"
  process_cwd :: string
  geminiProcess :: proc
  processKey :: string
  capturedSessionId :: "string option"
  sessionCreatedSent :: bool
  fullResponse :: string
  pendingExternalSessionId :: "string option"
  hasReceivedOutput :: bool
  timeoutPending :: bool
  hasResponseHandler :: bool
  outputBuffer :: string
  codexLineBuffer :: string
  codexStderrBuffer :: string
  tempImagePaths :: "string list"
  tempDir :: "string option"
  promise :: "settlement option"

definition timeoutMs :: "string \<Rightarrow> nat" where
  "timeoutMs provider =
     (if provider = ''codex'' then 120000
      else if provider = ''ollama'' then 120000
      else if provider = ''bmad'' then 120000
      else 30000)"

definition sessionPrefix :: "string \<Rightarrow> string" where
  "sessionPrefix provider =
     (if provider = ''codex'' then ''codex''
      else if provider = ''claude'' then ''claude''
      else if provider = ''ollama'' then ''ollama''
      else if provider = ''bmad'' then ''bmad''
      else ''gemini'')"

text \<open>\<^verbatim>\<open>capturedSessionId || sessionId || processKey\<close>, the key the close and error handlers delete.\<close>

definition finalSessionId :: "turn \<Rightarrow> string" where
  "finalSessionId t =
     the (or_else (capturedSessionId t) (or_else (sessionId t) (Some (processKey t))))"

text \<open>\<^verbatim>\<open>fullResponse += (fullResponse ? '\n' : '') + content\<close>.\<close>

definition append_response :: "string \<Rightarrow> turn \<Rightarrow> turn" where
  "append_response content t =
     t\<lparr>fullResponse := fullResponse t @ (if fullResponse t \<noteq> [] then [CHR 0x0A] else []) @ content\<rparr>"

text \<open>Streaming one piece of text: through the response handler when there is one, else directly.\<close>

definition emit_content :: "turn \<Rightarrow> string \<Rightarrow> effect list" where
  "emit_content t content =
     (if hasResponseHandler t then [Handler (ProcessData content)]
      else [WsSend (GeminiResponse content)])"

text \<open>Settling the promise: only the first \<^verbatim>\<open>resolve\<close> or \<^verbatim>\<open>reject\<close> takes effect.\<close>

definition settle :: "settlement \<Rightarrow> turn \<Rightarrow> turn" where
  "settle v t = (case promise t of None \<Rightarrow> t\<lparr>promise := Some v\<rparr> | Some _ \<Rightarrow> t)"

subsection \<open>Starting the turn\<close>

text \<open>
  The part of \<^verbatim>\<open>spawnGemini\<close> after the child process has been spawned: the process is
  registered under \<^verbatim>\<open>capturedSessionId || sessionId || Date.now().toString()\<close>, the timer
  is started, the user message is saved when the session is already known, and the response
  handler is created for every provider but Ollama (the web socket is always present).
\<close>

definition spawn_turn ::
  "string \<Rightarrow> string option \<Rightarrow> string option \<Rightarrow> string option \<Rightarrow> string \<Rightarrow> proc \<Rightarrow> nat
     \<Rightarrow> string list \<Rightarrow> string option \<Rightarrow> registry \<Rightarrow> (turn \<times> registry) \<times> effect list" where
  "spawn_turn provider cmd sid dir pcwd pr now paths tdir reg =
     (let key = the (or_else sid (or_else sid (Some (toString_nat now))));
          t = \<lparr>cliProvider = provider, command = cmd, sessionId = sid, cwd = dir,
               process_cwd = pcwd, geminiProcess = pr, processKey = key,
               capturedSessionId = sid, sessionCreatedSent = False, fullResponse = [],
               pendingExternalSessionId = None, hasReceivedOutput = False,
               timeoutPending = True, hasResponseHandler = (provider \<noteq> ''ollama''),
               outputBuffer = [], codexLineBuffer = [], codexStderrBuffer = [],
               tempImagePaths = paths, tempDir = tdir, promise = None\<rparr>
      in ((t, reg_set key pr reg),
          (if truthy cmd \<and> truthy sid then [Store (AddMessage (the sid) ''user'' (the cmd))] else [])))"

subsection \<open>The stdout handler\<close>

text \<open>
  One iteration of the loop over the complete lines of Codex output. Only the call of
  \<^verbatim>\<open>JSON.parse\<close> is inside the \<^verbatim>\<open>try\<close>: a line that does not parse is skipped, but
  for a line that parses to \<^verbatim>\<open>null\<close> the first \<^verbatim>\<open>event.type\<close> throws a
  \<^verbatim>\<open>TypeError\<close> that nothing in the handler catches. Nothing has been written at that
  point of the iteration.
\<close>

definition codex_line :: "runtime \<Rightarrow> string \<Rightarrow> turn \<Rightarrow> js_error + turn \<times> effect list" where
  "codex_line rt line t =
     (let trimmed = trim line in
      if trimmed = [] then Inr (t, [])
      else case json_parse rt trimmed of
        SyntaxError \<Rightarrow> Inr (t, [])
      | JsonNull \<Rightarrow> Inl TypeError
      | JsonValue event \<Rightarrow> Inr
          (let started = (ev_type event = Some ''thread.started'' \<and> truthy (ev_thread_id event));
               t1 = (if started then t\<lparr>pendingExternalSessionId := ev_thread_id event\<rparr> else t);
               fx1 = (if started \<and> truthy (capturedSessionId t)
                      then [Store (SetExternalSessionId (the (capturedSessionId t)) (the (ev_thread_id event)))]
                      else []);
               content = (if ev_type event = Some ''item.completed'' \<and> ev_item_type event = Some ''agent_message''
                          then the (or_else (ev_item_text event) (Some [])) else []);
               t2 = (if content \<noteq> [] then append_response content t1 else t1);
               fx2 = (if content \<noteq> [] then emit_content t1 content else []);
               fx3 = (if ev_type event = Some ''turn.failed'' \<or> ev_type event = Some ''error''
                      then [WsSend (GeminiError (the (or_else (ev_error_message event)
                              (or_else (ev_message event) (Some ''Codex CLI error'')))))]
                      else [])
           in (t2, fx1 @ fx2 @ fx3)))"

text \<open>
  The loop: the variables and the effects when it ends, and the exception if an iteration
  threw one, which ends the loop with what the iterations before it did.
\<close>

fun codex_lines :: "runtime \<Rightarrow> string list \<Rightarrow> turn \<Rightarrow> (turn \<times> effect list) \<times> js_error option" where
  "codex_lines rt [] t = ((t, []), None)"
| "codex_lines rt (l # ls) t =
     (case codex_line rt l t of
        Inl err \<Rightarrow> ((t, []), Some err)
      | Inr (t1, fx1) \<Rightarrow>
          (let ((t2, fx2), thrown) = codex_lines rt ls t1 in ((t2, fx1 @ fx2), thrown)))"

definition is_debug_line :: "string \<Rightarrow> bool" where
  "is_debug_line line =
     (str_includes line ''[DEBUG]'' \<or> str_includes line ''Flushing log events''
      \<or> str_includes line ''Clearcut response'' \<or> str_includes line ''[MemoryDiscovery]''
      \<or> str_includes line ''[BfsFileSearch]'' \<or> str_includes line ''Loaded cached credentials'')"

text \<open>
  The provider-specific part of the stdout handler, with the exception that left it, if any:
  only the Codex branch can throw.
\<close>

definition stdout_content ::
  "runtime \<Rightarrow> string \<Rightarrow> turn \<Rightarrow> (turn \<times> effect list) \<times> js_error option" where
  "stdout_content rt rawOutput t =
     (if cliProvider t = ''codex'' then
        (let lines = split_nl (codexLineBuffer t @ rawOutput);
             t1 = t\<lparr>codexLineBuffer := last lines\<rparr>
         in codex_lines rt (butlast lines) t1)
      else if cliProvider t = ''gemini'' then
        (let filteredOutput = trim (join_nl (filter (\<lambda>l. \<not> is_debug_line l) (split_nl rawOutput)))
         in if filteredOutput \<noteq> [] then ((append_response filteredOutput t, emit_content t filteredOutput), None)
            else ((t, []), None))
      else if cliProvider t = ''ollama'' then
        (let sanitizedOutput = sanitize rt rawOutput
         in if trim sanitizedOutput \<noteq> [] then ((t\<lparr>fullResponse := fullResponse t @ sanitizedOutput\<rparr>, []), None)
            else ((t, []), None))
      else
        (let trimmedOutput = trim rawOutput
         in if trimmedOutput \<noteq> [] then ((append_response trimmedOutput t, emit_content t trimmedOutput), None)
            else ((t, []), None)))"

text \<open>The end of the stdout handler: the session of a turn that was started without one.\<close>

definition create_session :: "nat \<Rightarrow> turn \<times> registry \<Rightarrow> (turn \<times> registry) \<times> effect list" where
  "create_session now s =
     (let t = fst s; reg = snd s in
      if \<not> truthy (sessionId t) \<and> \<not> sessionCreatedSent t \<and> \<not> truthy (capturedSessionId t) then
        (let newId = sessionPrefix (cliProvider t) @ ''_'' @ toString_nat now;
             t1 = t\<lparr>capturedSessionId := Some newId, sessionCreatedSent := True\<rparr>;
             reg1 = (if processKey t \<noteq> newId
                     then reg_set newId (geminiProcess t) (reg_delete (processKey t) reg) else reg)
         in ((t1, reg1),
             [Store (CreateSession newId (the (or_else (cwd t) (Some (process_cwd t)))) (cliProvider t))]
             @ (if truthy (command t) then [Store (AddMessage newId ''user'' (the (command t)))] else [])
             @ (if truthy (pendingExternalSessionId t)
                then [Store (SetExternalSessionId newId (the (pendingExternalSessionId t)))] else [])
             @ [WsSend (SessionCreated newId)]))
      else (s, []))"

text \<open>
  The stdout handler. An exception thrown by the provider-specific part leaves the handler:
  what was written and sent before stays, and the rest of the handler, the creation of the
  session, is not executed for this chunk. The other handlers of the turn stay installed;
  what the server process does with the uncaught exception is outside the model.
\<close>

definition on_stdout :: "runtime \<Rightarrow> string \<Rightarrow> nat \<Rightarrow> turn \<times> registry \<Rightarrow> (turn \<times> registry) \<times> effect list" where
  "on_stdout rt rawOutput now s =
     (let t0 = (fst s)\<lparr>outputBuffer := outputBuffer (fst s) @ rawOutput,
                      hasReceivedOutput := True, timeoutPending := False\<rparr>;
          ((t1, fx1), thrown) = stdout_content rt rawOutput t0
      in case thrown of
           Some err \<Rightarrow> ((t1, snd s), fx1)
         | None \<Rightarrow> (let (s2, fx2) = create_session now (t1, snd s) in (s2, fx1 @ fx2)))"

subsection \<open>The stderr handler, the timer, close and error\<close>

definition is_suppressed_stderr :: "string \<Rightarrow> bool" where
  "is_suppressed_stderr errorMsg =
     (str_includes errorMsg ''[DEP0040]'' \<or> str_includes errorMsg ''DeprecationWarning''
      \<or> str_includes errorMsg ''--trace-deprecation'' \<or> str_includes errorMsg ''Loaded cached credentials'')"

definition on_stderr :: "runtime \<Rightarrow> string \<Rightarrow> turn \<times> registry \<Rightarrow> (turn \<times> registry) \<times> effect list" where
  "on_stderr rt errorMsg s =
     (let t = fst s in
      if is_suppressed_stderr errorMsg then (s, [])
      else if cliProvider t = ''codex''
        then ((t\<lparr>codexStderrBuffer := codexStderrBuffer t @ errorMsg\<rparr>, snd s), [])
      else if cliProvider t = ''ollama''
        then (let sanitizedError = trim (sanitize rt errorMsg)
              in if sanitizedError = [] then (s, []) else (s, [WsSend (GeminiError sanitizedError)]))
      else (s, [WsSend (GeminiError errorMsg)]))"

definition timeout_message :: "string \<Rightarrow> string" where
  "timeout_message provider = providerLabel provider @ '' CLI timeout - no response received''"

text \<open>
  The moment \<open>timeoutMs\<close> milliseconds after the start: the runtime runs the callback of
  \<^verbatim>\<open>setTimeout\<close> unless \<^verbatim>\<open>clearTimeout\<close> was called before, and never a second time.
\<close>

definition on_timeout :: "turn \<times> registry \<Rightarrow> (turn \<times> registry) \<times> effect list" where
  "on_timeout s =
     (let t = fst s in
      if timeoutPending t then
        ((t\<lparr>timeoutPending := False\<rparr>, snd s),
         (if \<not> hasReceivedOutput t
          then [WsSend (GeminiError (timeout_message (cliProvider t))), Kill (geminiProcess t) SIGTERM]
          else []))
      else (s, []))"

text \<open>The exit code of the close event is a number, or \<^verbatim>\<open>null\<close> when a signal ended the process.\<close>

definition show_code :: "int option \<Rightarrow> string" where
  "show_code code = (case code of None \<Rightarrow> ''null'' | Some c \<Rightarrow> toString_int c)"

definition exit_message :: "string \<Rightarrow> int option \<Rightarrow> string" where
  "exit_message provider code = providerLabel provider @ '' CLI exited with code '' @ show_code code"

text \<open>
  The Codex line still in the buffer when the process closes counts towards the response.
  Here the whole block is inside the \<^verbatim>\<open>try\<close>, so both exceptions are caught.
\<close>

definition close_codex_rest :: "runtime \<Rightarrow> turn \<Rightarrow> turn" where
  "close_codex_rest rt t =
     (if cliProvider t = ''codex'' \<and> trim (codexLineBuffer t) \<noteq> [] then
        (case json_parse rt (trim (codexLineBuffer t)) of
           SyntaxError \<Rightarrow> t
         | JsonNull \<Rightarrow> t
         | JsonValue event \<Rightarrow>
             if ev_type event = Some ''item.completed'' \<and> ev_item_type event = Some ''agent_message''
                \<and> truthy (ev_item_text event)
             then append_response (the (ev_item_text event)) t else t)
      else t)"

definition cleanup_effects :: "turn \<Rightarrow> effect list" where
  "cleanup_effects t =
     (if tempImagePaths t \<noteq> [] then
        map Unlink (tempImagePaths t)
        @ (if truthy (tempDir t) then [RmRecursive (the (tempDir t))] else [])
      else [])"

definition on_close :: "runtime \<Rightarrow> int option \<Rightarrow> turn \<times> registry \<Rightarrow> (turn \<times> registry) \<times> effect list" where
  "on_close rt code s =
     (let t1 = close_codex_rest rt ((fst s)\<lparr>timeoutPending := False\<rparr>);
          final = finalSessionId t1;
          outcome = (if code = Some 0 then Resolved else Rejected (exit_message (cliProvider t1) code))
      in ((settle outcome t1, reg_delete final (snd s)),
          (if hasResponseHandler t1 then [Handler ForceFlush, Handler Destroy] else [])
          @ (if final \<noteq> [] \<and> fullResponse t1 \<noteq> []
             then [Store (AddMessage final ''assistant'' (fullResponse t1))] else [])
          @ (if cliProvider t1 = ''codex'' \<and> code \<noteq> Some 0 \<and> trim (codexStderrBuffer t1) \<noteq> []
             then [WsSend (GeminiError (trim (codexStderrBuffer t1)))] else [])
          @ (if cliProvider t1 = ''ollama'' \<and> trim (fullResponse t1) \<noteq> []
             then [WsSend (GeminiResponse (trim (fullResponse t1)))] else [])
          @ [WsSend (GeminiComplete code (\<not> truthy (sessionId t1) \<and> truthy (command t1)))]
          @ cleanup_effects t1
          @ [Settle outcome]))"

definition on_error :: "string \<Rightarrow> turn \<times> registry \<Rightarrow> (turn \<times> registry) \<times> effect list" where
  "on_error message s =
     (let t = fst s in
      ((settle (Rejected message) t, reg_delete (finalSessionId t) (snd s)),
       [WsSend (GeminiError message), Settle (Rejected message)]))"

subsection \<open>Runs of a turn\<close>

text \<open>
  What can happen to a running turn: a chunk on stdout (with the value of \<^verbatim>\<open>Date.now()\<close>
  when it is handled), a chunk on stderr, the timeout window elapsing, the close event
  with its exit code, and the error event with its message.
\<close>

datatype event =
    Stdout string nat
  | Stderr string
  | WindowElapsed
  | Close "int option"
  | ProcError string

fun step :: "runtime \<Rightarrow> event \<Rightarrow> turn \<times> registry \<Rightarrow> (turn \<times> registry) \<times> effect list" where
  "step rt (Stdout rawOutput now) s = on_stdout rt rawOutput now s"
| "step rt (Stderr errorMsg) s = on_stderr rt errorMsg s"
| "step rt WindowElapsed s = on_timeout s"
| "step rt (Close code) s = on_close rt code s"
| "step rt (ProcError message) s = on_error message s"

text \<open>A run handles the events in order; \<open>run_log\<close> keeps, for each event, the effects of its handler.\<close>

fun run :: "runtime \<Rightarrow> event list \<Rightarrow> turn \<times> registry \<Rightarrow> turn \<times> registry" where
  "run rt [] s = s"
| "run rt (e # es) s = run rt es (fst (step rt e s))"

fun run_log :: "runtime \<Rightarrow> event list \<Rightarrow> turn \<times> registry \<Rightarrow> (event \<times> effect list) list" where
  "run_log rt [] s = []"
| "run_log rt (e # es) s = (e, snd (step rt e s)) # run_log rt es (fst (step rt e s))"

definition effects_of :: "(event \<times> effect list) list \<Rightarrow> effect list" where
  "effects_of lg = concat (map snd lg)"

subsection \<open>Observations on runs\<close>

text \<open>The effects of the timer callback in a run: those logged for the window elapsing.\<close>

definition timer_effects :: "(event \<times> effect list) list \<Rightarrow> effect list" where
  "timer_effects lg = concat (map snd (filter (\<lambda>entry. fst entry = WindowElapsed) lg))"

text \<open>
  Whether the window elapses before the first stdout chunk and before the close event:
  stderr chunks and error events do not count.
\<close>

fun elapses_first :: "event list \<Rightarrow> bool" where
  "elapses_first [] = False"
| "elapses_first (WindowElapsed # es) = True"
| "elapses_first (Stdout d n # es) = False"
| "elapses_first (Close c # es) = False"
| "elapses_first (Stderr m # es) = elapses_first es"
| "elapses_first (ProcError m # es) = elapses_first es"

fun is_kill :: "effect \<Rightarrow> bool" where
  "is_kill (Kill p sg) = True"
| "is_kill _ = False"

fun is_stdout :: "event \<Rightarrow> bool" where
  "is_stdout (Stdout d n) = True"
| "is_stdout _ = False"

text \<open>
  What the child process does, each with the time in milliseconds, counted from the call of
  \<^verbatim>\<open>setTimeout\<close>, at which its handler runs. The runtime runs the callback of the timer
  once the window has elapsed: after the handlers of what happened before that moment and
  before the handlers of everything else (an event at the very moment the window elapses is
  taken to be handled after the callback). \<open>timeline\<close> is the order in which a turn with
  the given window handles the events.
\<close>

datatype process_event =
    Out string nat
  | Err string
  | Exit "int option"
  | Failed string

fun handled_as :: "process_event \<Rightarrow> event" where
  "handled_as (Out rawOutput now) = Stdout rawOutput now"
| "handled_as (Err errorMsg) = Stderr errorMsg"
| "handled_as (Exit code) = Close code"
| "handled_as (Failed message) = ProcError message"

fun timeline :: "nat \<Rightarrow> (nat \<times> process_event) list \<Rightarrow> event list" where
  "timeline window [] = [WindowElapsed]"
| "timeline window (h # rest) =
     (if fst h < window then handled_as (snd h) # timeline window rest
      else WindowElapsed # map (\<lambda>x. handled_as (snd x)) (h # rest))"

fun is_out_or_exit :: "process_event \<Rightarrow> bool" where
  "is_out_or_exit (Out rawOutput now) = True"
| "is_out_or_exit (Exit code) = True"
| "is_out_or_exit _ = False"

text \<open>
  The variables that the provider-specific part of the stdout handler never writes: a turn
  with the three variables it does write blanked out.
\<close>

definition frame :: "turn \<Rightarrow> turn" where
  "frame t = t\<lparr>fullResponse := [], pendingExternalSessionId := None, codexLineBuffer := []\<rparr>"

text \<open>The value of \<^verbatim>\<open>Date.now()\<close> at the first stdout chunk of a run, if there is one.\<close>

fun first_stdout :: "event list \<Rightarrow> nat option" where
  "first_stdout [] = None"
| "first_stdout (Stdout d n # es) = Some n"
| "first_stdout (e # es) = first_stdout es"

text \<open>
  Whether the handler of a stdout chunk runs to its end in a state of the turn, and the value
  of \<^verbatim>\<open>Date.now()\<close> at the first stdout chunk of a run whose handler does.
\<close>

definition stdout_completes :: "runtime \<Rightarrow> string \<Rightarrow> turn \<times> registry \<Rightarrow> bool" where
  "stdout_completes rt rawOutput s =
     (snd (stdout_content rt rawOutput
            ((fst s)\<lparr>outputBuffer := outputBuffer (fst s) @ rawOutput,
                     hasReceivedOutput := True, timeoutPending := False\<rparr>)) = None)"

fun first_completed_stdout :: "runtime \<Rightarrow> event list \<Rightarrow> turn \<times> registry \<Rightarrow> nat option" where
  "first_completed_stdout rt [] s = None"
| "first_completed_stdout rt (Stdout d n # es) s =
     (if stdout_completes rt d s then Some n
      else first_completed_stdout rt es (fst (step rt (Stdout d n) s)))"
| "first_completed_stdout rt (e # es) s = first_completed_stdout rt es (fst (step rt e s))"

text \<open>
  The effects that start a session: creating the session record, saving the user message,
  and announcing the session to the client.
\<close>

fun is_session_start :: "effect \<Rightarrow> bool" where
  "is_session_start (Store (CreateSession i d p)) = True"
| "is_session_start (Store (AddMessage i role m)) = (role = ''user'')"
| "is_session_start (WsSend (SessionCreated i)) = True"
| "is_session_start _ = False"

text \<open>The variables of a turn that only the session creation at the end of the stdout handler writes,
  together with those nothing writes.\<close>

definition session_vars ::
  "turn \<Rightarrow> (string \<times> string option \<times> string option \<times> string option \<times> string \<times> proc \<times> string)
            \<times> string option \<times> bool" where
  "session_vars t =
     ((cliProvider t, command t, sessionId t, cwd t, process_cwd t, geminiProcess t, processKey t),
      capturedSessionId t, sessionCreatedSent t)"

text \<open>The variables of a turn that no handler writes.\<close>

definition static_vars :: "turn \<Rightarrow> string \<times> string option \<times> string option \<times> proc \<times> bool \<times> string" where
  "static_vars t =
     (cliProvider t, command t, sessionId t, geminiProcess t, hasResponseHandler t, processKey t)"

text \<open>Calls of the response handler and the terminal event of a turn.\<close>

fun is_handler_or_complete :: "effect \<Rightarrow> bool" where
  "is_handler_or_complete (Handler h) = True"
| "is_handler_or_complete (WsSend (GeminiComplete c n)) = True"
| "is_handler_or_complete _ = False"

fun is_assistant_message :: "effect \<Rightarrow> bool" where
  "is_assistant_message (Store (AddMessage i role m)) = (role = ''assistant'')"
| "is_assistant_message _ = False"

fun is_close_or_error :: "event \<Rightarrow> bool" where
  "is_close_or_error (Close c) = True"
| "is_close_or_error (ProcError m) = True"
| "is_close_or_error _ = False"

text \<open>
  The registry and a turn agree when the turn has a non-empty key
  \<^verbatim>\<open>capturedSessionId || sessionId || processKey\<close> and its process is registered under
  no other key.
\<close>

definition registered_only_under_key :: "turn \<times> registry \<Rightarrow> bool" where
  "registered_only_under_key s =
     (finalSessionId (fst s) \<noteq> []
      \<and> (\<forall>e \<in> set (snd s). snd e = geminiProcess (fst s) \<longrightarrow> fst e = finalSessionId (fst s)))"

text \<open>Storing the external session id on a session, and streaming a chunk.\<close>

fun is_set_external :: "effect \<Rightarrow> bool" where
  "is_set_external (Store (SetExternalSessionId i x)) = True"
| "is_set_external _ = False"

fun is_chunk :: "effect \<Rightarrow> bool" where
  "is_chunk (Handler (ProcessData c)) = True"
| "is_chunk (WsSend (GeminiResponse c)) = True"
| "is_chunk _ = False"

section \<open>Building the command line for the Gemini provider\<close>








text \<open>
  The note about attached images that every provider but Codex gets appended to a non-empty
  prompt. Its text (not ASCII) is a parameter: \<open>imageNote\<close> maps the staged paths to the note.
  The statement that appends it is the last one inside the \<^verbatim>\<open>try\<close> block that stages
  the images, after the loop: it is executed only when that block was entered (images were
  given and the provider is not BMAD) and neither \<^verbatim>\<open>fs.mkdir\<close> nor a \<^verbatim>\<open>fs.writeFile\<close>
  threw. \<open>staged\<close> says so; it is the third component of the result of \<open>stage_images\<close> below.
\<close>

definition prompt_with_images ::
  "(string list \<Rightarrow> string) \<Rightarrow> string \<Rightarrow> bool \<Rightarrow> string list \<Rightarrow> string \<Rightarrow> string" where
  "prompt_with_images imageNote provider staged paths prompt =
     (if staged \<and> provider \<noteq> ''codex'' \<and> paths \<noteq> [] \<and> prompt \<noteq> []
      then prompt @ imageNote paths else prompt)"


section \<open>Staging image attachments and cleaning up\<close>

text \<open>
  \<^verbatim>\<open>image.data.match(/^data:([^;]+);base64,(.+)$/)\<close>: the text up to the first semicolon
  is the MIME type, and the payload is the non-empty rest, free of line terminators.
\<close>

definition match_data_url :: "string \<Rightarrow> (string \<times> string) option" where
  "match_data_url d =
     (if startsWith d ''data:'' then
        (let rest = drop 5 d;
             mimeType = takeWhile (\<lambda>c. c \<noteq> CHR '';'') rest;
             after = dropWhile (\<lambda>c. c \<noteq> CHR '';'') rest;
             base64Data = drop 8 after
         in if mimeType \<noteq> [] \<and> startsWith after '';base64,'' \<and> base64Data \<noteq> []
               \<and> CHR 0x0A \<notin> set base64Data \<and> CHR 0x0D \<notin> set base64Data
            then Some (mimeType, base64Data) else None)
      else None)"

text \<open>\<^verbatim>\<open>mimeType.split('/')[1] || 'png'\<close>.\<close>

definition extension_of :: "string \<Rightarrow> string" where
  "extension_of mimeType =
     (let second = takeWhile (\<lambda>c. c \<noteq> CHR ''/'') (drop 1 (dropWhile (\<lambda>c. c \<noteq> CHR ''/'') mimeType))
      in if second \<noteq> [] then second else ''png'')"

definition tempDirName :: "string \<Rightarrow> string" where
  "tempDirName provider =
     (if provider = ''codex'' then ''codex_tmp_images''
      else if provider = ''claude'' then ''claude_tmp_images''
      else if provider = ''ollama'' then ''ollama_tmp_images''
      else if provider = ''bmad'' then ''bmad_tmp_images''
      else ''gemini_tmp_images'')"

text \<open>
  The loop over the images: an image whose data does not match is skipped, a matching one is
  written to \<^verbatim>\<open>image_<index>.<extension>\<close> in the temp directory and its path recorded.
  \<open>write_ok\<close> says whether \<^verbatim>\<open>fs.writeFile\<close> succeeds for a path; a failure throws, which
  ends the loop with the paths recorded so far. The result is the recorded paths, the
  file-system effects, and whether the loop ran to its end.
\<close>

fun stage_loop ::
  "(string \<Rightarrow> bool) \<Rightarrow> string \<Rightarrow> nat \<Rightarrow> string list \<Rightarrow> string list \<times> effect list \<times> bool" where
  "stage_loop write_ok dir index [] = ([], [], True)"
| "stage_loop write_ok dir index (d # rest) =
     (case match_data_url d of
        None \<Rightarrow> stage_loop write_ok dir (index + 1) rest
      | Some m \<Rightarrow>
          (let filepath = dir @ ''/'' @ ''image_'' @ toString_nat index @ ''.'' @ extension_of (fst m)
           in if write_ok filepath
              then (filepath # fst (stage_loop write_ok dir (index + 1) rest),
                    WriteFile filepath # fst (snd (stage_loop write_ok dir (index + 1) rest)),
                    snd (snd (stage_loop write_ok dir (index + 1) rest)))
              else ([], [], False)))"

text \<open>
  Staging as a whole: the staged paths, the temp directory (set as soon as images are given,
  even if creating it fails), whether the \<^verbatim>\<open>try\<close> block was entered and ran to the
  statement after the loop, and the file-system effects. Paths are joined with a slash; the
  working directory is taken to be normalised.
\<close>

definition stage_images ::
  "string \<Rightarrow> (string \<Rightarrow> bool) \<Rightarrow> bool \<Rightarrow> string \<Rightarrow> nat \<Rightarrow> string list option
     \<Rightarrow> (string list \<times> string option \<times> bool) \<times> effect list" where
  "stage_images provider write_ok mkdir_ok workingDir now images =
     (case images of
        None \<Rightarrow> (([], None, False), [])
      | Some ds \<Rightarrow>
          if ds \<noteq> [] \<and> provider \<noteq> ''bmad'' then
            (let dir = workingDir @ ''/'' @ tempDirName provider @ ''/'' @ toString_nat now
             in if mkdir_ok
                then ((fst (stage_loop write_ok dir 0 ds), Some dir, snd (snd (stage_loop write_ok dir 0 ds))),
                      Mkdir dir # fst (snd (stage_loop write_ok dir 0 ds)))
                else (([], Some dir, False), []))
          else (([], None, False), []))"

text \<open>The prompt after staging: the note is appended by the staging block itself.\<close>

definition staged_prompt ::
  "(string list \<Rightarrow> string) \<Rightarrow> string \<Rightarrow> (string \<Rightarrow> bool) \<Rightarrow> bool \<Rightarrow> string \<Rightarrow> nat
     \<Rightarrow> string list option \<Rightarrow> string \<Rightarrow> string" where
  "staged_prompt imageNote provider write_ok mkdir_ok workingDir now images prompt =
     (let st = fst (stage_images provider write_ok mkdir_ok workingDir now images)
      in prompt_with_images imageNote provider (snd (snd st)) (fst st) prompt)"

text \<open>The file system as the set of paths that exist, and what the effects do to it when they succeed.\<close>

fun fs_apply :: "string set \<Rightarrow> effect \<Rightarrow> string set" where
  "fs_apply fs (Mkdir d) = insert d fs"
| "fs_apply fs (WriteFile p) = insert p fs"
| "fs_apply fs (Unlink p) = fs - {p}"
| "fs_apply fs (RmRecursive d) = {p \<in> fs. p \<noteq> d \<and> \<not> startsWith p (d @ ''/'')}"
| "fs_apply fs _ = fs"

definition fs_after :: "effect list \<Rightarrow> string set \<Rightarrow> string set" where
  "fs_after fx fs = foldl fs_apply fs fx"

section \<open>Project names (projects.js)\<close>

text \<open>
  Base64 as the runtime's \<^verbatim>\<open>Buffer\<close> implements it. Encoding with \<^verbatim>\<open>base64url\<close> uses the
  URL-safe alphabet and writes no padding. Decoding accepts both alphabets, skips characters
  outside them, stops at a padding character, and never fails. Bytes are numbers below 256.
\<close>

definition base64url_chars :: string where
  "base64url_chars = ''ABCDEFGHIJKLMNOPQRSTUVWXYZabcdefghijklmnopqrstuvwxyz0123456789-_''"

definition base64_chars :: string where
  "base64_chars = ''ABCDEFGHIJKLMNOPQRSTUVWXYZabcdefghijklmnopqrstuvwxyz0123456789+/''"

definition enc6 :: "nat \<Rightarrow> char" where
  "enc6 v = base64url_chars ! v"

fun to_sextets :: "nat list \<Rightarrow> nat list" where
  "to_sextets [] = []"
| "to_sextets [a] = [a div 4, (a mod 4) * 16]"
| "to_sextets [a, b] = [a div 4, (a mod 4) * 16 + b div 16, (b mod 16) * 4]"
| "to_sextets (a # b # c # rest) =
     [a div 4, (a mod 4) * 16 + b div 16, (b mod 16) * 4 + c div 64, c mod 64] @ to_sextets rest"

fun index_of :: "char \<Rightarrow> string \<Rightarrow> nat option" where
  "index_of c [] = None"
| "index_of c (x # xs) = (if x = c then Some 0 else map_option Suc (index_of c xs))"

definition unbase64 :: "char \<Rightarrow> nat option" where
  "unbase64 c = (case index_of c base64url_chars of Some v \<Rightarrow> Some v | None \<Rightarrow> index_of c base64_chars)"

definition sextets_of :: "string \<Rightarrow> nat list" where
  "sextets_of s = List.map_filter unbase64 (takeWhile (\<lambda>c. c \<noteq> CHR ''='') s)"

fun from_sextets :: "nat list \<Rightarrow> nat list" where
  "from_sextets (a # b # c # d # rest) =
     [a * 4 + b div 16, (b mod 16) * 16 + c div 4, (c mod 4) * 64 + d] @ from_sextets rest"
| "from_sextets [a, b, c] = [a * 4 + b div 16, (b mod 16) * 16 + c div 4]"
| "from_sextets [a, b] = [a * 4 + b div 16]"
| "from_sextets _ = []"

text \<open>\<^verbatim>\<open>Buffer.from(string)\<close>: the UTF-8 bytes of a string of code units below 256.\<close>

definition utf8_bytes :: "string \<Rightarrow> nat list" where
  "utf8_bytes s =
     concat (map (\<lambda>c. let n = (of_char c :: nat)
                       in if n < 128 then [n] else [192 + n div 64, 128 + n mod 64]) s)"

text \<open>
  \<^verbatim>\<open>buffer.toString('utf8')\<close>. A byte below 128 is the character itself. Bytes from 128 on
  decode to code units outside the printable ASCII range, which the only caller deletes
  right away; the model keeps such a byte as it is, and the caller deletes it as well.
\<close>

definition utf8_string :: "nat list \<Rightarrow> string" where
  "utf8_string bs = map char_of bs"

definition encodeProjectPathToName :: "string \<Rightarrow> string" where
  "encodeProjectPathToName absolutePath = map enc6 (to_sextets (utf8_bytes absolutePath))"

text \<open>\<^verbatim>\<open>tryDecode\<close>: \<open>None\<close> stands for \<^verbatim>\<open>null\<close>, returned when decoding throws, which it never does.\<close>

definition tryDecode :: "string \<Rightarrow> string option" where
  "tryDecode name = Some (utf8_string (from_sextets (sextets_of name)))"

text \<open>\<^verbatim>\<open>projectName.replace(/[_-]+$/, '')\<close>.\<close>

definition strip_trailing :: "string \<Rightarrow> string" where
  "strip_trailing name = rev (dropWhile (\<lambda>c. c = CHR ''_'' \<or> c = CHR ''-'') (rev name))"

text \<open>\<^verbatim>\<open>projectName.replace(/_/g, '+').replace(/-/g, '/')\<close>.\<close>

definition legacy_name :: "string \<Rightarrow> string" where
  "legacy_name name = map (\<lambda>c. if c = CHR ''-'' then CHR ''/'' else if c = CHR ''_'' then CHR ''+'' else c) name"

definition is_printable :: "char \<Rightarrow> bool" where
  "is_printable c = (32 \<le> (of_char c :: nat) \<and> (of_char c :: nat) \<le> 126)"

text \<open>\<^verbatim>\<open>path.isAbsolute\<close> on a POSIX system.\<close>

definition isAbsolute :: "string \<Rightarrow> bool" where
  "isAbsolute p = (p \<noteq> [] \<and> hd p = CHR ''/'')"

text \<open>
  \<open>decodeProjectNameToPath\<close>, with \<^verbatim>\<open>fs.existsSync\<close> as the parameter \<open>existsSync\<close>.
  The result \<open>None\<close> is \<^verbatim>\<open>null\<close>.
\<close>

definition decodeProjectNameToPath :: "(string \<Rightarrow> bool) \<Rightarrow> string \<Rightarrow> string option" where
  "decodeProjectNameToPath existsSync projectName =
     (if projectName = [] then None
      else
        (let base64UrlCandidate = strip_trailing projectName;
             first = (case tryDecode base64UrlCandidate of Some d \<Rightarrow> Some d | None \<Rightarrow> tryDecode projectName);
             decoded = (if \<not> truthy first then tryDecode (legacy_name projectName) else first)
         in if \<not> truthy decoded then None
            else
              (let cleaned = trim (filter is_printable (the decoded));
                   minusOne = butlast cleaned;
                   minusTwo = butlast (butlast cleaned)
               in if isAbsolute cleaned then
                    (if existsSync cleaned then Some cleaned
                     else if minusOne \<noteq> [] \<and> existsSync minusOne then Some minusOne
                     else if minusTwo \<noteq> [] \<and> existsSync minusTwo then Some minusTwo
                     else Some cleaned)
                  else Some cleaned)))"

section \<open>Properties of the provider configuration\<close>

lemma normalizeProvider_range:
  "normalizeProvider e p \<in> {''codex'', ''claude'', ''webllm'', ''gemini''}"
  by (simp add: normalizeProvider_def module_provider_def Let_def)

text \<open>
  Claim C8, as stated: a turn with an unknown provider tag is rejected. It is not: the tag
  \<open>mistral\<close> is none of the known ones, \<open>normalizeProvider\<close> turns it into \<open>gemini\<close>, and
  the turn starts under that provider, with its process registered and its timer running.
\<close>

theorem unknown_provider_runs_as_gemini:
  "normalizeProvider None (Some ''mistral'') = ''gemini''
   \<and> cliProvider (fst (fst (spawn_turn (normalizeProvider None (Some ''mistral''))
         (Some ''hi'') None None ''/w'' 1 5 [] None []))) = ''gemini''
   \<and> snd (fst (spawn_turn (normalizeProvider None (Some ''mistral''))
         (Some ''hi'') None None ''/w'' 1 5 [] None [])) = [(''5'', 1)]"
  by (simp add: normalizeProvider_def truthy_def toLowerCase_def lower_char_def
      spawn_turn_def or_else_def Let_def digit_char_def toString_nat.simps)

text \<open>
  Claim C8, amended: no provider tag is rejected. \<open>normalizeProvider\<close> always returns one of
  the four tags \<open>codex\<close>, \<open>claude\<close>, \<open>webllm\<close>, \<open>gemini\<close>, and a tag that is not one of
  the first three (in any letter case) makes the turn run under \<open>gemini\<close>.
\<close>

theorem normalizeProvider_defaults_to_gemini:
  "normalizeProvider e v \<in> {''codex'', ''claude'', ''webllm'', ''gemini''}
   \<and> (p \<noteq> [] \<and> toLowerCase p \<notin> {''codex'', ''claude'', ''webllm''}
        \<longrightarrow> normalizeProvider e (Some p) = ''gemini'')"
  by (simp add: normalizeProvider_def module_provider_def truthy_def Let_def)

text \<open>The tag \<open>Mistral\<close> is unknown and is resolved to \<open>gemini\<close>.\<close>

theorem normalizeProvider_defaults_to_gemini_witness:
  "''Mistral'' \<noteq> [] \<and> toLowerCase ''Mistral'' \<notin> {''codex'', ''claude'', ''webllm''}
   \<and> normalizeProvider None (Some ''Mistral'') = ''gemini''"
  using normalizeProvider_defaults_to_gemini [of None None "''Mistral''"]
  by (simp add: toLowerCase_def lower_char_def)

section \<open>Properties of the registry and of abort\<close>

lemma reg_get_delete: "reg_get (reg_delete k r) k' = (if k' = k then None else reg_get r k')"
  by (induction r) (auto simp: reg_delete_def)

lemma reg_get_set: "reg_get (reg_set k p r) k' = (if k' = k then Some p else reg_get r k')"
  by (induction r) auto

lemma reg_get_None_iff: "reg_get r k = None \<longleftrightarrow> k \<notin> fst ` set r"
  by (induction r k rule: reg_get.induct) (auto split: if_splits)

lemma reg_get_Some_mem: "reg_get r k = Some p \<Longrightarrow> (k, p) \<in> set r"
  by (induction r k rule: reg_get.induct) (auto split: if_splits)

lemma set_reg_delete: "set (reg_delete k r) = {e \<in> set r. fst e \<noteq> k}"
  by (auto simp: reg_delete_def)

lemma str_includes_refl: "str_includes s s"
  by (cases s) (simp_all add: startsWith_def)

lemma find_by_substring_Some:
  "find_by_substring sid r = Some (k, p) \<Longrightarrow>
     (k, p) \<in> set r \<and> (str_includes k sid \<or> str_includes sid k)"
  by (induction r) (auto split: if_splits)

lemma find_by_substring_None:
  "find_by_substring sid r = None \<longleftrightarrow>
     (\<forall>k \<in> fst ` set r. \<not> str_includes k sid \<and> \<not> str_includes sid k)"
  by (induction r) (auto split: if_splits)

lemma resolve_process_Some:
  "resolve_process sid r = Some (k, p) \<Longrightarrow>
     (k, p) \<in> set r \<and> (str_includes k sid \<or> str_includes sid k)"
  by (auto simp: resolve_process_def str_includes_refl split: option.splits
      dest: reg_get_Some_mem find_by_substring_Some)

lemma resolve_process_None:
  "resolve_process sid r = None \<longleftrightarrow>
     (\<forall>k \<in> fst ` set r. \<not> str_includes k sid \<and> \<not> str_includes sid k)"
proof
  assume "resolve_process sid r = None"
  then show "\<forall>k \<in> fst ` set r. \<not> str_includes k sid \<and> \<not> str_includes sid k"
    by (simp add: resolve_process_def find_by_substring_None split: option.splits)
next
  assume none: "\<forall>k \<in> fst ` set r. \<not> str_includes k sid \<and> \<not> str_includes sid k"
  have "reg_get r sid = None"
  proof (rule ccontr)
    assume "reg_get r sid \<noteq> None"
    then have "sid \<in> fst ` set r" by (simp add: reg_get_None_iff)
    with none have "\<not> str_includes sid sid" by blast
    then show False by (simp add: str_includes_refl)
  qed
  with none show "resolve_process sid r = None"
    by (simp add: resolve_process_def find_by_substring_None)
qed

text \<open>
  Claim C3, as stated, fails in two ways. With two registered keys of which one contains
  the other, aborting the session of the first removes that key and returns true, but the
  second key is still registered and the same lookup still resolves the session to it.
  And when sending the signal throws, a process was found but the call returns false.
\<close>

theorem abort_leaves_resolvable_key:
  "returned (abortGeminiSession False ''gemini_1700000000000''
      [(''gemini_1700000000000'', 1), (''1700000000000'', 2)])
   \<and> registry_after (abortGeminiSession False ''gemini_1700000000000''
      [(''gemini_1700000000000'', 1), (''1700000000000'', 2)]) = [(''1700000000000'', 2)]
   \<and> resolve_process ''gemini_1700000000000'' [(''1700000000000'', 2)] = Some (''1700000000000'', 2)
   \<and> resolve_process ''gemini_1700000000000'' [(''gemini_1700000000000'', 1)] \<noteq> None
   \<and> \<not> returned (abortGeminiSession True ''gemini_1700000000000'' [(''gemini_1700000000000'', 1)])"
  by (simp add: abortGeminiSession_def resolve_process_def reg_delete_def startsWith_def)

text \<open>
  Claim C3, amended. A call of \<open>abortGeminiSession\<close> looks the session up by exact key and,
  failing that, takes the first registered key that contains the session id or is contained
  in it. When an entry is found, the matched key is no longer registered when the call
  returns, whether or not the signal could be sent; the call returns true exactly when an entry
  was found and sending SIGTERM did not throw; when nothing is found the registry is unchanged.
  No key resolvable to the session remains registered provided the matched key was the only
  registered key related to the session id by containment.
\<close>

theorem abort_removes_matched_key:
  "resolve_process sid r =
     (case reg_get r sid of Some p \<Rightarrow> Some (sid, p) | None \<Rightarrow> find_by_substring sid r)
   \<and> (resolve_process sid r = None \<longrightarrow>
        \<not> returned (abortGeminiSession kill_throws sid r)
        \<and> registry_after (abortGeminiSession kill_throws sid r) = r)
   \<and> (\<forall>k p. resolve_process sid r = Some (k, p) \<longrightarrow>
        (k, p) \<in> set r \<and> (k = sid \<or> str_includes k sid \<or> str_includes sid k)
        \<and> registry_after (abortGeminiSession kill_throws sid r) = reg_delete k r
        \<and> \<not> reg_has (registry_after (abortGeminiSession kill_throws sid r)) k
        \<and> (returned (abortGeminiSession kill_throws sid r) \<longleftrightarrow> \<not> kill_throws)
        \<and> ((\<forall>k' \<in> fst ` set r. k' \<noteq> k \<longrightarrow> \<not> str_includes k' sid \<and> \<not> str_includes sid k')
             \<longrightarrow> resolve_process sid (registry_after (abortGeminiSession kill_throws sid r)) = None))
   \<and> (returned (abortGeminiSession kill_throws sid r)
        \<longleftrightarrow> resolve_process sid r \<noteq> None \<and> \<not> kill_throws)"
proof (intro conjI allI impI)
  show "resolve_process sid r =
     (case reg_get r sid of Some p \<Rightarrow> Some (sid, p) | None \<Rightarrow> find_by_substring sid r)"
    by (simp add: resolve_process_def)
next
  assume "resolve_process sid r = None"
  then show "\<not> returned (abortGeminiSession kill_throws sid r)"
    and "registry_after (abortGeminiSession kill_throws sid r) = r"
    by (simp_all add: abortGeminiSession_def)
next
  fix k p assume found: "resolve_process sid r = Some (k, p)"
  from resolve_process_Some [OF found]
  show "(k, p) \<in> set r" and "k = sid \<or> str_includes k sid \<or> str_includes sid k"
    by simp_all
  from found show after: "registry_after (abortGeminiSession kill_throws sid r) = reg_delete k r"
    by (simp add: abortGeminiSession_def)
  show "\<not> reg_has (registry_after (abortGeminiSession kill_throws sid r)) k"
    by (simp add: after reg_has_def reg_get_delete)
  from found show "returned (abortGeminiSession kill_throws sid r) \<longleftrightarrow> \<not> kill_throws"
    by (simp add: abortGeminiSession_def)
  assume only: "\<forall>k' \<in> fst ` set r. k' \<noteq> k \<longrightarrow> \<not> str_includes k' sid \<and> \<not> str_includes sid k'"
  show "resolve_process sid (registry_after (abortGeminiSession kill_throws sid r)) = None"
    unfolding after resolve_process_None set_reg_delete using only by auto
next
  show "returned (abortGeminiSession kill_throws sid r)
        \<longleftrightarrow> resolve_process sid r \<noteq> None \<and> \<not> kill_throws"
    by (auto simp: abortGeminiSession_def split: option.splits)
qed

text \<open>A session id that is a part of the only registered key: the entry is found by containment, the call returns true and leaves an empty registry; an unrelated id finds nothing.\<close>

theorem abort_removes_matched_key_witness:
  "resolve_process ''1700000000000'' [(''gemini_1700000000000'', 7)] = Some (''gemini_1700000000000'', 7)
   \<and> returned (abortGeminiSession False ''1700000000000'' [(''gemini_1700000000000'', 7)])
   \<and> registry_after (abortGeminiSession False ''1700000000000'' [(''gemini_1700000000000'', 7)]) = []
   \<and> resolve_process ''1700000000000''
        (registry_after (abortGeminiSession False ''1700000000000'' [(''gemini_1700000000000'', 7)])) = None
   \<and> resolve_process ''nosuch'' [(''gemini_1700000000000'', 7)] = None
   \<and> \<not> returned (abortGeminiSession False ''nosuch'' [(''gemini_1700000000000'', 7)])"
proof -
  have found: "resolve_process ''1700000000000'' [(''gemini_1700000000000'', 7)]
                 = Some (''gemini_1700000000000'', 7)"
    by (simp add: resolve_process_def startsWith_def)
  have missing: "resolve_process ''nosuch'' [(''gemini_1700000000000'', 7)] = None"
    by (simp add: resolve_process_def startsWith_def)
  have only: "\<forall>k' \<in> fst ` set [(''gemini_1700000000000'', 7 :: nat)]. k' \<noteq> ''gemini_1700000000000''
         \<longrightarrow> \<not> str_includes k' ''1700000000000'' \<and> \<not> str_includes ''1700000000000'' k'"
    by simp
  from abort_removes_matched_key [of "''1700000000000''" "[(''gemini_1700000000000'', 7)]" False]
    abort_removes_matched_key [of "''nosuch''" "[(''gemini_1700000000000'', 7)]" False]
    found missing only
  show ?thesis by (simp add: reg_delete_def startsWith_def resolve_process_def)
qed

text \<open>
  Claim C10, as stated: after a successful abort the force-kill callback never sends SIGKILL.
  It does when the matched key is registered again before the timer fires: the session
  \<open>gemini_17\<close> is aborted (process 1 gets SIGTERM, the key is deleted), a new turn for the
  same session registers process 2 under the same key within the two seconds, and the
  callback, finding the key registered, sends SIGKILL to process 1.
\<close>

theorem force_kill_after_reregistration:
  "returned (abortGeminiSession False ''gemini_17'' [(''gemini_17'', 1)])
   \<and> registry_after (abortGeminiSession False ''gemini_17'' [(''gemini_17'', 1)]) = []
   \<and> signals_sent (abortGeminiSession False ''gemini_17'' [(''gemini_17'', 1)]) = [(1, SIGTERM)]
   \<and> force_kill_timer (abortGeminiSession False ''gemini_17'' [(''gemini_17'', 1)]) = Some (''gemini_17'', 1)
   \<and> snd (fst (spawn_turn ''gemini'' (Some ''next'') (Some ''gemini_17'') None ''/w'' 2 1700000000500 [] None
        (registry_after (abortGeminiSession False ''gemini_17'' [(''gemini_17'', 1)])))) = [(''gemini_17'', 2)]
   \<and> force_kill_callback (''gemini_17'', 1) [(''gemini_17'', 2)] = [(1, SIGKILL)]"
  by (simp add: abortGeminiSession_def resolve_process_def reg_delete_def spawn_turn_def
      or_else_def truthy_def force_kill_callback_def reg_has_def Let_def)

text \<open>
  Claim C10, amended. When \<open>abortGeminiSession\<close> returns true, a process was found under a
  matched key, SIGTERM is the only signal sent during the call, and the key is deleted before
  the call returns. The force-kill callback therefore sends nothing when it runs on the
  registry as the call left it, or on any registry in which the matched key is not
  registered; it sends SIGKILL to the aborted process exactly when the matched key is
  registered again at the time the timer fires.
\<close>

theorem force_kill_needs_registered_key:
  assumes "returned (abortGeminiSession kill_throws sid r)"
  shows "\<exists>k p. resolve_process sid r = Some (k, p)
           \<and> force_kill_timer (abortGeminiSession kill_throws sid r) = Some (k, p)
           \<and> signals_sent (abortGeminiSession kill_throws sid r) = [(p, SIGTERM)]
           \<and> \<not> reg_has (registry_after (abortGeminiSession kill_throws sid r)) k
           \<and> force_kill_callback (k, p) (registry_after (abortGeminiSession kill_throws sid r)) = []
           \<and> (\<forall>r'. force_kill_callback (k, p) r' = (if reg_has r' k then [(p, SIGKILL)] else []))"
proof -
  from assms obtain k p where found: "resolve_process sid r = Some (k, p)"
    by (cases "resolve_process sid r") (auto simp: abortGeminiSession_def)
  with assms have nothrow: "\<not> kill_throws"
    by (auto simp: abortGeminiSession_def split: if_splits)
  have after: "registry_after (abortGeminiSession kill_throws sid r) = reg_delete k r"
    using found by (simp add: abortGeminiSession_def)
  have gone: "\<not> reg_has (reg_delete k r) k"
    by (simp add: reg_has_def reg_get_delete)
  show ?thesis
    using found nothrow gone
    by (simp add: abortGeminiSession_def force_kill_callback_def)
qed

text \<open>An abort by exact key with a second, unrelated session registered: SIGTERM is sent, and the callback sends nothing on the registry the call left.\<close>

theorem force_kill_needs_registered_key_witness:
  "returned (abortGeminiSession False ''gemini_17'' [(''gemini_17'', 1), (''gemini_18'', 2)])
   \<and> (\<exists>k p. resolve_process ''gemini_17'' [(''gemini_17'', 1), (''gemini_18'', 2)] = Some (k, p)
           \<and> signals_sent (abortGeminiSession False ''gemini_17'' [(''gemini_17'', 1), (''gemini_18'', 2)])
                = [(p, SIGTERM)]
           \<and> force_kill_callback (k, p)
                (registry_after (abortGeminiSession False ''gemini_17'' [(''gemini_17'', 1), (''gemini_18'', 2)])) = [])"
proof -
  have ret: "returned (abortGeminiSession False ''gemini_17'' [(''gemini_17'', 1), (''gemini_18'', 2)])"
    by (simp add: abortGeminiSession_def resolve_process_def)
  from force_kill_needs_registered_key [OF ret] ret show ?thesis by blast
qed

section \<open>What the handlers leave unchanged\<close>

text \<open>
  The provider-specific part of the stdout handler writes only the response text, the pending
  external session id and the Codex line buffer; the other handlers leave the provider, the
  process and the flags of the timer as stated below.
\<close>

lemma codex_line_frame: "codex_line rt l t = Inr r \<Longrightarrow> frame (fst r) = frame t"
  by (auto simp: codex_line_def Let_def append_response_def frame_def
      split: json_result.splits if_splits)

lemma codex_lines_frame: "frame (fst (fst (codex_lines rt ls t))) = frame t"
proof (induction ls arbitrary: t)
  case Nil
  show ?case by simp
next
  case (Cons l ls)
  show ?case
  proof (cases "codex_line rt l t")
    case (Inl e)
    then show ?thesis by simp
  next
    case (Inr r)
    then show ?thesis
      using Cons.IH [of "fst r"] codex_line_frame [OF Inr]
      by (simp add: split_beta)
  qed
qed

lemma stdout_content_frame: "frame (fst (fst (stdout_content rt raw t))) = frame t"
proof -
  have "frame (t\<lparr>codexLineBuffer := b\<rparr>) = frame t" for b by (simp add: frame_def)
  then show ?thesis
    using codex_lines_frame
    by (simp add: stdout_content_def Let_def append_response_def)
       (simp add: frame_def)
qed

lemma frame_fields:
  assumes "frame a = frame b"
  shows "cliProvider a = cliProvider b" "geminiProcess a = geminiProcess b"
    "timeoutPending a = timeoutPending b" "hasReceivedOutput a = hasReceivedOutput b"
    "sessionId a = sessionId b" "capturedSessionId a = capturedSessionId b"
    "sessionCreatedSent a = sessionCreatedSent b" "command a = command b"
    "cwd a = cwd b" "process_cwd a = process_cwd b" "processKey a = processKey b"
    "hasResponseHandler a = hasResponseHandler b" "tempImagePaths a = tempImagePaths b"
    "tempDir a = tempDir b" "promise a = promise b" "codexStderrBuffer a = codexStderrBuffer b"
    "outputBuffer a = outputBuffer b"
proof -
  have f: "g (frame a) = g (frame b)" for g :: "turn \<Rightarrow> 'x" using assms by simp
  show "cliProvider a = cliProvider b" using f [of cliProvider] by (simp add: frame_def)
  show "geminiProcess a = geminiProcess b" using f [of geminiProcess] by (simp add: frame_def)
  show "timeoutPending a = timeoutPending b" using f [of timeoutPending] by (simp add: frame_def)
  show "hasReceivedOutput a = hasReceivedOutput b" using f [of hasReceivedOutput] by (simp add: frame_def)
  show "sessionId a = sessionId b" using f [of sessionId] by (simp add: frame_def)
  show "capturedSessionId a = capturedSessionId b" using f [of capturedSessionId] by (simp add: frame_def)
  show "sessionCreatedSent a = sessionCreatedSent b" using f [of sessionCreatedSent] by (simp add: frame_def)
  show "command a = command b" using f [of command] by (simp add: frame_def)
  show "cwd a = cwd b" using f [of cwd] by (simp add: frame_def)
  show "process_cwd a = process_cwd b" using f [of process_cwd] by (simp add: frame_def)
  show "processKey a = processKey b" using f [of processKey] by (simp add: frame_def)
  show "hasResponseHandler a = hasResponseHandler b" using f [of hasResponseHandler] by (simp add: frame_def)
  show "tempImagePaths a = tempImagePaths b" using f [of tempImagePaths] by (simp add: frame_def)
  show "tempDir a = tempDir b" using f [of tempDir] by (simp add: frame_def)
  show "promise a = promise b" using f [of promise] by (simp add: frame_def)
  show "codexStderrBuffer a = codexStderrBuffer b" using f [of codexStderrBuffer] by (simp add: frame_def)
  show "outputBuffer a = outputBuffer b" using f [of outputBuffer] by (simp add: frame_def)
qed

lemmas stdout_content_fields = frame_fields [OF stdout_content_frame]

lemma create_session_fields:
  "cliProvider (fst (fst (create_session now s))) = cliProvider (fst s)"
  "geminiProcess (fst (fst (create_session now s))) = geminiProcess (fst s)"
  "timeoutPending (fst (fst (create_session now s))) = timeoutPending (fst s)"
  "hasReceivedOutput (fst (fst (create_session now s))) = hasReceivedOutput (fst s)"
  by (simp_all add: create_session_def Let_def)

text \<open>The stdout handler, by whether its provider-specific part threw.\<close>

lemma on_stdout_cases:
  "on_stdout rt raw now s =
     (let t0 = (fst s)\<lparr>outputBuffer := outputBuffer (fst s) @ raw,
                      hasReceivedOutput := True, timeoutPending := False\<rparr>;
          r = stdout_content rt raw t0
      in if snd r = None
         then (fst (create_session now (fst (fst r), snd s)),
               snd (fst r) @ snd (create_session now (fst (fst r), snd s)))
         else ((fst (fst r), snd s), snd (fst r)))"
  by (simp add: on_stdout_def Let_def split_beta split: option.splits)

lemma on_stdout_fields:
  "cliProvider (fst (fst (on_stdout rt raw now s))) = cliProvider (fst s)"
  "geminiProcess (fst (fst (on_stdout rt raw now s))) = geminiProcess (fst s)"
  "timeoutPending (fst (fst (on_stdout rt raw now s))) = False"
  "hasReceivedOutput (fst (fst (on_stdout rt raw now s))) = True"
  by (simp_all add: on_stdout_cases Let_def create_session_fields stdout_content_fields)

lemma settle_fields:
  "cliProvider (settle v t) = cliProvider t" "geminiProcess (settle v t) = geminiProcess t"
  "timeoutPending (settle v t) = timeoutPending t" "hasReceivedOutput (settle v t) = hasReceivedOutput t"
  by (simp_all add: settle_def split: option.splits)

lemma close_codex_rest_frame: "frame (close_codex_rest rt t) = frame t"
  by (simp add: close_codex_rest_def frame_def append_response_def split: json_result.splits)

lemmas close_codex_rest_fields = frame_fields [OF close_codex_rest_frame]

lemma on_close_fields:
  "cliProvider (fst (fst (on_close rt code s))) = cliProvider (fst s)"
  "geminiProcess (fst (fst (on_close rt code s))) = geminiProcess (fst s)"
  "timeoutPending (fst (fst (on_close rt code s))) = False"
  "hasReceivedOutput (fst (fst (on_close rt code s))) = hasReceivedOutput (fst s)"
  by (simp_all add: on_close_def Let_def settle_fields close_codex_rest_fields)

lemma on_stderr_fields:
  "cliProvider (fst (fst (on_stderr rt m s))) = cliProvider (fst s)"
  "geminiProcess (fst (fst (on_stderr rt m s))) = geminiProcess (fst s)"
  "timeoutPending (fst (fst (on_stderr rt m s))) = timeoutPending (fst s)"
  "hasReceivedOutput (fst (fst (on_stderr rt m s))) = hasReceivedOutput (fst s)"
  by (simp_all add: on_stderr_def Let_def)

lemma on_error_fields:
  "cliProvider (fst (fst (on_error m s))) = cliProvider (fst s)"
  "geminiProcess (fst (fst (on_error m s))) = geminiProcess (fst s)"
  "timeoutPending (fst (fst (on_error m s))) = timeoutPending (fst s)"
  "hasReceivedOutput (fst (fst (on_error m s))) = hasReceivedOutput (fst s)"
  by (simp_all add: on_error_def Let_def settle_fields)

lemma on_timeout_fields:
  "cliProvider (fst (fst (on_timeout s))) = cliProvider (fst s)"
  "geminiProcess (fst (fst (on_timeout s))) = geminiProcess (fst s)"
  "timeoutPending (fst (fst (on_timeout s))) = False"
  "hasReceivedOutput (fst (fst (on_timeout s))) = hasReceivedOutput (fst s)"
  by (simp_all add: on_timeout_def Let_def)

text \<open>The definitions that evaluating a handler on a given state unfolds.\<close>

lemmas turn_eval_defs =
  on_stdout_def stdout_content_def create_session_def on_stderr_def on_timeout_def
  on_close_def on_error_def close_codex_rest_def codex_line_def emit_content_def append_response_def
  settle_def cleanup_effects_def finalSessionId_def is_debug_line_def is_suppressed_stderr_def
  trim_def is_space_def startsWith_def or_else_def truthy_def sessionPrefix_def providerLabel_def
  exit_message_def show_code_def toString_int_def toString_nat.simps digit_char_def
  timeout_message_def Let_def reg_delete_def

section \<open>Properties of a turn: the no-output timeout\<close>

text \<open>
  Once the timer is cleared its callback never acts; while it is pending and no stdout chunk
  has arrived, stderr chunks and error events leave it pending.
\<close>

lemma timer_effects_Cons:
  "timer_effects ((e, fx) # lg) = (if e = WindowElapsed then fx else []) @ timer_effects lg"
  by (simp add: timer_effects_def)

lemma timer_effects_cleared:
  "\<not> timeoutPending (fst s) \<Longrightarrow> timer_effects (run_log rt es s) = []"
proof (induction es arbitrary: s)
  case Nil
  show ?case by (simp add: timer_effects_def)
next
  case (Cons e es)
  have "\<not> timeoutPending (fst (fst (step rt e s)))"
    using Cons.prems
    by (cases e) (simp_all add: on_stdout_fields on_stderr_fields on_timeout_fields on_close_fields on_error_fields)
  then have "timer_effects (run_log rt es (fst (step rt e s))) = []" by (rule Cons.IH)
  moreover have "e = WindowElapsed \<Longrightarrow> snd (step rt e s) = []"
    using Cons.prems by (simp add: on_timeout_def)
  ultimately show ?case by (simp add: timer_effects_Cons)
qed

lemma timer_effects_pending:
  assumes "timeoutPending (fst s)" "\<not> hasReceivedOutput (fst s)"
  shows "timer_effects (run_log rt es s) =
     (if elapses_first es
      then [WsSend (GeminiError (timeout_message (cliProvider (fst s)))), Kill (geminiProcess (fst s)) SIGTERM]
      else [])"
  using assms
proof (induction es arbitrary: s)
  case Nil
  show ?case by (simp add: timer_effects_def)
next
  case (Cons e es)
  show ?case
  proof (cases e)
    case (Stdout d n)
    then show ?thesis
      by (simp add: timer_effects_Cons timer_effects_cleared on_stdout_fields)
  next
    case (Stderr m)
    then show ?thesis
      using Cons.IH [of "fst (on_stderr rt m s)"] Cons.prems
      by (simp add: timer_effects_Cons on_stderr_fields)
  next
    case WindowElapsed
    then show ?thesis
      using Cons.prems
      by (simp add: timer_effects_Cons timer_effects_cleared on_timeout_fields)
         (simp add: on_timeout_def Let_def)
  next
    case (Close c)
    then show ?thesis
      by (simp add: timer_effects_Cons timer_effects_cleared on_close_fields)
  next
    case (ProcError m)
    then show ?thesis
      using Cons.IH [of "fst (on_error m s)"] Cons.prems
      by (simp add: timer_effects_Cons on_error_fields)
  qed
qed

lemma codex_line_no_kill: "codex_line rt l t = Inr r \<Longrightarrow> filter is_kill (snd r) = []"
  by (auto simp: codex_line_def Let_def emit_content_def split: json_result.splits if_splits)

lemma codex_lines_no_kill: "filter is_kill (snd (fst (codex_lines rt ls t))) = []"
proof (induction ls arbitrary: t)
  case Nil
  show ?case by simp
next
  case (Cons l ls)
  show ?case
  proof (cases "codex_line rt l t")
    case (Inl e)
    then show ?thesis by simp
  next
    case (Inr r)
    then show ?thesis
      using Cons.IH [of "fst r"] codex_line_no_kill [OF Inr]
      by (simp add: split_beta)
  qed
qed

lemma stdout_content_no_kill: "filter is_kill (snd (fst (stdout_content rt raw t))) = []"
  by (simp add: stdout_content_def Let_def emit_content_def codex_lines_no_kill)

lemma create_session_no_kill: "filter is_kill (snd (create_session now s)) = []"
  by (simp add: create_session_def Let_def)

lemma filter_is_kill_Unlink: "filter is_kill (map Unlink ps) = []"
  by (induction ps) simp_all

lemma on_stdout_no_kill: "filter is_kill (snd (on_stdout rt raw now s)) = []"
  by (simp add: on_stdout_cases Let_def stdout_content_no_kill create_session_no_kill)

lemma on_stderr_no_kill: "filter is_kill (snd (on_stderr rt m s)) = []"
  by (simp add: on_stderr_def Let_def)

lemma cleanup_no_kill: "filter is_kill (cleanup_effects t) = []"
  by (simp add: cleanup_effects_def filter_is_kill_Unlink)

lemma on_close_no_kill: "filter is_kill (snd (on_close rt code s)) = []"
  by (simp add: on_close_def Let_def cleanup_no_kill)

lemma on_error_no_kill: "filter is_kill (snd (on_error m s)) = []"
  by (simp add: on_error_def Let_def)

lemma step_no_kill: "e \<noteq> WindowElapsed \<Longrightarrow> filter is_kill (snd (step rt e s)) = []"
  by (cases e)
     (simp_all add: on_stdout_no_kill on_stderr_no_kill on_close_no_kill on_error_no_kill)

lemma kills_are_timer_kills:
  "filter is_kill (effects_of (run_log rt es s)) = filter is_kill (timer_effects (run_log rt es s))"
proof (induction es arbitrary: s)
  case Nil
  show ?case by (simp add: effects_of_def timer_effects_def)
next
  case (Cons e es)
  have "effects_of (run_log rt (e # es) s) = snd (step rt e s) @ effects_of (run_log rt es (fst (step rt e s)))"
    by (simp add: effects_of_def)
  then show ?case
    using Cons.IH [of "fst (step rt e s)"] step_no_kill [of e rt s]
    by (simp add: timer_effects_Cons)
qed

lemma spawn_turn_fields:
  "timeoutPending (fst (fst (spawn_turn provider cmd sid dir pcwd pr now paths tdir reg)))"
  "\<not> hasReceivedOutput (fst (fst (spawn_turn provider cmd sid dir pcwd pr now paths tdir reg)))"
  "cliProvider (fst (fst (spawn_turn provider cmd sid dir pcwd pr now paths tdir reg))) = provider"
  "geminiProcess (fst (fst (spawn_turn provider cmd sid dir pcwd pr now paths tdir reg))) = pr"
  by (simp_all add: spawn_turn_def Let_def)

text \<open>The window elapses first exactly when nothing that cancels the timer happened before it.\<close>

lemma elapses_first_timeline:
  "sorted (map fst happenings) \<Longrightarrow>
   elapses_first (timeline window happenings) =
     (\<not> (\<exists>h \<in> set happenings. fst h < window \<and> is_out_or_exit (snd h)))"
proof (induction happenings)
  case Nil
  show ?case by simp
next
  case (Cons h rest)
  from Cons.prems have srt: "sorted (map fst rest)" and le: "\<forall>x \<in> set rest. fst h \<le> fst x"
    by simp_all
  show ?case
  proof (cases "fst h < window")
    case True
    show ?thesis
    proof (cases "snd h")
      case (Out d n)
      with True show ?thesis by auto
    next
      case (Err m)
      with True Cons.IH [OF srt] show ?thesis by auto
    next
      case (Exit c)
      with True show ?thesis by auto
    next
      case (Failed m)
      with True Cons.IH [OF srt] show ?thesis by auto
    qed
  next
    case False
    with le have "\<forall>x \<in> set (h # rest). \<not> fst x < window" by auto
    with False show ?thesis by auto
  qed
qed

lemma timeoutMs_normalizeProvider:
  "timeoutMs (normalizeProvider e p) = (if normalizeProvider e p = ''codex'' then 120000 else 30000)"
  using normalizeProvider_range [of e p] by (auto simp: timeoutMs_def)

lemma normalizeProvider_ollama_bmad:
  "normalizeProvider e (Some ''ollama'') = ''gemini''" "normalizeProvider e (Some ''bmad'') = ''gemini''"
  by (simp_all add: normalizeProvider_def truthy_def toLowerCase_def Let_def)

text \<open>
  Claim C1, amended. A turn runs under the tag that \<open>normalizeProvider\<close> returns for the
  caller's tag, one of codex, claude, webllm and gemini, and its window is 120000 ms under
  codex and 30000 ms under the three others; the tags ollama and bmad are resolved to
  gemini, so that a turn requested for them has the window of 30000 ms. Let the process
  events of such a turn be given with their times, in order. The timer callback acts exactly
  when no stdout chunk and no close event happens before the window has elapsed; it then
  sends one timeout error event and SIGTERM to the process, once. A stdout chunk (or the
  close event) before that moment cancels the timer for the rest of the turn: no timeout
  error and no signal is sent later, whatever follows. Output on stderr does not cancel the
  timer. No other handler of the turn sends a signal. The same holds in terms of the order
  of handling alone, for every sequence of events.
\<close>

theorem timeout_fires_iff_window_elapses_first:
  assumes "sorted (map fst happenings)"
  shows "timeoutMs (normalizeProvider envProvider tag) =
       (if normalizeProvider envProvider tag = ''codex'' then 120000 else 30000)
   \<and> normalizeProvider envProvider tag \<in> {''codex'', ''claude'', ''webllm'', ''gemini''}
   \<and> timeoutMs (normalizeProvider envProvider (Some ''ollama'')) = 30000
   \<and> timeoutMs (normalizeProvider envProvider (Some ''bmad'')) = 30000
   \<and> timer_effects (run_log rt (timeline (timeoutMs (normalizeProvider envProvider tag)) happenings)
         (fst (spawn_turn (normalizeProvider envProvider tag) cmd sid dir pcwd pr now paths tdir reg))) =
       (if \<exists>h \<in> set happenings.
             fst h < timeoutMs (normalizeProvider envProvider tag) \<and> is_out_or_exit (snd h)
        then []
        else [WsSend (GeminiError (timeout_message (normalizeProvider envProvider tag))), Kill pr SIGTERM])
   \<and> filter is_kill (effects_of
         (run_log rt (timeline (timeoutMs (normalizeProvider envProvider tag)) happenings)
           (fst (spawn_turn (normalizeProvider envProvider tag) cmd sid dir pcwd pr now paths tdir reg)))) =
       (if \<exists>h \<in> set happenings.
             fst h < timeoutMs (normalizeProvider envProvider tag) \<and> is_out_or_exit (snd h)
        then [] else [Kill pr SIGTERM])
   \<and> timer_effects (run_log rt evs
         (fst (spawn_turn (normalizeProvider envProvider tag) cmd sid dir pcwd pr now paths tdir reg))) =
       (if elapses_first evs
        then [WsSend (GeminiError (timeout_message (normalizeProvider envProvider tag))), Kill pr SIGTERM]
        else [])
   \<and> filter is_kill (effects_of (run_log rt evs
         (fst (spawn_turn (normalizeProvider envProvider tag) cmd sid dir pcwd pr now paths tdir reg)))) =
       (if elapses_first evs then [Kill pr SIGTERM] else [])"
proof -
  define provider where "provider = normalizeProvider envProvider tag"
  define cur where "cur = fst (spawn_turn provider cmd sid dir pcwd pr now paths tdir reg)"
  have fx: "timer_effects (run_log rt es cur) =
       (if elapses_first es
        then [WsSend (GeminiError (timeout_message provider)), Kill pr SIGTERM] else [])" for es
    using timer_effects_pending [of cur rt es] by (simp add: cur_def spawn_turn_fields)
  have kl: "filter is_kill (effects_of (run_log rt es cur)) =
       (if elapses_first es then [Kill pr SIGTERM] else [])" for es
    by (simp add: kills_are_timer_kills fx)
  note tl = elapses_first_timeline [OF assms, of "timeoutMs provider"]
  have a: "timeoutMs provider = (if provider = ''codex'' then 120000 else 30000)"
    unfolding provider_def by (rule timeoutMs_normalizeProvider)
  have b: "provider \<in> {''codex'', ''claude'', ''webllm'', ''gemini''}"
    unfolding provider_def by (rule normalizeProvider_range)
  have c: "timeoutMs (normalizeProvider envProvider (Some ''ollama'')) = 30000"
    "timeoutMs (normalizeProvider envProvider (Some ''bmad'')) = 30000"
    by (simp_all add: normalizeProvider_ollama_bmad timeoutMs_def)
  have d: "timer_effects (run_log rt (timeline (timeoutMs provider) happenings) cur) =
       (if \<exists>h \<in> set happenings. fst h < timeoutMs provider \<and> is_out_or_exit (snd h)
        then [] else [WsSend (GeminiError (timeout_message provider)), Kill pr SIGTERM])"
    by (simp add: fx tl)
  have e: "filter is_kill (effects_of (run_log rt (timeline (timeoutMs provider) happenings) cur)) =
       (if \<exists>h \<in> set happenings. fst h < timeoutMs provider \<and> is_out_or_exit (snd h)
        then [] else [Kill pr SIGTERM])"
    by (simp add: kl tl)
  from a b c d e fx [of evs] kl [of evs] show ?thesis
    unfolding provider_def cur_def by blast
qed

text \<open>
  A turn requested with the tag ollama runs as gemini with the window of 30000 ms. When the
  process writes to stderr after 5 s and to stdout after 31 s, the timeout fires in between;
  had it written to stdout after 29 s, the timer would have been cancelled.
\<close>

theorem timeout_fires_iff_window_elapses_first_witness:
  "sorted (map fst [(5000::nat, Err ''loading''), (31000, Out ''hello'' 1700000031000)])
   \<and> timeoutMs (normalizeProvider None (Some ''ollama'')) = 30000
   \<and> timer_effects (run_log \<lparr>json_parse = (\<lambda>l. SyntaxError), sanitize = (\<lambda>x. x)\<rparr>
         (timeline (timeoutMs (normalizeProvider None (Some ''ollama'')))
            [(5000, Err ''loading''), (31000, Out ''hello'' 1700000031000)])
         (fst (spawn_turn (normalizeProvider None (Some ''ollama'')) (Some ''hi'') None None ''/w'' 1
                1700000000000 [] None [])))
       = [WsSend (GeminiError ''Gemini CLI timeout - no response received''), Kill 1 SIGTERM]
   \<and> timeline 30000 [(5000, Err ''loading''), (31000, Out ''hello'' 1700000031000)]
       = [Stderr ''loading'', WindowElapsed, Stdout ''hello'' 1700000031000]
   \<and> timeline 30000 [(5000, Err ''loading''), (29000, Out ''hello'' 1700000029000)]
       = [Stderr ''loading'', Stdout ''hello'' 1700000029000, WindowElapsed]"
proof -
  have srt: "sorted (map fst [(5000::nat, Err ''loading''), (31000, Out ''hello'' 1700000031000)])"
    by simp
  have np: "normalizeProvider None (Some ''ollama'') = ''gemini''"
    by (rule normalizeProvider_ollama_bmad)
  from timeout_fires_iff_window_elapses_first [where envProvider = None and tag = "Some ''ollama''"
      and rt = "\<lparr>json_parse = (\<lambda>l. SyntaxError), sanitize = (\<lambda>x. x)\<rparr>" and cmd = "Some ''hi''"
      and sid = None and dir = None and pcwd = "''/w''" and pr = 1 and now = 1700000000000
      and paths = "[]" and tdir = None and reg = "[]" and evs = "[]", OF srt]
  show ?thesis
    by (simp add: np timeoutMs_def timeout_message_def providerLabel_def)
qed

text \<open>
  Claim C1, as stated: the timeout fires only if no output of any kind has been observed,
  and fires whenever the window elapses with no output; the window is 120000 ms for ollama
  and bmad. None of these holds: a process that has written to stderr only (the text was
  observed and forwarded to the client) still gets the timeout error and SIGTERM, a process
  that closed without output gets none when the window elapses afterwards, and a turn
  requested for ollama or bmad runs as gemini with the window of 30000 ms.
\<close>

theorem timeout_fires_despite_stderr_output:
  "run_log \<lparr>json_parse = (\<lambda>l. SyntaxError), sanitize = (\<lambda>x. x)\<rparr> [Stderr ''quota exceeded'', WindowElapsed]
     (fst (spawn_turn ''gemini'' (Some ''hi'') None None ''/w'' 1 5 [] None []))
   = [(Stderr ''quota exceeded'', [WsSend (GeminiError ''quota exceeded'')]),
      (WindowElapsed, [WsSend (GeminiError ''Gemini CLI timeout - no response received''), Kill 1 SIGTERM])]
   \<and> timer_effects (run_log \<lparr>json_parse = (\<lambda>l. SyntaxError), sanitize = (\<lambda>x. x)\<rparr> [Close (Some 1), WindowElapsed]
     (fst (spawn_turn ''gemini'' (Some ''hi'') None None ''/w'' 1 5 [] None []))) = []
   \<and> timeoutMs (normalizeProvider None (Some ''ollama'')) = 30000
   \<and> timeoutMs (normalizeProvider None (Some ''bmad'')) = 30000"
  by (simp add: spawn_turn_def Let_def on_stderr_def is_suppressed_stderr_def startsWith_def
      on_timeout_def timeout_message_def providerLabel_def timer_effects_def
      on_close_def close_codex_rest_def settle_def toString_nat.simps digit_char_def or_else_def truthy_def
      normalizeProvider_ollama_bmad timeoutMs_def)

section \<open>Properties of a turn: creation of the session\<close>

lemma session_vars_frame: "frame a = frame b \<Longrightarrow> session_vars a = session_vars b"
  using frame_fields [of a b] by (simp add: session_vars_def)

lemma on_stderr_session_vars: "session_vars (fst (fst (on_stderr rt m s))) = session_vars (fst s)"
  by (simp add: on_stderr_def Let_def session_vars_def)

lemma on_timeout_session_vars: "session_vars (fst (fst (on_timeout s))) = session_vars (fst s)"
  by (simp add: on_timeout_def Let_def session_vars_def)

lemma settle_session_vars: "session_vars (settle v t) = session_vars t"
  by (simp add: settle_def session_vars_def split: option.splits)

lemma on_close_session_vars: "session_vars (fst (fst (on_close rt c s))) = session_vars (fst s)"
proof -
  have "session_vars (close_codex_rest rt ((fst s)\<lparr>timeoutPending := False\<rparr>))
        = session_vars ((fst s)\<lparr>timeoutPending := False\<rparr>)"
    by (rule session_vars_frame [OF close_codex_rest_frame])
  then show ?thesis
    by (simp add: on_close_def Let_def settle_session_vars) (simp add: session_vars_def)
qed

lemma on_error_session_vars: "session_vars (fst (fst (on_error m s))) = session_vars (fst s)"
  by (simp add: on_error_def Let_def settle_session_vars)

lemma stdout_content_session_vars:
  "session_vars (fst (fst (stdout_content rt raw t))) = session_vars t"
  by (rule session_vars_frame [OF stdout_content_frame])

lemma codex_line_no_start: "codex_line rt l t = Inr r \<Longrightarrow> filter is_session_start (snd r) = []"
  by (auto simp: codex_line_def Let_def emit_content_def split: json_result.splits if_splits)

lemma codex_lines_no_start: "filter is_session_start (snd (fst (codex_lines rt ls t))) = []"
proof (induction ls arbitrary: t)
  case Nil
  show ?case by simp
next
  case (Cons l ls)
  show ?case
  proof (cases "codex_line rt l t")
    case (Inl e)
    then show ?thesis by simp
  next
    case (Inr r)
    then show ?thesis
      using Cons.IH [of "fst r"] codex_line_no_start [OF Inr]
      by (simp add: split_beta)
  qed
qed

lemma stdout_content_no_start: "filter is_session_start (snd (fst (stdout_content rt raw t))) = []"
  by (simp add: stdout_content_def Let_def emit_content_def codex_lines_no_start)

lemma filter_start_Unlink: "filter is_session_start (map Unlink ps) = []"
  by (induction ps) simp_all

lemma on_stderr_no_start: "filter is_session_start (snd (on_stderr rt m s)) = []"
  by (simp add: on_stderr_def Let_def)

lemma on_timeout_no_start: "filter is_session_start (snd (on_timeout s)) = []"
  by (simp add: on_timeout_def Let_def)

lemma on_close_no_start: "filter is_session_start (snd (on_close rt c s)) = []"
  by (simp add: on_close_def Let_def cleanup_effects_def filter_start_Unlink)

lemma on_error_no_start: "filter is_session_start (snd (on_error m s)) = []"
  by (simp add: on_error_def Let_def)

text \<open>Once the session has been announced, no handler starts a session again.\<close>

lemma create_session_sent:
  "sessionCreatedSent (fst s) \<Longrightarrow> create_session now s = (s, [])"
  by (simp add: create_session_def Let_def)

lemma step_sent:
  assumes "sessionCreatedSent (fst s)"
  shows "sessionCreatedSent (fst (fst (step rt e s)))"
    and "filter is_session_start (snd (step rt e s)) = []"
proof -
  have sv: "snd (snd (session_vars (fst s)))" using assms by (simp add: session_vars_def)
  have sent: "sessionCreatedSent t" if "session_vars t = session_vars (fst s)" for t
    using that sv by (simp add: session_vars_def)
  show "sessionCreatedSent (fst (fst (step rt e s)))"
  proof (cases e)
    case (Stdout d n)
    let ?t0 = "(fst s)\<lparr>outputBuffer := outputBuffer (fst s) @ d, hasReceivedOutput := True, timeoutPending := False\<rparr>"
    have "session_vars (fst (fst (stdout_content rt d ?t0))) = session_vars (fst s)"
      by (simp add: stdout_content_session_vars) (simp add: session_vars_def)
    then have "sessionCreatedSent (fst (fst (stdout_content rt d ?t0)))" by (rule sent)
    then show ?thesis using Stdout
      by (simp add: on_stdout_cases Let_def create_session_sent)
  qed (simp_all add: sent on_stderr_session_vars on_timeout_session_vars on_close_session_vars on_error_session_vars)
  show "filter is_session_start (snd (step rt e s)) = []"
  proof (cases e)
    case (Stdout d n)
    let ?t0 = "(fst s)\<lparr>outputBuffer := outputBuffer (fst s) @ d, hasReceivedOutput := True, timeoutPending := False\<rparr>"
    have "session_vars (fst (fst (stdout_content rt d ?t0))) = session_vars (fst s)"
      by (simp add: stdout_content_session_vars) (simp add: session_vars_def)
    then have "sessionCreatedSent (fst (fst (stdout_content rt d ?t0)))" by (rule sent)
    then show ?thesis using Stdout
      by (simp add: on_stdout_cases Let_def create_session_sent stdout_content_no_start)
  qed (simp_all add: on_stderr_no_start on_timeout_no_start on_close_no_start on_error_no_start)
qed

lemma effects_of_Cons: "effects_of ((e, fx) # lg) = fx @ effects_of lg"
  by (simp add: effects_of_def)

lemma run_log_sent:
  "sessionCreatedSent (fst s) \<Longrightarrow> filter is_session_start (effects_of (run_log rt es s)) = []"
proof (induction es arbitrary: s)
  case Nil
  show ?case by (simp add: effects_of_def)
next
  case (Cons e es)
  from step_sent [OF Cons.prems, of rt e] Cons.IH [of "fst (step rt e s)"]
  show ?case by (simp add: effects_of_Cons)
qed


lemma run_append: "run rt (xs @ ys) s = run rt ys (run rt xs s)"
  by (induction xs arbitrary: s) simp_all

lemma step_no_stdout_session_vars:
  "\<not> is_stdout e \<Longrightarrow> session_vars (fst (fst (step rt e s))) = session_vars (fst s)"
  by (cases e)
     (simp_all add: on_stderr_session_vars on_timeout_session_vars on_close_session_vars
        on_error_session_vars)

lemma first_stdout_None_Cons:
  "first_stdout (e # es) = None \<longleftrightarrow> \<not> is_stdout e \<and> first_stdout es = None"
  by (cases e) simp_all

lemma first_stdout_not_stdout: "\<not> is_stdout e \<Longrightarrow> first_stdout (e # es) = first_stdout es"
  by (cases e) simp_all

lemma first_completed_not_stdout:
  "\<not> is_stdout e \<Longrightarrow> first_completed_stdout rt (e # es) s = first_completed_stdout rt es (fst (step rt e s))"
  by (cases e) simp_all

lemma run_no_stdout_session_vars:
  "first_stdout es = None \<Longrightarrow> session_vars (fst (run rt es s)) = session_vars (fst s)"
proof (induction es arbitrary: s)
  case Nil
  show ?case by simp
next
  case (Cons e es)
  then have e: "\<not> is_stdout e" and es: "first_stdout es = None"
    by (simp_all add: first_stdout_None_Cons)
  from Cons.IH [OF es, of "fst (step rt e s)"] step_no_stdout_session_vars [OF e, of rt s]
  show ?case by simp
qed

lemma toString_nat_digits: "set (toString_nat n) \<subseteq> set ''0123456789''"
proof (induction n rule: toString_nat.induct)
  case (1 n)
  have d: "digit_char k \<in> set ''0123456789''" if "k < 10" for k
  proof -
    from that have "k \<in> {0, 1, 2, 3, 4, 5, 6, 7, 8, 9}" by auto
    then show ?thesis by (auto simp: digit_char_def)
  qed
  show ?case
  proof (cases "n < 10")
    case True
    then show ?thesis using d [of n] by (subst toString_nat.simps) simp
  next
    case False
    with 1 have "set (toString_nat (n div 10)) \<subseteq> set ''0123456789''" by simp
    moreover have "digit_char (n mod 10) \<in> set ''0123456789''" by (rule d) simp
    ultimately show ?thesis using False by (subst toString_nat.simps) simp
  qed
qed

lemma new_id_not_timestamp: "p @ ''_'' @ toString_nat n \<noteq> toString_nat m"
proof
  assume "p @ ''_'' @ toString_nat n = toString_nat m"
  then have "CHR ''_'' \<in> set (toString_nat m)"
    by (metis append_Cons in_set_conv_decomp)
  with toString_nat_digits [of m] show False by auto
qed

text \<open>
  The handler of a stdout chunk in a turn that has no session yet: when it runs to its end it
  starts the session; when an exception leaves it, it starts none and the turn still has no
  session.
\<close>

lemma on_stdout_unsent:
  assumes "session_vars (fst s) = ((prov, cmd, sid, dir, pcwd, pr, key), capt, False)"
    and "\<not> truthy sid" and "\<not> truthy capt" and "stdout_completes rt d s"
  shows "filter is_session_start (snd (on_stdout rt d n s)) =
           [Store (CreateSession (sessionPrefix prov @ ''_'' @ toString_nat n) (the (or_else dir (Some pcwd))) prov)]
           @ (if truthy cmd then [Store (AddMessage (sessionPrefix prov @ ''_'' @ toString_nat n) ''user'' (the cmd))] else [])
           @ [WsSend (SessionCreated (sessionPrefix prov @ ''_'' @ toString_nat n))]"
    and "session_vars (fst (fst (on_stdout rt d n s))) =
           ((prov, cmd, sid, dir, pcwd, pr, key), Some (sessionPrefix prov @ ''_'' @ toString_nat n), True)"
    and "snd (fst (on_stdout rt d n s)) =
           (if key \<noteq> sessionPrefix prov @ ''_'' @ toString_nat n
            then reg_set (sessionPrefix prov @ ''_'' @ toString_nat n) pr (reg_delete key (snd s)) else snd s)"
proof -
  let ?t0 = "(fst s)\<lparr>outputBuffer := outputBuffer (fst s) @ d, hasReceivedOutput := True, timeoutPending := False\<rparr>"
  let ?t1 = "fst (fst (stdout_content rt d ?t0))"
  have "session_vars ?t1 = session_vars (fst s)"
    by (simp add: stdout_content_session_vars) (simp add: session_vars_def)
  with assms(1) have sv: "session_vars ?t1 = ((prov, cmd, sid, dir, pcwd, pr, key), capt, False)" by simp
  then have f: "cliProvider ?t1 = prov" "command ?t1 = cmd" "sessionId ?t1 = sid" "cwd ?t1 = dir"
    "process_cwd ?t1 = pcwd" "geminiProcess ?t1 = pr" "processKey ?t1 = key"
    "capturedSessionId ?t1 = capt" "\<not> sessionCreatedSent ?t1"
    by (simp_all add: session_vars_def)
  have os: "on_stdout rt d n s =
      (fst (create_session n (?t1, snd s)), snd (fst (stdout_content rt d ?t0)) @ snd (create_session n (?t1, snd s)))"
    using assms(4) by (simp add: on_stdout_cases Let_def stdout_completes_def)
  show "filter is_session_start (snd (on_stdout rt d n s)) =
           [Store (CreateSession (sessionPrefix prov @ ''_'' @ toString_nat n) (the (or_else dir (Some pcwd))) prov)]
           @ (if truthy cmd then [Store (AddMessage (sessionPrefix prov @ ''_'' @ toString_nat n) ''user'' (the cmd))] else [])
           @ [WsSend (SessionCreated (sessionPrefix prov @ ''_'' @ toString_nat n))]"
    unfolding os using assms(2,3) f
    by (simp add: stdout_content_no_start create_session_def Let_def)
  show "session_vars (fst (fst (on_stdout rt d n s))) =
           ((prov, cmd, sid, dir, pcwd, pr, key), Some (sessionPrefix prov @ ''_'' @ toString_nat n), True)"
    unfolding os using assms(2,3) f
    by (simp add: create_session_def Let_def session_vars_def)
  show "snd (fst (on_stdout rt d n s)) =
           (if key \<noteq> sessionPrefix prov @ ''_'' @ toString_nat n
            then reg_set (sessionPrefix prov @ ''_'' @ toString_nat n) pr (reg_delete key (snd s)) else snd s)"
    unfolding os using assms(2,3) f
    by (simp add: create_session_def Let_def)
qed

lemma on_stdout_thrown:
  assumes "\<not> stdout_completes rt d s"
  shows "filter is_session_start (snd (on_stdout rt d n s)) = []"
    and "session_vars (fst (fst (on_stdout rt d n s))) = session_vars (fst s)"
    and "snd (fst (on_stdout rt d n s)) = snd s"
proof -
  let ?t0 = "(fst s)\<lparr>outputBuffer := outputBuffer (fst s) @ d, hasReceivedOutput := True, timeoutPending := False\<rparr>"
  have os: "on_stdout rt d n s = ((fst (fst (stdout_content rt d ?t0)), snd s), snd (fst (stdout_content rt d ?t0)))"
  proof (cases "snd (stdout_content rt d ?t0)")
    case None
    with assms show ?thesis by (simp add: stdout_completes_def)
  next
    case (Some err)
    then show ?thesis by (simp add: on_stdout_cases Let_def)
  qed
  show "filter is_session_start (snd (on_stdout rt d n s)) = []"
    unfolding os by (simp add: stdout_content_no_start)
  show "session_vars (fst (fst (on_stdout rt d n s))) = session_vars (fst s)"
    unfolding os by (simp add: stdout_content_session_vars) (simp add: session_vars_def)
  show "snd (fst (on_stdout rt d n s)) = snd s"
    unfolding os by simp
qed

lemma run_log_unsent:
  assumes "session_vars (fst s) = ((prov, cmd, sid, dir, pcwd, pr, key), capt, False)"
    and "\<not> truthy sid" and "\<not> truthy capt"
  shows "filter is_session_start (effects_of (run_log rt es s)) =
     (case first_completed_stdout rt es s of
        None \<Rightarrow> []
      | Some n \<Rightarrow>
          [Store (CreateSession (sessionPrefix prov @ ''_'' @ toString_nat n) (the (or_else dir (Some pcwd))) prov)]
          @ (if truthy cmd then [Store (AddMessage (sessionPrefix prov @ ''_'' @ toString_nat n) ''user'' (the cmd))] else [])
          @ [WsSend (SessionCreated (sessionPrefix prov @ ''_'' @ toString_nat n))])"
  using assms(1)
proof (induction es arbitrary: s)
  case Nil
  show ?case by (simp add: effects_of_def)
next
  case (Cons e es)
  show ?case
  proof (cases "is_stdout e")
    case True
    then obtain d n where e: "e = Stdout d n" by (cases e) simp_all
    show ?thesis
    proof (cases "stdout_completes rt d s")
      case completes: True
      from on_stdout_unsent(2) [OF Cons.prems assms(2,3) completes, of n]
      have "sessionCreatedSent (fst (fst (on_stdout rt d n s)))" by (simp add: session_vars_def)
      then have "filter is_session_start (effects_of (run_log rt es (fst (on_stdout rt d n s)))) = []"
        by (rule run_log_sent)
      then show ?thesis
        using on_stdout_unsent(1) [OF Cons.prems assms(2,3) completes, of n] e completes
        by (simp add: effects_of_Cons)
    next
      case thrown: False
      have sv: "session_vars (fst (fst (step rt e s))) = ((prov, cmd, sid, dir, pcwd, pr, key), capt, False)"
        using on_stdout_thrown(2) [OF thrown, of n] Cons.prems e by simp
      show ?thesis
        using Cons.IH [OF sv] on_stdout_thrown(1) [OF thrown, of n] e thrown
        by (simp add: effects_of_Cons)
    qed
  next
    case False
    have sv: "session_vars (fst (fst (step rt e s))) = ((prov, cmd, sid, dir, pcwd, pr, key), capt, False)"
      using step_no_stdout_session_vars [OF False, of rt s] Cons.prems by simp
    have none: "filter is_session_start (snd (step rt e s)) = []"
      using False
      by (cases e) (simp_all add: on_stderr_no_start on_timeout_no_start on_close_no_start on_error_no_start)
    show ?thesis
      using Cons.IH [OF sv] none
      by (simp add: effects_of_Cons first_completed_not_stdout [OF False])
  qed
qed

lemma spawn_turn_session_vars:
  "session_vars (fst (fst (spawn_turn provider cmd sid dir pcwd pr now0 paths tdir reg))) =
     ((provider, cmd, sid, dir, pcwd, pr, the (or_else sid (or_else sid (Some (toString_nat now0))))), sid, False)"
  by (simp add: spawn_turn_def Let_def session_vars_def)

text \<open>Only the Codex branch of the stdout handler can throw.\<close>

lemma stdout_completes_unless_codex:
  "cliProvider (fst s) \<noteq> ''codex'' \<Longrightarrow> stdout_completes rt d s"
  by (simp add: stdout_completes_def stdout_content_def Let_def)

lemma step_keeps_provider: "cliProvider (fst (fst (step rt e s))) = cliProvider (fst s)"
  by (cases e)
     (simp_all add: on_stdout_fields on_stderr_fields on_timeout_fields on_close_fields on_error_fields)

lemma first_completed_unless_codex:
  "cliProvider (fst s) \<noteq> ''codex'' \<Longrightarrow> first_completed_stdout rt es s = first_stdout es"
proof (induction es arbitrary: s)
  case Nil
  show ?case by simp
next
  case (Cons e es)
  have "cliProvider (fst (fst (step rt e s))) \<noteq> ''codex''"
    using Cons.prems by (simp add: step_keeps_provider)
  from Cons.IH [OF this] stdout_completes_unless_codex [OF Cons.prems, of rt]
  show ?case by (cases e) simp_all
qed

text \<open>
  What holds of every turn started without a session id (absent or empty), whatever the
  provider. The turn performs no effect when it starts. In every run the session-starting
  effects are exactly these, in this order, performed by the handler of the first stdout
  chunk whose handler runs to its end, and none if there is no such chunk: the session is
  created under the synthesized id (provider prefix, underscore, the time of that chunk),
  the user message is saved when there is one, and the session-created event is sent, once.
  That handler also stores the synthesized id as the captured session id and rekeys the
  registry: the entry under the synthetic key (the start time) is deleted and the process is
  registered under the new session id.
\<close>

lemma session_starts_at_first_completed_stdout:
  assumes "\<not> truthy sid"
  shows "snd (spawn_turn provider cmd sid dir pcwd pr now0 paths tdir reg) = []"
    and "filter is_session_start
         (effects_of (run_log rt evs (fst (spawn_turn provider cmd sid dir pcwd pr now0 paths tdir reg)))) =
       (case first_completed_stdout rt evs (fst (spawn_turn provider cmd sid dir pcwd pr now0 paths tdir reg)) of
          None \<Rightarrow> []
        | Some n \<Rightarrow>
            [Store (CreateSession (sessionPrefix provider @ ''_'' @ toString_nat n) (the (or_else dir (Some pcwd))) provider)]
            @ (if truthy cmd
               then [Store (AddMessage (sessionPrefix provider @ ''_'' @ toString_nat n) ''user'' (the cmd))] else [])
            @ [WsSend (SessionCreated (sessionPrefix provider @ ''_'' @ toString_nat n))])"
    and "first_stdout pre = None \<Longrightarrow>
         stdout_completes rt d (run rt pre (fst (spawn_turn provider cmd sid dir pcwd pr now0 paths tdir reg))) \<Longrightarrow>
         capturedSessionId (fst (run rt (pre @ [Stdout d n])
             (fst (spawn_turn provider cmd sid dir pcwd pr now0 paths tdir reg))))
           = Some (sessionPrefix provider @ ''_'' @ toString_nat n)
         \<and> snd (run rt (pre @ [Stdout d n]) (fst (spawn_turn provider cmd sid dir pcwd pr now0 paths tdir reg)))
           = reg_set (sessionPrefix provider @ ''_'' @ toString_nat n) pr
               (reg_delete (toString_nat now0)
                  (snd (run rt pre (fst (spawn_turn provider cmd sid dir pcwd pr now0 paths tdir reg)))))
         \<and> reg_get (snd (run rt (pre @ [Stdout d n])
               (fst (spawn_turn provider cmd sid dir pcwd pr now0 paths tdir reg))))
             (sessionPrefix provider @ ''_'' @ toString_nat n) = Some pr
         \<and> reg_get (snd (run rt (pre @ [Stdout d n])
               (fst (spawn_turn provider cmd sid dir pcwd pr now0 paths tdir reg))))
             (toString_nat now0) = None"
proof -
  let ?s0 = "fst (spawn_turn provider cmd sid dir pcwd pr now0 paths tdir reg)"
  let ?id = "sessionPrefix provider @ ''_'' @ toString_nat n"
  have key: "the (or_else sid (or_else sid (Some (toString_nat now0)))) = toString_nat now0"
    using assms by (simp add: or_else_def truthy_def)
  have sv0: "session_vars (fst ?s0) = ((provider, cmd, sid, dir, pcwd, pr, toString_nat now0), sid, False)"
    by (simp add: spawn_turn_session_vars key)
  show "snd (spawn_turn provider cmd sid dir pcwd pr now0 paths tdir reg) = []"
    using assms by (simp add: spawn_turn_def Let_def)
  show "filter is_session_start (effects_of (run_log rt evs ?s0)) =
       (case first_completed_stdout rt evs ?s0 of
          None \<Rightarrow> []
        | Some n \<Rightarrow>
            [Store (CreateSession (sessionPrefix provider @ ''_'' @ toString_nat n) (the (or_else dir (Some pcwd))) provider)]
            @ (if truthy cmd
               then [Store (AddMessage (sessionPrefix provider @ ''_'' @ toString_nat n) ''user'' (the cmd))] else [])
            @ [WsSend (SessionCreated (sessionPrefix provider @ ''_'' @ toString_nat n))])"
    by (rule run_log_unsent [OF sv0 assms assms])
  show "capturedSessionId (fst (run rt (pre @ [Stdout d n]) ?s0)) = Some ?id
         \<and> snd (run rt (pre @ [Stdout d n]) ?s0)
           = reg_set ?id pr (reg_delete (toString_nat now0) (snd (run rt pre ?s0)))
         \<and> reg_get (snd (run rt (pre @ [Stdout d n]) ?s0)) ?id = Some pr
         \<and> reg_get (snd (run rt (pre @ [Stdout d n]) ?s0)) (toString_nat now0) = None"
    if pre: "first_stdout pre = None" and completes: "stdout_completes rt d (run rt pre ?s0)"
  proof -
    have sv: "session_vars (fst (run rt pre ?s0)) = ((provider, cmd, sid, dir, pcwd, pr, toString_nat now0), sid, False)"
      using run_no_stdout_session_vars [OF pre, of rt ?s0] sv0 by simp
    have r: "run rt (pre @ [Stdout d n]) ?s0 = fst (on_stdout rt d n (run rt pre ?s0))"
      by (simp add: run_append)
    have ne: "toString_nat now0 \<noteq> ?id" using new_id_not_timestamp [of "sessionPrefix provider" n now0] by simp
    from on_stdout_unsent(2) [OF sv assms assms completes, of n]
    have c1: "capturedSessionId (fst (run rt (pre @ [Stdout d n]) ?s0)) = Some ?id"
      unfolding r by (simp add: session_vars_def)
    from on_stdout_unsent(3) [OF sv assms assms completes, of n] ne
    have c2: "snd (run rt (pre @ [Stdout d n]) ?s0)
           = reg_set ?id pr (reg_delete (toString_nat now0) (snd (run rt pre ?s0)))"
      unfolding r by simp
    show ?thesis using c1 c2 ne by (simp add: reg_get_set reg_get_delete)
  qed
qed

text \<open>
  For every provider but Codex no stdout handler throws, and the session is started by the
  handler of the first stdout chunk of the turn.
\<close>

lemma session_starts_at_first_stdout_unless_codex:
  assumes "\<not> truthy sid" and "provider \<noteq> ''codex''"
  shows "filter is_session_start
         (effects_of (run_log rt evs (fst (spawn_turn provider cmd sid dir pcwd pr now0 paths tdir reg)))) =
       (case first_stdout evs of
          None \<Rightarrow> []
        | Some n \<Rightarrow>
            [Store (CreateSession (sessionPrefix provider @ ''_'' @ toString_nat n) (the (or_else dir (Some pcwd))) provider)]
            @ (if truthy cmd
               then [Store (AddMessage (sessionPrefix provider @ ''_'' @ toString_nat n) ''user'' (the cmd))] else [])
            @ [WsSend (SessionCreated (sessionPrefix provider @ ''_'' @ toString_nat n))])"
proof -
  have "cliProvider (fst (fst (spawn_turn provider cmd sid dir pcwd pr now0 paths tdir reg))) \<noteq> ''codex''"
    using assms(2) by (simp add: spawn_turn_fields)
  from first_completed_unless_codex [OF this, of rt evs]
    session_starts_at_first_completed_stdout(2) [OF assms(1), of rt evs provider cmd dir pcwd pr now0 paths tdir reg]
  show ?thesis by simp
qed

text \<open>
  Claim C2 at a failing input. A Codex turn is started without a session id, and the first
  chunk the process writes to stdout is the line \<^verbatim>\<open>null\<close>. \<^verbatim>\<open>JSON.parse\<close> returns
  \<^verbatim>\<open>null\<close> for it, the read of \<^verbatim>\<open>event.type\<close> throws, and the exception leaves the
  stdout handler before the statements that create the session: this first stdout chunk
  causes no effect at all, the turn still has no session id, and the process is still
  registered under the synthetic key. When the process then exits with code 0 the turn
  completes with no session created, no user message saved and no session-created event
  sent, although it produced stdout. Had the line been one that does not parse, the same
  handler call would have started the session.
\<close>

theorem session_not_created_when_codex_line_is_null:
  "on_stdout \<lparr>json_parse = (\<lambda>l. if l = ''null'' then JsonNull else SyntaxError), sanitize = (\<lambda>x. x)\<rparr>
       (''null'' @ [CHR 0x0A]) 1700000000123
       (fst (spawn_turn ''codex'' (Some ''hi'') None None ''/w'' 1 1700000000000 [] None []))
     = ((\<lparr>cliProvider = ''codex'', command = Some ''hi'', sessionId = None, cwd = None,
           process_cwd = ''/w'', geminiProcess = 1, processKey = ''1700000000000'',
           capturedSessionId = None, sessionCreatedSent = False, fullResponse = [],
           pendingExternalSessionId = None, hasReceivedOutput = True, timeoutPending = False,
           hasResponseHandler = True, outputBuffer = ''null'' @ [CHR 0x0A], codexLineBuffer = [],
           codexStderrBuffer = [], tempImagePaths = [], tempDir = None, promise = None\<rparr>,
         [(''1700000000000'', 1)]), [])
   \<and> run_log \<lparr>json_parse = (\<lambda>l. if l = ''null'' then JsonNull else SyntaxError), sanitize = (\<lambda>x. x)\<rparr>
       [Stdout (''null'' @ [CHR 0x0A]) 1700000000123, Close (Some 0)]
       (fst (spawn_turn ''codex'' (Some ''hi'') None None ''/w'' 1 1700000000000 [] None []))
     = [(Stdout (''null'' @ [CHR 0x0A]) 1700000000123, []),
        (Close (Some 0),
         [Handler ForceFlush, Handler Destroy, WsSend (GeminiComplete (Some 0) True), Settle Resolved])]
   \<and> first_stdout [Stdout (''null'' @ [CHR 0x0A]) 1700000000123, Close (Some 0)] = Some 1700000000123
   \<and> snd (on_stdout \<lparr>json_parse = (\<lambda>l. if l = ''null'' then JsonNull else SyntaxError), sanitize = (\<lambda>x. x)\<rparr>
       (''oops'' @ [CHR 0x0A]) 1700000000123
       (fst (spawn_turn ''codex'' (Some ''hi'') None None ''/w'' 1 1700000000000 [] None [])))
     = [Store (CreateSession ''codex_1700000000123'' ''/w'' ''codex''),
        Store (AddMessage ''codex_1700000000123'' ''user'' ''hi''),
        WsSend (SessionCreated ''codex_1700000000123'')]"
proof -
  let ?rt = "\<lparr>json_parse = (\<lambda>l. if l = ''null'' then JsonNull else SyntaxError), sanitize = (\<lambda>x. x)\<rparr>"
  let ?s0 = "fst (spawn_turn ''codex'' (Some ''hi'') None None ''/w'' 1 1700000000000 [] None [])"
  let ?t0 = "\<lparr>cliProvider = ''codex'', command = Some ''hi'', sessionId = None, cwd = None,
      process_cwd = ''/w'', geminiProcess = 1, processKey = ''1700000000000'',
      capturedSessionId = None, sessionCreatedSent = False, fullResponse = [],
      pendingExternalSessionId = None, hasReceivedOutput = False, timeoutPending = True,
      hasResponseHandler = True, outputBuffer = [], codexLineBuffer = [], codexStderrBuffer = [],
      tempImagePaths = [], tempDir = None, promise = None\<rparr>"
  let ?t1 = "\<lparr>cliProvider = ''codex'', command = Some ''hi'', sessionId = None, cwd = None,
      process_cwd = ''/w'', geminiProcess = 1, processKey = ''1700000000000'',
      capturedSessionId = None, sessionCreatedSent = False, fullResponse = [],
      pendingExternalSessionId = None, hasReceivedOutput = True, timeoutPending = False,
      hasResponseHandler = True, outputBuffer = ''null'' @ [CHR 0x0A], codexLineBuffer = [],
      codexStderrBuffer = [], tempImagePaths = [], tempDir = None, promise = None\<rparr>"
  have st0: "?s0 = (?t0, [(''1700000000000'', 1)])"
    by (simp add: spawn_turn_def turn_eval_defs)
  have tn: "trim ''null'' = ''null''" "trim ''oops'' = ''oops''" "trim [] = []"
    by (simp_all add: trim_def is_space_def)
  have st1: "on_stdout ?rt (''null'' @ [CHR 0x0A]) 1700000000123 (?t0, [(''1700000000000'', 1)])
      = ((?t1, [(''1700000000000'', 1)]), [])"
    by (simp add: on_stdout_def stdout_content_def codex_line_def tn Let_def)
  have st2: "snd (on_close ?rt (Some 0) (?t1, [(''1700000000000'', 1)]))
      = [Handler ForceFlush, Handler Destroy, WsSend (GeminiComplete (Some 0) True), Settle Resolved]"
    by (simp add: on_close_def close_codex_rest_def tn Let_def finalSessionId_def or_else_def truthy_def
        cleanup_effects_def)
  have lg: "run_log ?rt [Stdout (''null'' @ [CHR 0x0A]) 1700000000123, Close (Some 0)] ?s0
     = [(Stdout (''null'' @ [CHR 0x0A]) 1700000000123, []),
        (Close (Some 0),
         [Handler ForceFlush, Handler Destroy, WsSend (GeminiComplete (Some 0) True), Settle Resolved])]"
    by (simp only: run_log.simps step.simps st0 st1 st2 fst_conv snd_conv)
  have id1: "toString_nat 1700000000123 = ''1700000000123''"
    by (simp add: toString_nat.simps digit_char_def)
  have st3: "snd (on_stdout ?rt (''oops'' @ [CHR 0x0A]) 1700000000123 (?t0, [(''1700000000000'', 1)]))
     = [Store (CreateSession ''codex_1700000000123'' ''/w'' ''codex''),
        Store (AddMessage ''codex_1700000000123'' ''user'' ''hi''),
        WsSend (SessionCreated ''codex_1700000000123'')]"
    by (simp add: on_stdout_def stdout_content_def codex_line_def tn Let_def create_session_def
        sessionPrefix_def id1 or_else_def truthy_def)
  show ?thesis
    unfolding st0 using st1 st2 lg [unfolded st0] st3 by simp
qed

section \<open>Properties of a turn: the close handler\<close>

lemma static_vars_frame: "frame a = frame b \<Longrightarrow> static_vars a = static_vars b"
  using frame_fields [of a b] by (simp add: static_vars_def)

lemma settle_static_vars: "static_vars (settle v t) = static_vars t"
  by (simp add: settle_def static_vars_def split: option.splits)

lemma create_session_static_vars:
  "static_vars (fst (fst (create_session n s))) = static_vars (fst s)"
  by (simp add: create_session_def Let_def static_vars_def)

lemma on_stdout_static_vars: "static_vars (fst (fst (on_stdout rt d n s))) = static_vars (fst s)"
proof -
  let ?t0 = "(fst s)\<lparr>outputBuffer := outputBuffer (fst s) @ d, hasReceivedOutput := True, timeoutPending := False\<rparr>"
  have "static_vars (fst (fst (stdout_content rt d ?t0))) = static_vars ?t0"
    by (rule static_vars_frame [OF stdout_content_frame])
  then show ?thesis
    by (simp add: on_stdout_cases Let_def create_session_static_vars)
       (simp add: static_vars_def)
qed

lemma close_codex_rest_static_vars: "static_vars (close_codex_rest rt t) = static_vars t"
  by (rule static_vars_frame [OF close_codex_rest_frame])

lemma on_close_static_vars: "static_vars (fst (fst (on_close rt c s))) = static_vars (fst s)"
  by (simp add: on_close_def Let_def settle_static_vars close_codex_rest_static_vars)
     (simp add: static_vars_def)

lemma step_static_vars: "static_vars (fst (fst (step rt e s))) = static_vars (fst s)"
proof (cases e)
  case (Stdout d n)
  then show ?thesis by (simp add: on_stdout_static_vars)
next
  case (Stderr m)
  then show ?thesis by (simp add: on_stderr_def Let_def static_vars_def)
next
  case WindowElapsed
  then show ?thesis by (simp add: on_timeout_def Let_def static_vars_def)
next
  case (Close c)
  then show ?thesis by (simp add: on_close_static_vars)
next
  case (ProcError m)
  then show ?thesis by (simp add: on_error_def Let_def settle_static_vars)
qed

lemma run_static_vars: "static_vars (fst (run rt es s)) = static_vars (fst s)"
  by (induction es arbitrary: s) (simp_all add: step_static_vars)

lemma finalSessionId_session_vars:
  "session_vars a = session_vars b \<Longrightarrow> finalSessionId a = finalSessionId b"
  by (simp add: session_vars_def finalSessionId_def)

lemma registered_only_under_key_cong:
  assumes "registered_only_under_key (t, r)" "session_vars t' = session_vars t"
  shows "registered_only_under_key (t', r)"
  using assms finalSessionId_session_vars [OF assms(2)]
  by (simp add: registered_only_under_key_def session_vars_def)

lemma registered_delete:
  assumes "registered_only_under_key (t, r)" "session_vars t' = session_vars t"
  shows "registered_only_under_key (t', reg_delete (finalSessionId t) r)"
    and "geminiProcess t \<notin> snd ` set (reg_delete (finalSessionId t) r)"
  using assms finalSessionId_session_vars [OF assms(2)]
  by (auto simp: registered_only_under_key_def session_vars_def set_reg_delete)

lemma set_reg_set: "set (reg_set k p r) \<subseteq> insert (k, p) (set r)"
  by (induction r) (auto split: if_splits)

lemma create_session_registered:
  assumes "registered_only_under_key s"
  shows "registered_only_under_key (fst (create_session n s))"
proof (cases "\<not> truthy (sessionId (fst s)) \<and> \<not> sessionCreatedSent (fst s) \<and> \<not> truthy (capturedSessionId (fst s))")
  case False
  then have "create_session n s = (s, [])" by (auto simp: create_session_def Let_def)
  with assms show ?thesis by simp
next
  case True
  let ?id = "sessionPrefix (cliProvider (fst s)) @ ''_'' @ toString_nat n"
  let ?t1 = "(fst s)\<lparr>capturedSessionId := Some ?id, sessionCreatedSent := True\<rparr>"
  have key: "finalSessionId (fst s) = processKey (fst s)"
    using True by (simp add: finalSessionId_def or_else_def)
  have fin: "finalSessionId ?t1 = ?id"
    by (simp add: finalSessionId_def or_else_def truthy_def)
  have cs: "fst (create_session n s) =
      (?t1, if processKey (fst s) \<noteq> ?id
            then reg_set ?id (geminiProcess (fst s)) (reg_delete (processKey (fst s)) (snd s)) else snd s)"
    using True by (simp add: create_session_def Let_def)
  show ?thesis
  proof (cases "processKey (fst s) \<noteq> ?id")
    case False
    with assms key fin show ?thesis
      unfolding cs by (simp add: registered_only_under_key_def)
  next
    case ne: True
    have "\<forall>e \<in> set (reg_delete (processKey (fst s)) (snd s)). snd e \<noteq> geminiProcess (fst s)"
      using assms key by (auto simp: registered_only_under_key_def set_reg_delete)
    then have "\<forall>e \<in> set (reg_set ?id (geminiProcess (fst s)) (reg_delete (processKey (fst s)) (snd s))).
                 snd e = geminiProcess (fst s) \<longrightarrow> fst e = ?id"
      using set_reg_set [of ?id "geminiProcess (fst s)" "reg_delete (processKey (fst s)) (snd s)"]
      by auto
    with ne fin show ?thesis
      unfolding cs by (simp add: registered_only_under_key_def)
  qed
qed

lemma step_registered:
  assumes "registered_only_under_key s"
  shows "registered_only_under_key (fst (step rt e s))"
proof (cases e)
  case (Stdout d n)
  let ?t0 = "(fst s)\<lparr>outputBuffer := outputBuffer (fst s) @ d, hasReceivedOutput := True, timeoutPending := False\<rparr>"
  have "session_vars (fst (fst (stdout_content rt d ?t0))) = session_vars (fst s)"
    by (simp add: stdout_content_session_vars) (simp add: session_vars_def)
  with assms have thrown: "registered_only_under_key (fst (fst (stdout_content rt d ?t0)), snd s)"
    using registered_only_under_key_cong [of "fst s" "snd s"] by simp
  then have "registered_only_under_key (fst (create_session n (fst (fst (stdout_content rt d ?t0)), snd s)))"
    by (rule create_session_registered)
  with thrown show ?thesis using Stdout by (simp add: on_stdout_cases Let_def)
next
  case (Stderr m)
  have "snd (fst (on_stderr rt m s)) = snd s" by (simp add: on_stderr_def Let_def)
  with assms on_stderr_session_vars [of rt m s] Stderr show ?thesis
    using registered_only_under_key_cong [of "fst s" "snd s" "fst (fst (on_stderr rt m s))"]
    by (simp add: prod_eq_iff) (metis prod.collapse)
next
  case WindowElapsed
  have "snd (fst (on_timeout s)) = snd s" by (simp add: on_timeout_def Let_def)
  with assms on_timeout_session_vars [of s] WindowElapsed show ?thesis
    using registered_only_under_key_cong [of "fst s" "snd s" "fst (fst (on_timeout s))"]
    by (simp add: prod_eq_iff) (metis prod.collapse)
next
  case (Close c)
  let ?t1 = "close_codex_rest rt ((fst s)\<lparr>timeoutPending := False\<rparr>)"
  have sv1: "session_vars ?t1 = session_vars (fst s)"
    using session_vars_frame [OF close_codex_rest_frame, of rt "(fst s)\<lparr>timeoutPending := False\<rparr>"]
    by (simp add: session_vars_def)
  have "registered_only_under_key (?t1, snd s)"
    using assms registered_only_under_key_cong [OF _ sv1, of "snd s"] by simp
  from registered_delete(1) [OF this, of "settle v ?t1" for v]
  show ?thesis using Close by (simp add: on_close_def Let_def settle_session_vars)
next
  case (ProcError m)
  have "registered_only_under_key (fst s, snd s)" using assms by simp
  from registered_delete(1) [OF this, of "settle v (fst s)" for v]
  show ?thesis using ProcError by (simp add: on_error_def Let_def settle_session_vars)
qed

lemma run_registered:
  "registered_only_under_key s \<Longrightarrow> registered_only_under_key (run rt es s)"
  by (induction es arbitrary: s) (simp_all add: step_registered)

lemma toString_nat_nonempty: "toString_nat n \<noteq> []"
  by (subst toString_nat.simps) simp

lemma spawn_turn_registered:
  assumes "pr \<notin> snd ` set reg"
  shows "registered_only_under_key (fst (spawn_turn provider cmd sid dir pcwd pr now0 paths tdir reg))"
proof -
  let ?key = "the (or_else sid (or_else sid (Some (toString_nat now0))))"
  have k: "?key \<noteq> []"
    by (cases sid) (auto simp: or_else_def truthy_def toString_nat_nonempty)
  have fin: "finalSessionId (fst (fst (spawn_turn provider cmd sid dir pcwd pr now0 paths tdir reg))) = ?key"
    by (cases sid) (auto simp: spawn_turn_def Let_def finalSessionId_def or_else_def truthy_def)
  have reg: "snd (fst (spawn_turn provider cmd sid dir pcwd pr now0 paths tdir reg)) = reg_set ?key pr reg"
    by (simp add: spawn_turn_def Let_def)
  have pr: "geminiProcess (fst (fst (spawn_turn provider cmd sid dir pcwd pr now0 paths tdir reg))) = pr"
    by (simp add: spawn_turn_def Let_def)
  have "\<forall>e \<in> set (reg_set ?key pr reg). snd e = pr \<longrightarrow> fst e = ?key"
    using set_reg_set [of ?key pr reg] assms by (auto simp: image_iff)
  then show ?thesis
    unfolding registered_only_under_key_def fin reg pr using k by simp
qed


lemma filter_hc_Unlink: "filter is_handler_or_complete (map Unlink ps) = []"
  by (induction ps) simp_all

lemma filter_am_Unlink: "filter is_assistant_message (map Unlink ps) = []"
  by (induction ps) simp_all

lemma on_close_handler_then_complete:
  "filter is_handler_or_complete (snd (on_close rt code s)) =
     (if hasResponseHandler (fst s) then [Handler ForceFlush, Handler Destroy] else [])
     @ [WsSend (GeminiComplete code (\<not> truthy (sessionId (fst s)) \<and> truthy (command (fst s))))]"
proof -
  let ?t1 = "close_codex_rest rt ((fst s)\<lparr>timeoutPending := False\<rparr>)"
  have "static_vars ?t1 = static_vars (fst s)"
    by (simp add: close_codex_rest_static_vars) (simp add: static_vars_def)
  then have f: "hasResponseHandler ?t1 = hasResponseHandler (fst s)" "sessionId ?t1 = sessionId (fst s)"
    "command ?t1 = command (fst s)"
    by (simp_all add: static_vars_def)
  show ?thesis
    by (simp add: on_close_def Let_def cleanup_effects_def filter_hc_Unlink f)
qed

lemma fullResponse_settle: "fullResponse (settle v t) = fullResponse t"
  by (simp add: settle_def split: option.splits)

lemma on_close_assistant_message:
  assumes "finalSessionId (fst s) \<noteq> []"
  shows "filter is_assistant_message (snd (on_close rt code s)) =
     (if fullResponse (fst (fst (on_close rt code s))) \<noteq> []
      then [Store (AddMessage (finalSessionId (fst s)) ''assistant'' (fullResponse (fst (fst (on_close rt code s)))))]
      else [])"
proof -
  let ?t1 = "close_codex_rest rt ((fst s)\<lparr>timeoutPending := False\<rparr>)"
  have "session_vars ?t1 = session_vars (fst s)"
    using session_vars_frame [OF close_codex_rest_frame, of rt "(fst s)\<lparr>timeoutPending := False\<rparr>"]
    by (simp add: session_vars_def)
  then have fin: "finalSessionId ?t1 = finalSessionId (fst s)" by (rule finalSessionId_session_vars)
  have fr: "fullResponse (fst (fst (on_close rt code s))) = fullResponse ?t1"
    by (simp add: on_close_def Let_def fullResponse_settle)
  show ?thesis
    unfolding fr using assms
    by (simp add: on_close_def Let_def cleanup_effects_def filter_am_Unlink fin)
qed

lemma on_close_settles:
  "last (snd (on_close rt code s)) =
      Settle (if code = Some 0 then Resolved else Rejected (exit_message (cliProvider (fst s)) code))"
  "promise (fst s) = None \<Longrightarrow> promise (fst (fst (on_close rt code s))) =
      Some (if code = Some 0 then Resolved else Rejected (exit_message (cliProvider (fst s)) code))"
proof -
  let ?t1 = "close_codex_rest rt ((fst s)\<lparr>timeoutPending := False\<rparr>)"
  have "frame ?t1 = frame ((fst s)\<lparr>timeoutPending := False\<rparr>)" by (rule close_codex_rest_frame)
  from frame_fields(1,15) [OF this]
  have f: "cliProvider ?t1 = cliProvider (fst s)" "promise ?t1 = promise (fst s)" by simp_all
  show "last (snd (on_close rt code s)) =
      Settle (if code = Some 0 then Resolved else Rejected (exit_message (cliProvider (fst s)) code))"
    by (simp add: on_close_def Let_def f)
  show "promise (fst s) = None \<Longrightarrow> promise (fst (fst (on_close rt code s))) =
      Some (if code = Some 0 then Resolved else Rejected (exit_message (cliProvider (fst s)) code))"
    by (simp add: on_close_def Let_def f settle_def)
qed

lemma step_promise_pending:
  "\<not> is_close_or_error e \<Longrightarrow> promise (fst (fst (step rt e s))) = promise (fst s)"
proof (cases e)
  case (Stdout d n)
  let ?t0 = "(fst s)\<lparr>outputBuffer := outputBuffer (fst s) @ d, hasReceivedOutput := True, timeoutPending := False\<rparr>"
  have "frame (fst (fst (stdout_content rt d ?t0))) = frame ?t0" by (rule stdout_content_frame)
  from frame_fields(15) [OF this] have "promise (fst (fst (stdout_content rt d ?t0))) = promise (fst s)" by simp
  then show ?thesis using Stdout
    by (simp add: on_stdout_cases Let_def create_session_def)
qed (simp_all add: on_stderr_def on_timeout_def Let_def)

lemma run_promise_pending:
  "\<forall>e \<in> set es. \<not> is_close_or_error e \<Longrightarrow> promise (fst (run rt es s)) = promise (fst s)"
  by (induction es arbitrary: s) (simp_all add: step_promise_pending)

text \<open>
  Claim C4. Let a turn run through any events and then close with exit code \<open>c\<close>. Of the
  calls of the response handler and the terminal event, the close handler performs exactly:
  force-flush, then destroy (when a response handler was created, that is for every provider
  but Ollama), then the gemini-complete event carrying \<open>c\<close>. If the process was not in
  the registry before the turn started, it is not in the registry after the close handler.
  The accumulated assistant text is saved as one assistant message under the turn's session
  key exactly when it is non-empty, whatever \<open>c\<close> is. The handler's last action is to
  resolve the promise when \<open>c = 0\<close> and otherwise to reject it with the error
  ``<provider label> CLI exited with code <c>''; when no close or error event came before,
  the promise ends up settled in exactly that way.
\<close>

theorem close_flushes_persists_and_settles:
  "filter is_handler_or_complete
      (snd (on_close rt code (run rt evs (fst (spawn_turn provider cmd sid dir pcwd pr now0 paths tdir reg))))) =
     (if provider \<noteq> ''ollama'' then [Handler ForceFlush, Handler Destroy] else [])
     @ [WsSend (GeminiComplete code (\<not> truthy sid \<and> truthy cmd))]
   \<and> (pr \<notin> snd ` set reg \<longrightarrow>
        pr \<notin> snd ` set (snd (run rt (evs @ [Close code])
                 (fst (spawn_turn provider cmd sid dir pcwd pr now0 paths tdir reg)))))
   \<and> filter is_assistant_message
      (snd (on_close rt code (run rt evs (fst (spawn_turn provider cmd sid dir pcwd pr now0 paths tdir reg))))) =
     (if fullResponse (fst (run rt (evs @ [Close code])
            (fst (spawn_turn provider cmd sid dir pcwd pr now0 paths tdir reg)))) \<noteq> []
      then [Store (AddMessage
              (finalSessionId (fst (run rt evs (fst (spawn_turn provider cmd sid dir pcwd pr now0 paths tdir reg)))))
              ''assistant''
              (fullResponse (fst (run rt (evs @ [Close code])
                 (fst (spawn_turn provider cmd sid dir pcwd pr now0 paths tdir reg))))))]
      else [])
   \<and> last (snd (on_close rt code (run rt evs (fst (spawn_turn provider cmd sid dir pcwd pr now0 paths tdir reg))))) =
       Settle (if code = Some 0 then Resolved
               else Rejected (providerLabel provider @ '' CLI exited with code '' @ show_code code))
   \<and> ((\<forall>e \<in> set evs. \<not> is_close_or_error e) \<longrightarrow>
        promise (fst (run rt (evs @ [Close code])
           (fst (spawn_turn provider cmd sid dir pcwd pr now0 paths tdir reg)))) =
        Some (if code = Some 0 then Resolved
              else Rejected (providerLabel provider @ '' CLI exited with code '' @ show_code code)))"
proof -
  let ?s0 = "fst (spawn_turn provider cmd sid dir pcwd pr now0 paths tdir reg)"
  let ?cur = "run rt evs ?s0"
  have r: "run rt (evs @ [Close code]) ?s0 = fst (on_close rt code ?cur)"
    by (simp add: run_append)
  have "static_vars (fst ?cur) = static_vars (fst ?s0)" by (rule run_static_vars)
  then have st: "cliProvider (fst ?cur) = provider" "command (fst ?cur) = cmd" "sessionId (fst ?cur) = sid"
    "geminiProcess (fst ?cur) = pr" "hasResponseHandler (fst ?cur) = (provider \<noteq> ''ollama'')"
    by (simp_all add: static_vars_def spawn_turn_def Let_def)
  have a: "filter is_handler_or_complete (snd (on_close rt code ?cur)) =
     (if provider \<noteq> ''ollama'' then [Handler ForceFlush, Handler Destroy] else [])
     @ [WsSend (GeminiComplete code (\<not> truthy sid \<and> truthy cmd))]"
    by (simp add: on_close_handler_then_complete st)
  have b: "pr \<notin> snd ` set (snd (run rt (evs @ [Close code]) ?s0))" if "pr \<notin> snd ` set reg"
  proof -
    have "registered_only_under_key ?s0" by (rule spawn_turn_registered [OF that])
    then have "registered_only_under_key ?cur" by (rule run_registered)
    then have inv: "registered_only_under_key (fst ?cur, snd ?cur)" by simp
    let ?t1 = "close_codex_rest rt ((fst ?cur)\<lparr>timeoutPending := False\<rparr>)"
    have sv1: "session_vars ?t1 = session_vars (fst ?cur)"
      using session_vars_frame [OF close_codex_rest_frame, of rt "(fst ?cur)\<lparr>timeoutPending := False\<rparr>"]
      by (simp add: session_vars_def)
    have "geminiProcess (fst ?cur) \<notin> snd ` set (reg_delete (finalSessionId (fst ?cur)) (snd ?cur))"
      by (rule registered_delete(2) [OF inv refl])
    then show ?thesis
      unfolding r using finalSessionId_session_vars [OF sv1]
      by (simp add: on_close_def Let_def st)
  qed
  have fin: "finalSessionId (fst ?cur) \<noteq> []"
  proof -
    have k: "the (or_else sid (or_else sid (Some (toString_nat now0)))) \<noteq> []"
      by (cases sid) (auto simp: or_else_def truthy_def toString_nat_nonempty)
    have k0: "processKey (fst ?cur) = the (or_else sid (or_else sid (Some (toString_nat now0))))"
      using run_static_vars [of rt evs ?s0] by (simp add: static_vars_def spawn_turn_def Let_def)
    show ?thesis
      using k k0 st(3)
      by (auto simp: finalSessionId_def or_else_def truthy_def split: option.splits)
  qed
  note c = on_close_assistant_message [OF fin, of rt code, folded r]
  have d: "last (snd (on_close rt code ?cur)) =
       Settle (if code = Some 0 then Resolved
               else Rejected (providerLabel provider @ '' CLI exited with code '' @ show_code code))"
    by (simp add: on_close_settles(1) st exit_message_def)
  have e: "promise (fst (run rt (evs @ [Close code]) ?s0)) =
        Some (if code = Some 0 then Resolved
              else Rejected (providerLabel provider @ '' CLI exited with code '' @ show_code code))"
    if "\<forall>e \<in> set evs. \<not> is_close_or_error e"
  proof -
    have "promise (fst ?cur) = None"
      using run_promise_pending [OF that, of rt ?s0] by (simp add: spawn_turn_def Let_def)
    from on_close_settles(2) [OF this, of rt code] show ?thesis
      unfolding r by (simp add: st exit_message_def)
  qed
  from a b c d e show ?thesis by blast
qed


text \<open>A Gemini turn that produced one chunk and then exited with code 1: the partial answer is saved as the assistant message, the process is no longer registered, and the promise is rejected with the exit message.\<close>

theorem close_flushes_persists_and_settles_witness:
  "(1::nat) \<notin> snd ` set ([] :: registry)
   \<and> list_all (\<lambda>e. \<not> is_close_or_error e) [Stdout ''partial answer'' 1700000000123]
   \<and> (1::nat) \<notin> snd ` set (snd (run \<lparr>json_parse = (\<lambda>l. SyntaxError), sanitize = (\<lambda>x. x)\<rparr>
          ([Stdout ''partial answer'' 1700000000123] @ [Close (Some 1)])
          (fst (spawn_turn ''gemini'' (Some ''hi'') None None ''/w'' 1 1700000000000 [] None []))))
   \<and> filter is_assistant_message
        (snd (on_close \<lparr>json_parse = (\<lambda>l. SyntaxError), sanitize = (\<lambda>x. x)\<rparr> (Some 1)
          (run \<lparr>json_parse = (\<lambda>l. SyntaxError), sanitize = (\<lambda>x. x)\<rparr> [Stdout ''partial answer'' 1700000000123]
            (fst (spawn_turn ''gemini'' (Some ''hi'') None None ''/w'' 1 1700000000000 [] None []))))) =
       [Store (AddMessage ''gemini_1700000000123'' ''assistant'' ''partial answer'')]
   \<and> promise (fst (run \<lparr>json_parse = (\<lambda>l. SyntaxError), sanitize = (\<lambda>x. x)\<rparr>
          ([Stdout ''partial answer'' 1700000000123] @ [Close (Some 1)])
          (fst (spawn_turn ''gemini'' (Some ''hi'') None None ''/w'' 1 1700000000000 [] None [])))) =
       Some (Rejected ''Gemini CLI exited with code 1'')"
proof -
  let ?rt = "\<lparr>json_parse = (\<lambda>l. SyntaxError), sanitize = (\<lambda>x. x)\<rparr>"
  let ?s0 = "fst (spawn_turn ''gemini'' (Some ''hi'') None None ''/w'' 1 1700000000000 [] None [])"
  let ?t0 = "\<lparr>cliProvider = ''gemini'', command = Some ''hi'', sessionId = None, cwd = None,
      process_cwd = ''/w'', geminiProcess = 1, processKey = ''1700000000000'',
      capturedSessionId = None, sessionCreatedSent = False, fullResponse = [],
      pendingExternalSessionId = None, hasReceivedOutput = False, timeoutPending = True,
      hasResponseHandler = True, outputBuffer = [], codexLineBuffer = [], codexStderrBuffer = [],
      tempImagePaths = [], tempDir = None, promise = None\<rparr>"
  let ?t1 = "?t0\<lparr>capturedSessionId := Some ''gemini_1700000000123'', sessionCreatedSent := True,
      fullResponse := ''partial answer'', hasReceivedOutput := True, timeoutPending := False,
      outputBuffer := ''partial answer''\<rparr>"
  have h1: "(1::nat) \<notin> snd ` set ([] :: registry)" by simp
  have h2: "\<forall>e \<in> set [Stdout ''partial answer'' 1700000000123]. \<not> is_close_or_error e" by simp
  have st0: "?s0 = (?t0, [(''1700000000000'', 1)])"
    by (simp add: spawn_turn_def turn_eval_defs)
  have st1: "fst (on_stdout ?rt ''partial answer'' 1700000000123 (?t0, [(''1700000000000'', 1)]))
               = (?t1, [(''gemini_1700000000123'', 1)])"
    by (simp add: turn_eval_defs)
  have st2: "fullResponse (fst (fst (on_close ?rt (Some 1) (?t1, [(''gemini_1700000000123'', 1)])))) = ''partial answer''"
    by (simp add: turn_eval_defs)
  have fr: "fullResponse (fst (run ?rt ([Stdout ''partial answer'' 1700000000123] @ [Close (Some 1)]) ?s0))
              = ''partial answer''"
    by (simp only: run.simps step.simps append.simps st0 st1 st2)
  have fin: "finalSessionId (fst (run ?rt [Stdout ''partial answer'' 1700000000123] ?s0)) = ''gemini_1700000000123''"
    by (simp only: run.simps step.simps st0 st1) (simp add: finalSessionId_def or_else_def truthy_def)
  from close_flushes_persists_and_settles [of ?rt "Some 1" "[Stdout ''partial answer'' 1700000000123]"
      "''gemini''" "Some ''hi''" None None "''/w''" 1 1700000000000 "[]" None "[]"]
    h1 h2 fr fin
  show ?thesis by (simp add: providerLabel_def show_code_def toString_int_def toString_nat.simps digit_char_def)
qed

section \<open>Properties of a turn: Codex output as JSON lines\<close>

lemma split_nl_nonempty: "split_nl s \<noteq> []"
  by (cases s) simp_all

lemma split_nl_no_newline: "CHR 0x0A \<notin> set l \<Longrightarrow> split_nl l = [l]"
  by (induction l) auto

lemma split_nl_line: "CHR 0x0A \<notin> set l \<Longrightarrow> split_nl (l @ CHR 0x0A # rest) = l # split_nl rest"
  by (induction l) auto

lemma split_nl_append:
  "split_nl (a @ b) = butlast (split_nl a) @ split_nl (last (split_nl a) @ b)"
proof (induction a)
  case Nil
  show ?case by simp
next
  case (Cons c cs)
  show ?case
  proof (cases "c = CHR 0x0A")
    case True
    then show ?thesis using Cons.IH by (simp add: split_nl_nonempty)
  next
    case False
    obtain x xs where S: "split_nl cs = x # xs" using split_nl_nonempty [of cs] by (cases "split_nl cs") auto
    show ?thesis
    proof (cases xs)
      case Nil
      with S False Cons.IH show ?thesis by simp
    next
      case (Cons y ys)
      with S False Cons.IH show ?thesis by simp
    qed
  qed
qed

lemma split_nl_append_butlast:
  "butlast (split_nl (a @ b)) = butlast (split_nl a) @ butlast (split_nl (last (split_nl a) @ b))"
  by (subst split_nl_append) (simp add: butlast_append split_nl_nonempty)

lemma split_nl_append_last:
  "last (split_nl (a @ b)) = last (split_nl (last (split_nl a) @ b))"
  by (subst split_nl_append) (simp add: split_nl_nonempty)

text \<open>
  The loop over two lists of lines one after the other: an exception in the first list ends
  the loop there.
\<close>

lemma codex_lines_append:
  "codex_lines rt (xs @ ys) t =
     (case snd (codex_lines rt xs t) of
        Some err \<Rightarrow> codex_lines rt xs t
      | None \<Rightarrow>
          ((fst (fst (codex_lines rt ys (fst (fst (codex_lines rt xs t))))),
            snd (fst (codex_lines rt xs t)) @ snd (fst (codex_lines rt ys (fst (fst (codex_lines rt xs t)))))),
           snd (codex_lines rt ys (fst (fst (codex_lines rt xs t))))))"
proof (induction xs arbitrary: t)
  case Nil
  show ?case by simp
next
  case (Cons l ls)
  show ?case
  proof (cases "codex_line rt l t")
    case (Inl e)
    then show ?thesis by simp
  next
    case (Inr r)
    show ?thesis
      using Cons.IH [of "fst r"] Inr
      by (cases "snd (codex_lines rt ls (fst r))") (simp_all add: split_beta)
  qed
qed

lemma codex_line_buffer:
  "codex_line rt l (t\<lparr>codexLineBuffer := b\<rparr>) =
     (case codex_line rt l t of
        Inl err \<Rightarrow> Inl err
      | Inr r \<Rightarrow> Inr ((fst r)\<lparr>codexLineBuffer := b\<rparr>, snd r))"
  by (simp add: codex_line_def Let_def append_response_def emit_content_def split: json_result.splits)

lemma codex_lines_buffer:
  "codex_lines rt ls (t\<lparr>codexLineBuffer := b\<rparr>) =
     (((fst (fst (codex_lines rt ls t)))\<lparr>codexLineBuffer := b\<rparr>, snd (fst (codex_lines rt ls t))),
      snd (codex_lines rt ls t))"
proof (induction ls arbitrary: t)
  case Nil
  show ?case by simp
next
  case (Cons l ls)
  show ?case
  proof (cases "codex_line rt l t")
    case (Inl e)
    then show ?thesis by (simp add: codex_line_buffer)
  next
    case (Inr r)
    then show ?thesis
      using Cons.IH [of "fst r"] by (simp add: codex_line_buffer split_beta)
  qed
qed

lemma codex_lines_keeps_provider: "cliProvider (fst (fst (codex_lines rt ls t))) = cliProvider t"
  using frame_fields(1) [OF codex_lines_frame] .

lemma stdout_content_codex:
  "cliProvider t = ''codex'' \<Longrightarrow>
     stdout_content rt d t =
       (((fst (fst (codex_lines rt (butlast (split_nl (codexLineBuffer t @ d))) t)))
            \<lparr>codexLineBuffer := last (split_nl (codexLineBuffer t @ d))\<rparr>,
         snd (fst (codex_lines rt (butlast (split_nl (codexLineBuffer t @ d))) t))),
        snd (codex_lines rt (butlast (split_nl (codexLineBuffer t @ d))) t))"
  by (simp add: stdout_content_def Let_def codex_lines_buffer)

text \<open>
  Feeding a text to the Codex branch in two chunks. When the handler of the first chunk runs
  to its end, the result is that of feeding the text at once; when the text fed at once
  does not throw, neither does its first part.
\<close>

lemma stdout_content_codex_append:
  assumes "cliProvider t = ''codex''" and "snd (stdout_content rt d1 t) = None"
  shows "stdout_content rt (d1 @ d2) t =
     ((fst (fst (stdout_content rt d2 (fst (fst (stdout_content rt d1 t))))),
       snd (fst (stdout_content rt d1 t)) @ snd (fst (stdout_content rt d2 (fst (fst (stdout_content rt d1 t)))))),
      snd (stdout_content rt d2 (fst (fst (stdout_content rt d1 t)))))"
proof -
  let ?b = "codexLineBuffer t"
  let ?L1 = "butlast (split_nl (?b @ d1))"
  let ?r1 = "last (split_nl (?b @ d1))"
  let ?L2 = "butlast (split_nl (?r1 @ d2))"
  let ?r2 = "last (split_nl (?r1 @ d2))"
  let ?u = "fst (fst (codex_lines rt ?L1 t))"
  have c1: "stdout_content rt d1 t =
      ((?u\<lparr>codexLineBuffer := ?r1\<rparr>, snd (fst (codex_lines rt ?L1 t))), snd (codex_lines rt ?L1 t))"
    using assms(1) by (rule stdout_content_codex)
  have n1: "snd (codex_lines rt ?L1 t) = None"
    using assms(2) unfolding c1 by simp
  have p1: "cliProvider (?u\<lparr>codexLineBuffer := ?r1\<rparr>) = ''codex''"
    using assms(1) by (simp add: codex_lines_keeps_provider)
  have c2: "stdout_content rt d2 (?u\<lparr>codexLineBuffer := ?r1\<rparr>) =
      (((fst (fst (codex_lines rt ?L2 ?u)))\<lparr>codexLineBuffer := ?r2\<rparr>, snd (fst (codex_lines rt ?L2 ?u))),
       snd (codex_lines rt ?L2 ?u))"
    by (simp add: stdout_content_codex [OF p1] codex_lines_buffer)
  have c12: "stdout_content rt (d1 @ d2) t =
      (((fst (fst (codex_lines rt (?L1 @ ?L2) t)))\<lparr>codexLineBuffer := ?r2\<rparr>,
        snd (fst (codex_lines rt (?L1 @ ?L2) t))),
       snd (codex_lines rt (?L1 @ ?L2) t))"
    using stdout_content_codex [OF assms(1), of rt "d1 @ d2"]
      split_nl_append_butlast [of "?b @ d1" d2] split_nl_append_last [of "?b @ d1" d2]
    by simp
  show ?thesis
    unfolding c12 c1 fst_conv snd_conv c2 by (simp add: codex_lines_append n1)
qed

lemma stdout_content_codex_prefix:
  assumes "cliProvider t = ''codex''" and "snd (stdout_content rt (d1 @ d2) t) = None"
  shows "snd (stdout_content rt d1 t) = None"
proof -
  let ?b = "codexLineBuffer t"
  let ?L1 = "butlast (split_nl (?b @ d1))"
  let ?L2 = "butlast (split_nl (last (split_nl (?b @ d1)) @ d2))"
  have "snd (codex_lines rt (?L1 @ ?L2) t) = None"
    using assms(2) stdout_content_codex [OF assms(1), of rt "d1 @ d2"]
      split_nl_append_butlast [of "?b @ d1" d2]
    by simp
  then have "snd (codex_lines rt ?L1 t) = None"
    by (cases "snd (codex_lines rt ?L1 t)") (simp_all add: codex_lines_append)
  then show ?thesis
    by (simp add: stdout_content_codex [OF assms(1)])
qed

lemma codex_line_started:
  assumes "trim l \<noteq> []" "json_parse rt (trim l) = JsonValue e" "ev_type e = Some ''thread.started''"
    "ev_thread_id e = Some tid" "tid \<noteq> []"
  shows "codex_line rt l t =
     Inr (t\<lparr>pendingExternalSessionId := Some tid\<rparr>,
      if truthy (capturedSessionId t) then [Store (SetExternalSessionId (the (capturedSessionId t)) tid)] else [])"
  using assms by (simp add: codex_line_def Let_def truthy_def)

lemma codex_line_message:
  assumes "trim l \<noteq> []" "json_parse rt (trim l) = JsonValue e" "ev_type e = Some ''item.completed''"
    "ev_item_type e = Some ''agent_message''" "ev_item_text e = Some m" "m \<noteq> []"
  shows "codex_line rt l t = Inr (append_response m t, emit_content t m)"
  using assms by (simp add: codex_line_def Let_def truthy_def or_else_def)

lemma codex_line_unparseable:
  "json_parse rt (trim l) = SyntaxError \<Longrightarrow> codex_line rt l t = Inr (t, [])"
  by (simp add: codex_line_def Let_def)

lemma emit_content_handler: "hasResponseHandler t \<Longrightarrow> emit_content t m = [Handler (ProcessData m)]"
  by (simp add: emit_content_def)

lemma create_session_set_external:
  "filter is_set_external (snd (create_session n (u, reg))) =
     (if \<not> truthy (sessionId u) \<and> \<not> sessionCreatedSent u \<and> \<not> truthy (capturedSessionId u)
         \<and> truthy (pendingExternalSessionId u)
      then [Store (SetExternalSessionId (sessionPrefix (cliProvider u) @ ''_'' @ toString_nat n)
              (the (pendingExternalSessionId u)))]
      else [])"
  by (simp add: create_session_def Let_def)

lemma create_session_no_chunk: "filter is_chunk (snd (create_session n s)) = []"
  by (simp add: create_session_def Let_def)

text \<open>
  Claim C5. For the Codex provider the stdout handler splits the buffered text on newlines and
  keeps the text after the last newline for the next chunk: a chunk without a newline only
  extends the buffer, and feeding a text in two chunks has the same result and the same
  effects as feeding it at once whenever the handler of the first chunk runs to its end,
  which it does whenever the text fed at once does not throw. Let three complete lines parse
  as a thread.started event with thread id \<open>tid\<close> and two item.completed agent-message
  events with non-empty texts \<open>ma\<close> and \<open>mb\<close>. Feeding them to a turn with an empty line
  buffer, at once or cut anywhere into two chunks, throws nothing, captures \<open>tid\<close> as the
  pending external session id while the first line is processed, stores it at once on the
  session when the session is known, and then passes \<open>ma\<close> and \<open>mb\<close>, in this order, to
  the response handler; these are the only chunks the stdout handler emits. When the turn
  has no session yet, the id is stored on the session created at the end of the same handler
  call; in both cases it is stored exactly once. A complete line that does not parse as JSON
  changes nothing, causes no effect and throws nothing: with such a line among the three,
  state and effects are the same.
\<close>

theorem codex_json_lines:
  assumes codex: "cliProvider t = ''codex''" and handler: "hasResponseHandler t"
    and buf: "codexLineBuffer t = []"
    and la: "CHR 0x0A \<notin> set la" "trim la \<noteq> []" "json_parse rt (trim la) = JsonValue ea"
      "ev_type ea = Some ''thread.started''" "ev_thread_id ea = Some tid" "tid \<noteq> []"
    and lb: "CHR 0x0A \<notin> set lb" "trim lb \<noteq> []" "json_parse rt (trim lb) = JsonValue eb"
      "ev_type eb = Some ''item.completed''" "ev_item_type eb = Some ''agent_message''"
      "ev_item_text eb = Some ma" "ma \<noteq> []"
    and lc: "CHR 0x0A \<notin> set lc" "trim lc \<noteq> []" "json_parse rt (trim lc) = JsonValue ec"
      "ev_type ec = Some ''item.completed''" "ev_item_type ec = Some ''agent_message''"
      "ev_item_text ec = Some mb" "mb \<noteq> []"
    and bad: "CHR 0x0A \<notin> set bad" "json_parse rt (trim bad) = SyntaxError"
  shows "(\<forall>d1 d2. snd (stdout_content rt d1 t) = None \<longrightarrow>
            stdout_content rt (d1 @ d2) t =
              ((fst (fst (stdout_content rt d2 (fst (fst (stdout_content rt d1 t))))),
                snd (fst (stdout_content rt d1 t))
                  @ snd (fst (stdout_content rt d2 (fst (fst (stdout_content rt d1 t)))))),
               snd (stdout_content rt d2 (fst (fst (stdout_content rt d1 t))))))
    \<and> (\<forall>d1 d2. snd (stdout_content rt (d1 @ d2) t) = None \<longrightarrow> snd (stdout_content rt d1 t) = None)
    \<and> (\<forall>d. CHR 0x0A \<notin> set d \<longrightarrow> stdout_content rt d t = ((t\<lparr>codexLineBuffer := d\<rparr>, []), None))
    \<and> stdout_content rt (la @ [CHR 0x0A] @ lb @ [CHR 0x0A] @ lc @ [CHR 0x0A]) t =
        ((append_response mb (append_response ma (t\<lparr>pendingExternalSessionId := Some tid\<rparr>)),
          (if truthy (capturedSessionId t)
           then [Store (SetExternalSessionId (the (capturedSessionId t)) tid)] else [])
          @ [Handler (ProcessData ma), Handler (ProcessData mb)]),
         None)
    \<and> (\<forall>d1 d2. d1 @ d2 = la @ [CHR 0x0A] @ lb @ [CHR 0x0A] @ lc @ [CHR 0x0A] \<longrightarrow>
         snd (stdout_content rt d1 t) = None
         \<and> snd (stdout_content rt d2 (fst (fst (stdout_content rt d1 t)))) = None
         \<and> fst (fst (stdout_content rt d2 (fst (fst (stdout_content rt d1 t))))) =
             append_response mb (append_response ma (t\<lparr>pendingExternalSessionId := Some tid\<rparr>))
         \<and> snd (fst (stdout_content rt d1 t))
             @ snd (fst (stdout_content rt d2 (fst (fst (stdout_content rt d1 t))))) =
             (if truthy (capturedSessionId t)
              then [Store (SetExternalSessionId (the (capturedSessionId t)) tid)] else [])
             @ [Handler (ProcessData ma), Handler (ProcessData mb)])
    \<and> stdout_content rt (la @ [CHR 0x0A] @ bad @ [CHR 0x0A] @ lb @ [CHR 0x0A] @ lc @ [CHR 0x0A]) t =
        stdout_content rt (la @ [CHR 0x0A] @ lb @ [CHR 0x0A] @ lc @ [CHR 0x0A]) t
    \<and> filter is_chunk (snd (on_stdout rt (la @ [CHR 0x0A] @ lb @ [CHR 0x0A] @ lc @ [CHR 0x0A]) n (t, reg)))
         = [Handler (ProcessData ma), Handler (ProcessData mb)]
    \<and> (truthy (capturedSessionId t) \<or> (\<not> truthy (sessionId t) \<and> \<not> sessionCreatedSent t) \<longrightarrow>
        filter is_set_external (snd (on_stdout rt (la @ [CHR 0x0A] @ lb @ [CHR 0x0A] @ lc @ [CHR 0x0A]) n (t, reg)))
         = [Store (SetExternalSessionId
              (if truthy (capturedSessionId t) then the (capturedSessionId t)
               else ''codex_'' @ toString_nat n) tid)])"
proof -
  let ?data = "la @ [CHR 0x0A] @ lb @ [CHR 0x0A] @ lc @ [CHR 0x0A]"
  let ?withbad = "la @ [CHR 0x0A] @ bad @ [CHR 0x0A] @ lb @ [CHR 0x0A] @ lc @ [CHR 0x0A]"
  let ?fx = "(if truthy (capturedSessionId t)
          then [Store (SetExternalSessionId (the (capturedSessionId t)) tid)] else [])
         @ [Handler (ProcessData ma), Handler (ProcessData mb)]"
  let ?t3 = "append_response mb (append_response ma (t\<lparr>pendingExternalSessionId := Some tid\<rparr>))"
  have c1: "stdout_content rt (d1 @ d2) t =
              ((fst (fst (stdout_content rt d2 (fst (fst (stdout_content rt d1 t))))),
                snd (fst (stdout_content rt d1 t))
                  @ snd (fst (stdout_content rt d2 (fst (fst (stdout_content rt d1 t)))))),
               snd (stdout_content rt d2 (fst (fst (stdout_content rt d1 t)))))"
    if "snd (stdout_content rt d1 t) = None" for d1 d2
    using codex that by (rule stdout_content_codex_append)
  have c2: "snd (stdout_content rt d1 t) = None"
    if "snd (stdout_content rt (d1 @ d2) t) = None" for d1 d2
    using codex that by (rule stdout_content_codex_prefix)
  have c3: "stdout_content rt d t = ((t\<lparr>codexLineBuffer := d\<rparr>, []), None)"
    if "CHR 0x0A \<notin> set d" for d
    using that by (simp add: stdout_content_codex [OF codex] buf split_nl_no_newline)
  have good: "split_nl ?data = [la, lb, lc, []]"
    using la(1) lb(1) lc(1) by (simp add: split_nl_line)
  have lines: "codex_lines rt [la, lb, lc] t = ((?t3, ?fx), None)"
    using handler
    by (simp add: codex_line_started [OF la(2-6)] codex_line_message [OF lb(2-7)]
        codex_line_message [OF lc(2-7)] emit_content_def append_response_def)
  have "codexLineBuffer ?t3 = []" using buf by (simp add: append_response_def)
  then have t3: "?t3\<lparr>codexLineBuffer := []\<rparr> = ?t3" by simp
  have bl: "butlast (split_nl ?data) = [la, lb, lc]" and lst: "last (split_nl ?data) = []"
    unfolding good by simp_all
  have "stdout_content rt ?data t =
      (((fst (fst (codex_lines rt [la, lb, lc] t)))\<lparr>codexLineBuffer := []\<rparr>,
        snd (fst (codex_lines rt [la, lb, lc] t))),
       snd (codex_lines rt [la, lb, lc] t))"
    using stdout_content_codex [OF codex, of rt ?data] by (simp only: buf append_Nil bl lst)
  then have main: "stdout_content rt ?data t = ((?t3, ?fx), None)"
    unfolding lines fst_conv snd_conv t3 .
  have c5: "snd (stdout_content rt d1 t) = None
         \<and> snd (stdout_content rt d2 (fst (fst (stdout_content rt d1 t)))) = None
         \<and> fst (fst (stdout_content rt d2 (fst (fst (stdout_content rt d1 t))))) = ?t3
         \<and> snd (fst (stdout_content rt d1 t))
             @ snd (fst (stdout_content rt d2 (fst (fst (stdout_content rt d1 t))))) = ?fx"
    if split: "d1 @ d2 = ?data" for d1 d2
  proof -
    have whole: "stdout_content rt (d1 @ d2) t = ((?t3, ?fx), None)"
      unfolding split by (rule main)
    then have first: "snd (stdout_content rt d1 t) = None"
      using c2 [of d1 d2] by simp
    from c1 [OF first, of d2] whole show ?thesis
      using first by (simp add: prod_eq_iff)
  qed
  have withbad: "split_nl ?withbad = [la, bad, lb, lc, []]"
    using la(1) lb(1) lc(1) bad(1) by (simp add: split_nl_line)
  have lines_bad: "codex_lines rt [la, bad, lb, lc] t = ((?t3, ?fx), None)"
    using handler
    by (simp add: codex_line_started [OF la(2-6)] codex_line_message [OF lb(2-7)]
        codex_line_message [OF lc(2-7)] codex_line_unparseable [OF bad(2)]
        emit_content_def append_response_def)
  have blb: "butlast (split_nl ?withbad) = [la, bad, lb, lc]"
    and lab: "last (split_nl ?withbad) = []"
    unfolding withbad by simp_all
  have "stdout_content rt ?withbad t =
      (((fst (fst (codex_lines rt [la, bad, lb, lc] t)))\<lparr>codexLineBuffer := []\<rparr>,
        snd (fst (codex_lines rt [la, bad, lb, lc] t))),
       snd (codex_lines rt [la, bad, lb, lc] t))"
    using stdout_content_codex [OF codex, of rt ?withbad]
    by (simp only: buf append_Nil blb lab)
  then have c6: "stdout_content rt ?withbad t = stdout_content rt ?data t"
    unfolding main lines_bad fst_conv snd_conv t3 .
  let ?t0 = "t\<lparr>outputBuffer := outputBuffer t @ ?data, hasReceivedOutput := True, timeoutPending := False\<rparr>"
  let ?u3 = "append_response mb (append_response ma (?t0\<lparr>pendingExternalSessionId := Some tid\<rparr>))"
  have cz: "cliProvider ?t0 = ''codex''" "hasResponseHandler ?t0" "codexLineBuffer ?t0 = []"
    using codex handler buf by simp_all
  have linesz: "codex_lines rt [la, lb, lc] ?t0 = ((?u3, ?fx), None)"
    using handler
    by (simp add: codex_line_started [OF la(2-6)] codex_line_message [OF lb(2-7)]
        codex_line_message [OF lc(2-7)] emit_content_def append_response_def)
  have "codexLineBuffer ?u3 = []" using buf by (simp add: append_response_def)
  then have u3: "?u3\<lparr>codexLineBuffer := []\<rparr> = ?u3" by simp
  have "stdout_content rt ?data ?t0 =
      (((fst (fst (codex_lines rt [la, lb, lc] ?t0)))\<lparr>codexLineBuffer := []\<rparr>,
        snd (fst (codex_lines rt [la, lb, lc] ?t0))),
       snd (codex_lines rt [la, lb, lc] ?t0))"
    using stdout_content_codex [OF cz(1), of rt ?data] by (simp only: cz(3) append_Nil bl lst)
  then have mainz: "stdout_content rt ?data ?t0 = ((?u3, ?fx), None)"
    unfolding linesz fst_conv snd_conv u3 .
  define u3 where "u3 = ?u3"
  have os: "snd (on_stdout rt ?data n (t, reg)) = ?fx @ snd (create_session n (u3, reg))"
    unfolding u3_def
    by (simp add: on_stdout_def Let_def split_beta mainz del: append_assoc append.simps)
  have u3f: "capturedSessionId u3 = capturedSessionId t" "sessionId u3 = sessionId t"
    "sessionCreatedSent u3 = sessionCreatedSent t" "pendingExternalSessionId u3 = Some tid"
    "cliProvider u3 = ''codex''"
    unfolding u3_def using codex by (simp_all add: append_response_def)
  have tr: "truthy (Some tid)" using la(6) by (simp add: truthy_def)
  have c7: "filter is_chunk (snd (on_stdout rt ?data n (t, reg))) = [Handler (ProcessData ma), Handler (ProcessData mb)]"
    unfolding os by (simp add: create_session_no_chunk)
  have c8: "filter is_set_external (snd (on_stdout rt ?data n (t, reg)))
         = [Store (SetExternalSessionId
              (if truthy (capturedSessionId t) then the (capturedSessionId t)
               else ''codex_'' @ toString_nat n) tid)]"
    if "truthy (capturedSessionId t) \<or> (\<not> truthy (sessionId t) \<and> \<not> sessionCreatedSent t)"
    using that unfolding os
    by (auto simp: create_session_set_external u3f tr sessionPrefix_def)
  from c1 c2 c3 main c5 c6 c7 c8 show ?thesis by blast
qed


text \<open>A new Codex turn whose first chunk holds the three events as JSON lines, with \<^verbatim>\<open>JSON.parse\<close> given on these three lines: two chunks in order, and the thread id stored once on the session created by the same handler call. When the text arrives cut inside the second line, the first part passes nothing to the response handler and the second part passes both texts.\<close>

theorem codex_json_lines_witness:
  \<open>filter is_chunk (snd (on_stdout
      \<lparr>json_parse = (\<lambda>s.
          if s = ''{"type":"thread.started","thread_id":"th_1"}''
            then JsonValue \<lparr>ev_type = Some ''thread.started'', ev_thread_id = Some ''th_1'', ev_item_type = None,
                   ev_item_text = None, ev_error_message = None, ev_message = None\<rparr>
          else if s = ''{"type":"item.completed","item":{"type":"agent_message","text":"hello"}}''
            then JsonValue \<lparr>ev_type = Some ''item.completed'', ev_thread_id = None, ev_item_type = Some ''agent_message'',
                   ev_item_text = Some ''hello'', ev_error_message = None, ev_message = None\<rparr>
          else if s = ''{"type":"item.completed","item":{"type":"agent_message","text":"back"}}''
            then JsonValue \<lparr>ev_type = Some ''item.completed'', ev_thread_id = None, ev_item_type = Some ''agent_message'',
                   ev_item_text = Some ''back'', ev_error_message = None, ev_message = None\<rparr>
          else if s = ''null'' then JsonNull
          else SyntaxError),
        sanitize = (\<lambda>x. x)\<rparr>
      (''{"type":"thread.started","thread_id":"th_1"}'' @ [CHR 0x0A]
       @ ''{"type":"item.completed","item":{"type":"agent_message","text":"hello"}}'' @ [CHR 0x0A]
       @ ''{"type":"item.completed","item":{"type":"agent_message","text":"back"}}'' @ [CHR 0x0A])
      1700000000123
      (fst (spawn_turn ''codex'' (Some ''hi'') None None ''/w'' 1 1700000000000 [] None []))))
    = [Handler (ProcessData ''hello''), Handler (ProcessData ''back'')]
   \<and> filter is_set_external (snd (on_stdout
      \<lparr>json_parse = (\<lambda>s.
          if s = ''{"type":"thread.started","thread_id":"th_1"}''
            then JsonValue \<lparr>ev_type = Some ''thread.started'', ev_thread_id = Some ''th_1'', ev_item_type = None,
                   ev_item_text = None, ev_error_message = None, ev_message = None\<rparr>
          else if s = ''{"type":"item.completed","item":{"type":"agent_message","text":"hello"}}''
            then JsonValue \<lparr>ev_type = Some ''item.completed'', ev_thread_id = None, ev_item_type = Some ''agent_message'',
                   ev_item_text = Some ''hello'', ev_error_message = None, ev_message = None\<rparr>
          else if s = ''{"type":"item.completed","item":{"type":"agent_message","text":"back"}}''
            then JsonValue \<lparr>ev_type = Some ''item.completed'', ev_thread_id = None, ev_item_type = Some ''agent_message'',
                   ev_item_text = Some ''back'', ev_error_message = None, ev_message = None\<rparr>
          else if s = ''null'' then JsonNull
          else SyntaxError),
        sanitize = (\<lambda>x. x)\<rparr>
      (''{"type":"thread.started","thread_id":"th_1"}'' @ [CHR 0x0A]
       @ ''{"type":"item.completed","item":{"type":"agent_message","text":"hello"}}'' @ [CHR 0x0A]
       @ ''{"type":"item.completed","item":{"type":"agent_message","text":"back"}}'' @ [CHR 0x0A])
      1700000000123
      (fst (spawn_turn ''codex'' (Some ''hi'') None None ''/w'' 1 1700000000000 [] None []))))
    = [Store (SetExternalSessionId ''codex_1700000000123'' ''th_1'')]
   \<and> snd (fst (stdout_content
      \<lparr>json_parse = (\<lambda>s.
          if s = ''{"type":"thread.started","thread_id":"th_1"}''
            then JsonValue \<lparr>ev_type = Some ''thread.started'', ev_thread_id = Some ''th_1'', ev_item_type = None,
                   ev_item_text = None, ev_error_message = None, ev_message = None\<rparr>
          else if s = ''{"type":"item.completed","item":{"type":"agent_message","text":"hello"}}''
            then JsonValue \<lparr>ev_type = Some ''item.completed'', ev_thread_id = None, ev_item_type = Some ''agent_message'',
                   ev_item_text = Some ''hello'', ev_error_message = None, ev_message = None\<rparr>
          else if s = ''{"type":"item.completed","item":{"type":"agent_message","text":"back"}}''
            then JsonValue \<lparr>ev_type = Some ''item.completed'', ev_thread_id = None, ev_item_type = Some ''agent_message'',
                   ev_item_text = Some ''back'', ev_error_message = None, ev_message = None\<rparr>
          else if s = ''null'' then JsonNull
          else SyntaxError),
        sanitize = (\<lambda>x. x)\<rparr>
      (''{"type":"thread.started","thread_id":"th_1"}'' @ [CHR 0x0A] @ ''{"type":"item.comp'')
      (fst (fst (spawn_turn ''codex'' (Some ''hi'') None None ''/w'' 1 1700000000000 [] None [])))))
     @ snd (fst (stdout_content
      \<lparr>json_parse = (\<lambda>s.
          if s = ''{"type":"thread.started","thread_id":"th_1"}''
            then JsonValue \<lparr>ev_type = Some ''thread.started'', ev_thread_id = Some ''th_1'', ev_item_type = None,
                   ev_item_text = None, ev_error_message = None, ev_message = None\<rparr>
          else if s = ''{"type":"item.completed","item":{"type":"agent_message","text":"hello"}}''
            then JsonValue \<lparr>ev_type = Some ''item.completed'', ev_thread_id = None, ev_item_type = Some ''agent_message'',
                   ev_item_text = Some ''hello'', ev_error_message = None, ev_message = None\<rparr>
          else if s = ''{"type":"item.completed","item":{"type":"agent_message","text":"back"}}''
            then JsonValue \<lparr>ev_type = Some ''item.completed'', ev_thread_id = None, ev_item_type = Some ''agent_message'',
                   ev_item_text = Some ''back'', ev_error_message = None, ev_message = None\<rparr>
          else if s = ''null'' then JsonNull
          else SyntaxError),
        sanitize = (\<lambda>x. x)\<rparr>
      (''leted","item":{"type":"agent_message","text":"hello"}}'' @ [CHR 0x0A]
       @ ''{"type":"item.completed","item":{"type":"agent_message","text":"back"}}'' @ [CHR 0x0A])
      (fst (fst (stdout_content
        \<lparr>json_parse = (\<lambda>s.
          if s = ''{"type":"thread.started","thread_id":"th_1"}''
            then JsonValue \<lparr>ev_type = Some ''thread.started'', ev_thread_id = Some ''th_1'', ev_item_type = None,
                   ev_item_text = None, ev_error_message = None, ev_message = None\<rparr>
          else if s = ''{"type":"item.completed","item":{"type":"agent_message","text":"hello"}}''
            then JsonValue \<lparr>ev_type = Some ''item.completed'', ev_thread_id = None, ev_item_type = Some ''agent_message'',
                   ev_item_text = Some ''hello'', ev_error_message = None, ev_message = None\<rparr>
          else if s = ''{"type":"item.completed","item":{"type":"agent_message","text":"back"}}''
            then JsonValue \<lparr>ev_type = Some ''item.completed'', ev_thread_id = None, ev_item_type = Some ''agent_message'',
                   ev_item_text = Some ''back'', ev_error_message = None, ev_message = None\<rparr>
          else if s = ''null'' then JsonNull
          else SyntaxError),
        sanitize = (\<lambda>x. x)\<rparr>
        (''{"type":"thread.started","thread_id":"th_1"}'' @ [CHR 0x0A] @ ''{"type":"item.comp'')
        (fst (fst (spawn_turn ''codex'' (Some ''hi'') None None ''/w'' 1 1700000000000 [] None []))))))))
    = [Handler (ProcessData ''hello''), Handler (ProcessData ''back'')]\<close>
proof -
  define la where \<open>la = ''{"type":"thread.started","thread_id":"th_1"}''\<close>
  define lb where \<open>lb = ''{"type":"item.completed","item":{"type":"agent_message","text":"hello"}}''\<close>
  define lc where \<open>lc = ''{"type":"item.completed","item":{"type":"agent_message","text":"back"}}''\<close>
  define da where \<open>da = ''{"type":"thread.started","thread_id":"th_1"}'' @ [CHR 0x0A] @ ''{"type":"item.comp''\<close>
  define db where \<open>db = ''leted","item":{"type":"agent_message","text":"hello"}}'' @ [CHR 0x0A]
       @ ''{"type":"item.completed","item":{"type":"agent_message","text":"back"}}'' @ [CHR 0x0A]\<close>
  define ea where "ea = \<lparr>ev_type = Some ''thread.started'', ev_thread_id = Some ''th_1'', ev_item_type = None,
                   ev_item_text = None, ev_error_message = None, ev_message = None\<rparr>"
  define eb where "eb = \<lparr>ev_type = Some ''item.completed'', ev_thread_id = None, ev_item_type = Some ''agent_message'',
                   ev_item_text = Some ''hello'', ev_error_message = None, ev_message = None\<rparr>"
  define ec where "ec = \<lparr>ev_type = Some ''item.completed'', ev_thread_id = None, ev_item_type = Some ''agent_message'',
                   ev_item_text = Some ''back'', ev_error_message = None, ev_message = None\<rparr>"
  define rt where "rt = \<lparr>json_parse = (\<lambda>s. if s = la then JsonValue ea else if s = lb then JsonValue eb
                              else if s = lc then JsonValue ec else if s = ''null'' then JsonNull
                              else SyntaxError), sanitize = (\<lambda>x. x)\<rparr>"
  define t where "t = fst (fst (spawn_turn ''codex'' (Some ''hi'') None None ''/w'' 1 1700000000000 [] None []))"
  define reg where "reg = snd (fst (spawn_turn ''codex'' (Some ''hi'') None None ''/w'' 1 1700000000000 [] None []))"
  have tr: "trim la = la" "trim lb = lb" "trim lc = lc" "trim ''not json'' = ''not json''"
    by (simp_all add: la_def lb_def lc_def trim_def is_space_def)
  have ne: "la \<noteq> []" "lb \<noteq> []" "lc \<noteq> []" "lb \<noteq> la" "lc \<noteq> la" "lc \<noteq> lb"
    "''not json'' \<noteq> la" "''not json'' \<noteq> lb" "''not json'' \<noteq> lc"
    by (simp_all add: la_def lb_def lc_def)
  have nl: "CHR 0x0A \<notin> set la" "CHR 0x0A \<notin> set lb" "CHR 0x0A \<notin> set lc" "CHR 0x0A \<notin> set ''not json''"
    by (simp_all add: la_def lb_def lc_def)
  have pa: "json_parse rt (trim la) = JsonValue ea" "json_parse rt (trim lb) = JsonValue eb"
    "json_parse rt (trim lc) = JsonValue ec" "json_parse rt (trim ''not json'') = SyntaxError"
    by (simp_all add: tr rt_def ne)
  have tf: "cliProvider t = ''codex''" "hasResponseHandler t" "codexLineBuffer t = []"
    "\<not> truthy (capturedSessionId t)" "\<not> truthy (sessionId t)" "\<not> sessionCreatedSent t"
    by (simp_all add: t_def spawn_turn_def Let_def truthy_def)
  have id1: "toString_nat 1700000000123 = ''1700000000123''"
    by (simp add: toString_nat.simps digit_char_def)
  have s0: "fst (spawn_turn ''codex'' (Some ''hi'') None None ''/w'' 1 1700000000000 [] None []) = (t, reg)"
    by (simp add: t_def reg_def)
  have cut: "da @ db = la @ [CHR 0x0A] @ lb @ [CHR 0x0A] @ lc @ [CHR 0x0A]"
    by (simp add: da_def db_def la_def lb_def lc_def)
  have "filter is_chunk (snd (on_stdout rt (la @ [CHR 0x0A] @ lb @ [CHR 0x0A] @ lc @ [CHR 0x0A]) 1700000000123 (t, reg)))
          = [Handler (ProcessData ''hello''), Handler (ProcessData ''back'')]
      \<and> filter is_set_external (snd (on_stdout rt (la @ [CHR 0x0A] @ lb @ [CHR 0x0A] @ lc @ [CHR 0x0A]) 1700000000123 (t, reg)))
          = [Store (SetExternalSessionId ''codex_1700000000123'' ''th_1'')]
      \<and> snd (fst (stdout_content rt da t)) @ snd (fst (stdout_content rt db (fst (fst (stdout_content rt da t)))))
          = [Handler (ProcessData ''hello''), Handler (ProcessData ''back'')]"
    using codex_json_lines [where t = t and rt = rt and la = la and lb = lb and lc = lc
        and ea = ea and eb = eb and ec = ec and ma = "''hello''" and mb = "''back''" and tid = "''th_1''"
        and bad = "''not json''" and n = 1700000000123 and reg = reg,
        OF tf(1-3) nl(1) _ pa(1) _ _ _ nl(2) _ pa(2) _ _ _ _ nl(3) _ pa(3) _ _ _ _ nl(4) pa(4)]
      tf(4-6) id1 cut
    by (simp add: tr ne ea_def eb_def ec_def)
  then show ?thesis
    unfolding s0 fst_conv rt_def la_def lb_def lc_def ea_def eb_def ec_def da_def db_def .
qed

section \<open>Properties of the command line\<close>











section \<open>Properties of staging and cleanup\<close>

lemma fs_after_append: "fs_after (xs @ ys) fs = fs_after ys (fs_after xs fs)"
  by (simp add: fs_after_def)

lemma fs_after_unlinks: "fs_after (map Unlink ps) fs = fs - set ps"
  by (induction ps arbitrary: fs) (auto simp: fs_after_def)

text \<open>When at least one file was staged, the cleanup of the close handler removes the files and the directory.\<close>

lemma cleanup_removes_staged:
  assumes "tempImagePaths t \<noteq> []" "tempDir t = Some d" "d \<noteq> []"
  shows "fs_after (cleanup_effects t) fs \<inter> (set (tempImagePaths t) \<union> {d}) = {}"
proof -
  have one: "fs_after [e] s = fs_apply s e" for e s by (simp add: fs_after_def)
  have "fs_after (cleanup_effects t) fs
      = {p \<in> fs - set (tempImagePaths t). p \<noteq> d \<and> \<not> startsWith p (d @ ''/'')}"
    using assms by (simp add: cleanup_effects_def truthy_def fs_after_append fs_after_unlinks one)
  then show ?thesis by auto
qed

text \<open>
  When writing an image fails, the images written before it stay staged and the prompt gets
  no note about them; when all are written, the note is appended.
\<close>

lemma note_skipped_when_write_fails:
  "stage_images ''gemini'' (\<lambda>p. p = ''/w/gemini_tmp_images/1700000000000/image_0.png'') True ''/w''
       1700000000000 (Some [''data:image/png;base64,AAAA'', ''data:image/png;base64,BBBB''])
     = (([''/w/gemini_tmp_images/1700000000000/image_0.png''],
         Some ''/w/gemini_tmp_images/1700000000000'', False),
        [Mkdir ''/w/gemini_tmp_images/1700000000000'',
         WriteFile ''/w/gemini_tmp_images/1700000000000/image_0.png''])"
  "staged_prompt imageNote ''gemini'' (\<lambda>p. p = ''/w/gemini_tmp_images/1700000000000/image_0.png'') True ''/w''
       1700000000000 (Some [''data:image/png;base64,AAAA'', ''data:image/png;base64,BBBB'']) ''hi''
     = ''hi''"
  "staged_prompt imageNote ''gemini'' (\<lambda>p. True) True ''/w''
       1700000000000 (Some [''data:image/png;base64,AAAA'']) ''hi''
     = ''hi'' @ imageNote [''/w/gemini_tmp_images/1700000000000/image_0.png'']"
  by (simp_all add: staged_prompt_def prompt_with_images_def stage_images_def Let_def tempDirName_def
      match_data_url_def startsWith_def extension_of_def toString_nat.simps digit_char_def)

text \<open>
  Claim C7 at a failing input. One image is attached whose data is not a data URL. Staging
  creates the temp directory and stages no file. The turn then runs to a successful end
  (one stdout chunk, exit code 0): the close handler performs no file-system operation,
  because it removes the directory only when at least one file was staged, and the temp
  directory still exists after the turn.
\<close>

theorem temp_dir_left_behind:
  "stage_images ''gemini'' (\<lambda>p. True) True ''/w'' 1700000000000 (Some [''hello''])
     = (([], Some ''/w/gemini_tmp_images/1700000000000'', True), [Mkdir ''/w/gemini_tmp_images/1700000000000''])
   \<and> effects_of (run_log \<lparr>json_parse = (\<lambda>l. SyntaxError), sanitize = (\<lambda>x. x)\<rparr>
         [Stdout ''ok'' 1700000000123, Close (Some 0)]
         (fst (spawn_turn ''gemini'' (Some ''hi'') None None ''/w'' 1 1700000000001 []
                (Some ''/w/gemini_tmp_images/1700000000000'') [])))
     = [Handler (ProcessData ''ok''),
        Store (CreateSession ''gemini_1700000000123'' ''/w'' ''gemini''),
        Store (AddMessage ''gemini_1700000000123'' ''user'' ''hi''),
        WsSend (SessionCreated ''gemini_1700000000123''),
        Handler ForceFlush, Handler Destroy,
        Store (AddMessage ''gemini_1700000000123'' ''assistant'' ''ok''),
        WsSend (GeminiComplete (Some 0) True),
        Settle Resolved]
   \<and> ''/w/gemini_tmp_images/1700000000000'' \<in>
       fs_after ([Mkdir ''/w/gemini_tmp_images/1700000000000'']
                 @ effects_of (run_log \<lparr>json_parse = (\<lambda>l. SyntaxError), sanitize = (\<lambda>x. x)\<rparr>
                     [Stdout ''ok'' 1700000000123, Close (Some 0)]
                     (fst (spawn_turn ''gemini'' (Some ''hi'') None None ''/w'' 1 1700000000001 []
                            (Some ''/w/gemini_tmp_images/1700000000000'') []))))
         {''/w''}"
proof -
  let ?rt = "\<lparr>json_parse = (\<lambda>l. SyntaxError), sanitize = (\<lambda>x. x)\<rparr>"
  let ?d = "''/w/gemini_tmp_images/1700000000000''"
  let ?s0 = "fst (spawn_turn ''gemini'' (Some ''hi'') None None ''/w'' 1 1700000000001 [] (Some ?d) [])"
  let ?t0 = "\<lparr>cliProvider = ''gemini'', command = Some ''hi'', sessionId = None, cwd = None,
      process_cwd = ''/w'', geminiProcess = 1, processKey = ''1700000000001'',
      capturedSessionId = None, sessionCreatedSent = False, fullResponse = [],
      pendingExternalSessionId = None, hasReceivedOutput = False, timeoutPending = True,
      hasResponseHandler = True, outputBuffer = [], codexLineBuffer = [], codexStderrBuffer = [],
      tempImagePaths = [], tempDir = Some ?d, promise = None\<rparr>"
  let ?t1 = "?t0\<lparr>capturedSessionId := Some ''gemini_1700000000123'', sessionCreatedSent := True,
      fullResponse := ''ok'', hasReceivedOutput := True, timeoutPending := False,
      outputBuffer := ''ok''\<rparr>"
  have stage: "stage_images ''gemini'' (\<lambda>p. True) True ''/w'' 1700000000000 (Some [''hello''])
     = (([], Some ?d, True), [Mkdir ?d])"
    by (simp add: stage_images_def Let_def tempDirName_def match_data_url_def startsWith_def
        toString_nat.simps digit_char_def)
  have st0: "?s0 = (?t0, [(''1700000000001'', 1)])"
    by (simp add: spawn_turn_def turn_eval_defs)
  have st1: "on_stdout ?rt ''ok'' 1700000000123 (?t0, [(''1700000000001'', 1)])
      = ((?t1, [(''gemini_1700000000123'', 1)]),
         [Handler (ProcessData ''ok''),
          Store (CreateSession ''gemini_1700000000123'' ''/w'' ''gemini''),
          Store (AddMessage ''gemini_1700000000123'' ''user'' ''hi''),
          WsSend (SessionCreated ''gemini_1700000000123'')])"
    by (simp add: turn_eval_defs)
  have st2: "snd (on_close ?rt (Some 0) (?t1, [(''gemini_1700000000123'', 1)]))
      = [Handler ForceFlush, Handler Destroy,
         Store (AddMessage ''gemini_1700000000123'' ''assistant'' ''ok''),
         WsSend (GeminiComplete (Some 0) True),
         Settle Resolved]"
    by (simp add: turn_eval_defs)
  have fx: "effects_of (run_log ?rt [Stdout ''ok'' 1700000000123, Close (Some 0)] ?s0)
     = [Handler (ProcessData ''ok''),
        Store (CreateSession ''gemini_1700000000123'' ''/w'' ''gemini''),
        Store (AddMessage ''gemini_1700000000123'' ''user'' ''hi''),
        WsSend (SessionCreated ''gemini_1700000000123''),
        Handler ForceFlush, Handler Destroy,
        Store (AddMessage ''gemini_1700000000123'' ''assistant'' ''ok''),
        WsSend (GeminiComplete (Some 0) True),
        Settle Resolved]"
    by (simp only: run_log.simps step.simps st0 st1 st2 fst_conv snd_conv effects_of_def
        list.map concat.simps append.simps)
  have "?d \<in> fs_after ([Mkdir ?d] @ effects_of (run_log ?rt [Stdout ''ok'' 1700000000123, Close (Some 0)] ?s0)) {''/w''}"
    unfolding fx by (simp add: fs_after_def)
  with stage fx show ?thesis by blast
qed

section \<open>Properties of project names\<close>

lemma list_all_unbase64: "list_all (\<lambda>v. unbase64 (enc6 v) = Some v \<and> enc6 v \<noteq> CHR ''='') [0..<64]"
  by code_simp

lemma unbase64_enc6: "v < 64 \<Longrightarrow> unbase64 (enc6 v) = Some v \<and> enc6 v \<noteq> CHR ''=''"
  using list_all_unbase64 by (simp add: list_all_iff)

lemma sextets_of_enc6:
  "\<forall>v \<in> set vs. v < 64 \<Longrightarrow> sextets_of (map enc6 vs) = vs"
proof -
  assume a: "\<forall>v \<in> set vs. v < 64"
  then have "takeWhile (\<lambda>c. c \<noteq> CHR ''='') (map enc6 vs) = map enc6 vs"
    by (induction vs) (simp_all add: unbase64_enc6)
  moreover from a have "List.map_filter unbase64 (map enc6 vs) = vs"
    by (induction vs) (simp_all add: unbase64_enc6 List.map_filter_simps)
  ultimately show ?thesis by (simp only: sextets_of_def)
qed

lemma to_sextets_bound:
  "\<forall>b \<in> set bs. b < 256 \<Longrightarrow> \<forall>v \<in> set (to_sextets bs). v < 64"
proof (induction bs rule: to_sextets.induct)
  case 1
  show ?case by simp
next
  case (2 a)
  then have "a < 256" by simp
  then have "a div 4 < 64" "(a mod 4) * 16 < 64" by simp_all
  then show ?case by simp
next
  case (3 a b)
  then have "a < 256" "b < 256" by simp_all
  then have "a div 4 < 64" "(a mod 4) * 16 + b div 16 < 64" "(b mod 16) * 4 < 64" by arith+
  then show ?case by simp
next
  case (4 a b c rest)
  then have "a < 256" "b < 256" "c < 256" and r: "\<forall>v \<in> set (to_sextets rest). v < 64" by simp_all
  then have "a div 4 < 64" "(a mod 4) * 16 + b div 16 < 64" "(b mod 16) * 4 + c div 64 < 64" "c mod 64 < 64"
    by arith+
  with r show ?case by simp
qed

lemma digit_div: "q < m \<Longrightarrow> (x * m + q) div m = (x :: nat)"
  by simp

lemma digit_mod: "q < m \<Longrightarrow> (x * m + q) mod m = (q :: nat)"
  by simp

lemma from_to_sextets:
  "\<forall>b \<in> set bs. b < 256 \<Longrightarrow> from_sextets (to_sextets bs) = bs"
proof (induction bs rule: to_sextets.induct)
  case 1
  show ?case by simp
next
  case (2 a)
  have "a div 4 * 4 + (a mod 4) * 16 div 16 = a" by simp
  then show ?case by simp
next
  case (3 a b)
  then have "b < 256" by simp
  then have q: "b div 16 < 16" by simp
  have "a div 4 * 4 + ((a mod 4) * 16 + b div 16) div 16 = a"
    by (simp only: digit_div [OF q]) simp
  moreover have "((a mod 4) * 16 + b div 16) mod 16 * 16 + (b mod 16) * 4 div 4 = b"
    by (simp only: digit_mod [OF q]) simp
  ultimately show ?case by simp
next
  case (4 a b c rest)
  then have "b < 256" and "c < 256" and r: "from_sextets (to_sextets rest) = rest" by simp_all
  then have q: "b div 16 < 16" and q': "c div 64 < 4" by simp_all
  have "a div 4 * 4 + ((a mod 4) * 16 + b div 16) div 16 = a"
    by (simp only: digit_div [OF q]) simp
  moreover have "((a mod 4) * 16 + b div 16) mod 16 * 16 + ((b mod 16) * 4 + c div 64) div 4 = b"
    by (simp only: digit_mod [OF q] digit_div [OF q']) simp
  moreover have "((b mod 16) * 4 + c div 64) mod 4 * 64 + c mod 64 = c"
    by (simp only: digit_mod [OF q']) simp
  ultimately show ?case using r by simp
qed

lemma utf8_bytes_ascii:
  "\<forall>c \<in> set p. is_printable c \<Longrightarrow> utf8_bytes p = map of_char p"
  by (induction p) (simp_all add: utf8_bytes_def is_printable_def)

lemma utf8_string_of_char: "utf8_string (map of_char p) = p"
  by (induction p) (simp_all add: utf8_string_def)

lemma tryDecode_encode:
  assumes "\<forall>c \<in> set p. is_printable c"
  shows "tryDecode (encodeProjectPathToName p) = Some p"
proof -
  have b: "\<forall>b \<in> set (map of_char p :: nat list). b < 256" by auto
  show ?thesis
    using to_sextets_bound [OF b] from_to_sextets [OF b]
    by (simp add: tryDecode_def encodeProjectPathToName_def utf8_bytes_ascii [OF assms]
        sextets_of_enc6 utf8_string_of_char)
qed

lemma strip_trailing_id:
  "name \<noteq> [] \<Longrightarrow> last name \<notin> {CHR ''-'', CHR ''_''} \<Longrightarrow> strip_trailing name = name"
  by (cases name rule: rev_cases) (auto simp: strip_trailing_def)

lemma trim_id:
  assumes "p \<noteq> []" "\<not> is_space (hd p)" "\<not> is_space (last p)"
  shows "trim p = p"
proof -
  from assms(1,2) have a: "dropWhile is_space p = p" by (cases p) simp_all
  from assms(1,3) have "dropWhile is_space (rev p) = rev p" by (cases p rule: rev_cases) simp_all
  with a show ?thesis by (simp add: trim_def)
qed

lemma encode_nonempty: "p \<noteq> [] \<Longrightarrow> \<forall>c \<in> set p. is_printable c \<Longrightarrow> encodeProjectPathToName p \<noteq> []"
proof -
  assume "p \<noteq> []" and pr: "\<forall>c \<in> set p. is_printable c"
  then obtain c cs where "p = c # cs" by (cases p) auto
  then have "to_sextets (map of_char p) \<noteq> []"
    by (cases cs; cases "tl cs") auto
  then show ?thesis by (simp add: encodeProjectPathToName_def utf8_bytes_ascii [OF pr])
qed



lemma space_char: "(of_char c :: nat) = 32 \<Longrightarrow> c = CHR '' ''"
  using of_char_eq_iff [of c "CHR '' ''", where ?'a = nat] by simp

lemma list_all_enc6_plain: "list_all (\<lambda>v. enc6 v \<noteq> CHR ''-'' \<and> enc6 v \<noteq> CHR ''_'') [0..<62]"
  by code_simp

lemma enc6_plain: "v < 62 \<Longrightarrow> enc6 v \<noteq> CHR ''-'' \<and> enc6 v \<noteq> CHR ''_''"
  using list_all_enc6_plain by (simp add: list_all_iff)

lemma last_to_sextets:
  "bs \<noteq> [] \<Longrightarrow>
     to_sextets bs \<noteq> [] \<and>
     last (to_sextets bs) =
       (if length bs mod 3 = 0 then last bs mod 64
        else if length bs mod 3 = 1 then (last bs mod 4) * 16
        else (last bs mod 16) * 4)"
proof (induction bs rule: to_sextets.induct)
  case 1
  then show ?case by simp
next
  case (2 a)
  show ?case by simp
next
  case (3 a b)
  show ?case by simp
next
  case (4 a b c rest)
  show ?case
  proof (cases "rest = []")
    case True
    then show ?thesis by simp
  next
    case False
    with 4 have ih: "to_sextets rest \<noteq> []"
      "last (to_sextets rest) =
         (if length rest mod 3 = 0 then last rest mod 64
          else if length rest mod 3 = 1 then (last rest mod 4) * 16
          else (last rest mod 16) * 4)"
      by simp_all
    have len: "length (a # b # c # rest) mod 3 = length rest mod 3" by simp
    have lst: "last (a # b # c # rest) = last rest" using False by simp
    have "last (to_sextets (a # b # c # rest)) = last (to_sextets rest)" using ih(1) by simp
    then show ?thesis unfolding len lst using ih by simp
  qed
qed

lemma char_code: "(of_char c :: nat) = of_char d \<Longrightarrow> c = d"
  by (simp add: of_char_eq_iff)

lemma name_tail:
  assumes ne: "p \<noteq> []" and pr: "\<forall>c \<in> set p. is_printable c"
    and ok: "length p mod 3 \<noteq> 0 \<or> last p \<notin> {CHR ''>'', CHR ''?'', CHR ''~''}"
  shows "last (encodeProjectPathToName p) \<notin> {CHR ''-'', CHR ''_''}"
proof -
  let ?bs = "map of_char p :: nat list"
  let ?x = "of_char (last p) :: nat"
  have bs: "?bs \<noteq> []" "last ?bs = ?x" "length ?bs = length p" using ne by (simp_all add: last_map)
  note ls = last_to_sextets [OF bs(1), unfolded bs(2,3)]
  have "last p \<in> set p" using ne by simp
  with pr have range: "32 \<le> ?x" "?x \<le> 126" by (auto simp: is_printable_def)
  have small: "last (to_sextets ?bs) < 62"
  proof (cases "length p mod 3 = 0")
    case True
    with ok have "last p \<noteq> CHR ''>''" "last p \<noteq> CHR ''?''" "last p \<noteq> CHR ''~''" by simp_all
    then have "?x \<noteq> 62" "?x \<noteq> 63" "?x \<noteq> 126"
      using char_code [of "last p" "CHR ''>''"] char_code [of "last p" "CHR ''?''"]
        char_code [of "last p" "CHR ''~''"]
      by auto
    with range have "?x mod 64 < 62" by arith
    with True ls show ?thesis by simp
  next
    case False
    have "(?x mod 4) * 16 < 62" "(?x mod 16) * 4 < 62" by arith+
    with False ls show ?thesis by simp
  qed
  have "last (encodeProjectPathToName p) = enc6 (last (to_sextets ?bs))"
    using ls by (simp add: encodeProjectPathToName_def utf8_bytes_ascii [OF pr] last_map)
  with enc6_plain [OF small] show ?thesis by simp
qed

text \<open>
  Claim C9, amended. Let \<open>p\<close> be an absolute path of printable ASCII characters that does
  not end in a space, and that does not both have a length divisible by three and end in
  one of the characters \<open>>\<close>, \<open>?\<close>, \<open>~\<close> (exactly then its base64url name ends in
  \<open>-\<close> or \<open>_\<close>). If \<open>p\<close> exists, or if neither \<open>p\<close> without its last character
  nor \<open>p\<close> without its last two characters exists, then decoding the encoded name gives
  back \<open>p\<close>.
\<close>

theorem project_name_roundtrip:
  assumes abs: "isAbsolute p" and pr: "\<forall>c \<in> set p. is_printable c"
    and sp: "last p \<noteq> CHR '' ''"
    and ok: "length p mod 3 \<noteq> 0 \<or> last p \<notin> {CHR ''>'', CHR ''?'', CHR ''~''}"
    and ex: "existsSync p \<or> (\<not> existsSync (butlast p) \<and> \<not> existsSync (butlast (butlast p)))"
  shows "decodeProjectNameToPath existsSync (encodeProjectPathToName p) = Some p"
proof -
  from abs have ne: "p \<noteq> []" and hd: "hd p = CHR ''/''" by (simp_all add: isAbsolute_def)
  have name: "encodeProjectPathToName p \<noteq> []" using ne pr by (rule encode_nonempty)
  have tail: "last (encodeProjectPathToName p) \<notin> {CHR ''-'', CHR ''_''}"
    using ne pr ok by (rule name_tail)
  have strip: "strip_trailing (encodeProjectPathToName p) = encodeProjectPathToName p"
    using name tail by (rule strip_trailing_id)
  have dec: "tryDecode (encodeProjectPathToName p) = Some p" using pr by (rule tryDecode_encode)
  have filt: "filter is_printable p = p" using pr by simp
  have "last p \<in> set p" using ne by simp
  with pr have "is_printable (last p)" by blast
  with sp have l: "\<not> is_space (last p)"
    by (auto simp: is_printable_def is_space_def dest: space_char)
  have h: "\<not> is_space (hd p)" by (simp add: hd is_space_def)
  have tr: "trim p = p" using ne h l by (rule trim_id)
  show ?thesis
    using ne abs ex
    by (auto simp: decodeProjectNameToPath_def name strip dec truthy_def filt tr Let_def)
qed

text \<open>An existing path with a space inside, whose truncation by one character exists as well, comes back unchanged.\<close>

theorem project_name_roundtrip_witness:
  "isAbsolute ''/home/u/my app'' \<and> list_all is_printable ''/home/u/my app''
   \<and> last ''/home/u/my app'' \<noteq> CHR '' ''
   \<and> encodeProjectPathToName ''/home/u/my app'' = ''L2hvbWUvdS9teSBhcHA''
   \<and> decodeProjectNameToPath (\<lambda>p. p = ''/home/u/my app'' \<or> p = ''/home/u/my ap'') ''L2hvbWUvdS9teSBhcHA''
       = Some ''/home/u/my app''"
proof -
  have a: "isAbsolute ''/home/u/my app''" by (simp add: isAbsolute_def)
  have b: "\<forall>c \<in> set ''/home/u/my app''. is_printable c" by (simp add: is_printable_def)
  have c: "last ''/home/u/my app'' \<noteq> CHR '' ''" by simp
  have e: "encodeProjectPathToName ''/home/u/my app'' = ''L2hvbWUvdS9teSBhcHA''"
    by (simp add: encodeProjectPathToName_def utf8_bytes_def enc6_def base64url_chars_def)
  have d: "length ''/home/u/my app'' mod 3 \<noteq> 0 \<or> last ''/home/u/my app'' \<notin> {CHR ''>'', CHR ''?'', CHR ''~''}"
    by simp
  from project_name_roundtrip [of "''/home/u/my app''" "\<lambda>p. p = ''/home/u/my app'' \<or> p = ''/home/u/my ap''",
      OF a b c d] a b c e
  show ?thesis by (simp add: list_all_iff)
qed

text \<open>
  Claim C9, as stated: every absolute path of printable ASCII characters round-trips. Three
  paths that do not: a path ending in a space comes back trimmed; a path that does not exist,
  while the path without its last character does, comes back as the latter; and a path of
  three characters ending in a tilde has a name ending in \<open>-\<close>, which the decoder strips
  before decoding, so the last character is lost.
\<close>

theorem project_name_roundtrip_fails:
  "decodeProjectNameToPath (\<lambda>p. False) (encodeProjectPathToName ''/a '') = Some ''/a''
   \<and> decodeProjectNameToPath (\<lambda>p. p = ''/tmp/'') (encodeProjectPathToName ''/tmp/x'') = Some ''/tmp/''
   \<and> decodeProjectNameToPath (\<lambda>p. False) (encodeProjectPathToName ''/a~'') = Some ''/a''"
proof -
  have e1: "encodeProjectPathToName ''/a '' = ''L2Eg''"
    and e2: "encodeProjectPathToName ''/tmp/x'' = ''L3RtcC94''"
    and e3: "encodeProjectPathToName ''/a~'' = ''L2F-''"
    by (simp_all add: encodeProjectPathToName_def utf8_bytes_def enc6_def base64url_chars_def)
  have d1: "decodeProjectNameToPath (\<lambda>p. False) ''L2Eg'' = Some ''/a''"
    by (simp add: decodeProjectNameToPath_def strip_trailing_def tryDecode_def sextets_of_def
      unbase64_def base64url_chars_def base64_chars_def utf8_string_def List.map_filter_simps
      truthy_def char_of_eq_iff is_printable_def trim_def is_space_def isAbsolute_def Let_def)
  have d2: "decodeProjectNameToPath (\<lambda>p. p = ''/tmp/'') ''L3RtcC94'' = Some ''/tmp/''"
    by (simp add: decodeProjectNameToPath_def strip_trailing_def tryDecode_def sextets_of_def
      unbase64_def base64url_chars_def base64_chars_def utf8_string_def List.map_filter_simps
      truthy_def char_of_eq_iff is_printable_def trim_def is_space_def isAbsolute_def Let_def)
  have d3: "decodeProjectNameToPath (\<lambda>p. False) ''L2F-'' = Some ''/a''"
    by (simp add: decodeProjectNameToPath_def strip_trailing_def tryDecode_def sextets_of_def
      unbase64_def base64url_chars_def base64_chars_def utf8_string_def List.map_filter_simps
      truthy_def char_of_eq_iff is_printable_def trim_def is_space_def isAbsolute_def Let_def)
  show ?thesis unfolding e1 e2 e3 using d1 d2 d3 by blast
qed

end
